theory Spec2Isabelle
  imports Main "HOL-Library.Word"
begin

unbundle bit_operations_syntax

section \<open>The VFIO address-space pipeline of hw/vfio/as.c and hw/vfio/iommufd.c\<close>

text \<open>
  A shallow embedding of the memory-listener pipeline of \<^verbatim>\<open>hw/vfio/as.c\<close> and of the
  DMA operations of the fd-based backend in \<^verbatim>\<open>hw/vfio/iommufd.c\<close>.

  \<^item> \<^verbatim>\<open>hwaddr\<close>, \<^verbatim>\<open>ram_addr_t\<close>, \<^verbatim>\<open>uint64_t\<close> and host pointers are 64-bit words, so
    every addition and subtraction wraps as in C.
  \<^item> \<^verbatim>\<open>Int128\<close> is a 128-bit word read in two's complement.
  \<^item> A C \<^verbatim>\<open>int\<close> status is an \<open>int\<close>; it is only compared with zero and passed on.
  \<^item> \<^verbatim>\<open>hw_error\<close>, \<^verbatim>\<open>assert\<close> and \<^verbatim>\<open>g_assert\<close> end the process: a function that can
    reach one returns \<open>fatal + 'a\<close>, with \<open>Inl\<close> for the abort. \<open>Undefined_read\<close> is the
    read of an object through a pointer to another type, after which C leaves the
    behaviour of the program open; the model stops there as well.
  \<^item> An \<^verbatim>\<open>Error *\<close> is its message, a string; \<^verbatim>\<open>NULL\<close> is \<open>None\<close>.
  \<^item> Every call that leaves these two files (the backend's ioctls, the memory core, the
    RAM discard manager, the reports) is appended to a trace of events; the status such a
    call returns is read from the environment, as a function of the trace so far and of
    the call. The \<^verbatim>\<open>trace_*\<close> debug points have no effect and leave no event, but their
    arguments are evaluated: an argument that can abort is kept.
\<close>

subsection \<open>Data\<close>

type_synonym hwaddr = "64 word"
type_synonym Int128 = "128 word"

datatype fatal = Hw_error string | Assert_failed string | Undefined_read string

text \<open>
  A \<^verbatim>\<open>MemoryRegion\<close>, as far as this code reads it. The memory core is not part of these
  files; each field holds what the accessor of the same name returns. \<open>mr_id\<close> stands for
  the address of the region, which the code compares.
\<close>

record MemoryRegion =
  mr_id :: nat
  memory_region_name :: string
  memory_region_is_ram :: bool
  memory_region_is_iommu :: bool
  memory_region_is_ram_device :: bool
  memory_region_is_protected :: bool
  memory_region_has_ram_discard_manager :: bool
  memory_region_get_ram_ptr :: hwaddr
  memory_region_get_ram_addr :: hwaddr
  ram_discard_manager_get_min_granularity :: hwaddr
  memory_region_iommu_attrs_to_index :: int
  owner_is_tpm_crb :: bool

text \<open>\<^verbatim>\<open>MemoryRegionSection\<close>; \<open>section_size\<close> is its field \<^verbatim>\<open>size\<close>, an \<^verbatim>\<open>Int128\<close>.\<close>

record MemoryRegionSection =
  mr :: MemoryRegion
  offset_within_region :: hwaddr
  offset_within_address_space :: hwaddr
  section_size :: Int128
  readonly :: bool

record VFIOHostDMAWindow =
  min_iova :: hwaddr
  max_iova :: hwaddr
  iova_pgsizes :: "64 word"

text \<open>\<^verbatim>\<open>IOMMUTLBEntry\<close>; \<open>target_as_is_memory\<close> is \<^verbatim>\<open>target_as == &address_space_memory\<close>.\<close>

record IOMMUTLBEntry =
  target_as_is_memory :: bool
  iotlb_iova :: hwaddr
  translated_addr :: hwaddr
  addr_mask :: hwaddr
  perm :: "32 word"

datatype IOMMUNotify =
  Vfio_nested_unmap_notify | Vfio_iommu_map_notify | Vfio_iommu_map_dirty_notify

text \<open>\<^verbatim>\<open>IOMMUNotifier\<close>, as \<^verbatim>\<open>iommu_notifier_init\<close> fills it.\<close>

record IOMMUNotifier =
  notify :: IOMMUNotify
  notifier_flags :: "32 word"
  notifier_start :: hwaddr
  notifier_end :: hwaddr
  iommu_idx :: int

record VFIOGuestIOMMU =
  iommu_mr :: MemoryRegion
  iommu_offset :: hwaddr
  giommu_n :: IOMMUNotifier

record VFIORamDiscardListener =
  vrdl_mr :: MemoryRegion
  vrdl_offset_within_address_space :: hwaddr
  vrdl_size :: hwaddr
  granularity :: hwaddr

datatype VFIOIOMMUBackendOps = Legacy_ops | Iommufd_ops

datatype VFIOContainerFeature = VFIO_FEAT_LIVE_MIGRATION | VFIO_FEAT_DMA_COPY

text \<open>
  A \<^verbatim>\<open>VFIOContainer\<close>. \<open>container_id\<close> stands for its address. \<open>be_fd\<close> and \<open>ioas_id\<close>
  are \<^verbatim>\<open>be->fd\<close> and \<^verbatim>\<open>ioas_id\<close> of the \<^verbatim>\<open>VFIOIOMMUFDContainer\<close> that embeds it when
  \<open>ops\<close> is the fd-based backend.
\<close>

record VFIOContainer =
  container_id :: nat
  ops :: VFIOIOMMUBackendOps
  be_fd :: int
  ioas_id :: "32 word"
  hostwin_list :: "VFIOHostDMAWindow list"
  giommu_list :: "VFIOGuestIOMMU list"
  vrdl_list :: "VFIORamDiscardListener list"
  pgsizes :: "64 word"
  dma_max_mappings :: "32 word"
  nested :: bool
  dirty_pages_supported :: bool
  initialized :: bool
  error :: "string option"

text \<open>
  What the \<^verbatim>\<open>void *opaque\<close> handed to the replay of the RAM discard manager points to: a
  listener, written with the container its field \<^verbatim>\<open>container\<close> names, or the variable
  that holds the pointer to that listener.
\<close>

datatype opaque =
    Listener VFIOContainer VFIORamDiscardListener
  | Listener_variable VFIOContainer VFIORamDiscardListener

text \<open>
  The calls that leave the two files. A container or a region is named by its id.
\<close>

datatype event =
    Dma_map nat hwaddr hwaddr hwaddr bool
  | Dma_copy nat nat hwaddr hwaddr bool
  | Dma_unmap nat hwaddr hwaddr "IOMMUTLBEntry option"
  | Get_dirty_bitmap nat hwaddr hwaddr hwaddr
  | Add_section_window nat MemoryRegionSection
  | Del_section_window nat MemoryRegionSection
  | Memory_region_ref nat
  | Memory_region_unref nat
  | Memory_region_invalidate_cache nat IOMMUTLBEntry
  | Memory_region_iommu_set_page_size_mask nat "64 word"
  | Memory_region_register_iommu_notifier nat IOMMUNotifier
  | Memory_region_unregister_iommu_notifier nat IOMMUNotifier
  | Memory_region_iommu_replay nat IOMMUNotifier
  | Ram_discard_manager_register_listener nat MemoryRegionSection
  | Ram_discard_manager_unregister_listener nat hwaddr
  | Ram_discard_manager_replay_populated nat MemoryRegionSection opaque
  | Error_report string
  | Warn_report string
  | Info_report string

text \<open>
  The environment: the page sizes of the build and of the host, and what the collaborators
  answer. \<open>status tr ev\<close> is the status the call \<open>ev\<close> returns after the trace \<open>tr\<close>,
  \<open>error_message tr ev\<close> the message of the \<^verbatim>\<open>Error\<close> it sets when it fails.
  \<open>add_window\<close> is the backend's optional \<^verbatim>\<open>add_window\<close> operation behind
  \<^verbatim>\<open>vfio_container_add_section_window\<close>: an error message, or the window list it leaves;
  \<open>del_window\<close> likewise for \<^verbatim>\<open>vfio_container_del_section_window\<close>.
\<close>

record env =
  qemu_real_host_page_size :: hwaddr
  TARGET_PAGE_SIZE :: hwaddr
  max_memslots :: "32 word"
  status :: "event list \<Rightarrow> event \<Rightarrow> int"
  error_message :: "event list \<Rightarrow> event \<Rightarrow> string"
  add_window :: "event list \<Rightarrow> VFIOContainer \<Rightarrow> MemoryRegionSection
                   \<Rightarrow> string + VFIOHostDMAWindow list"
  del_window :: "event list \<Rightarrow> VFIOContainer \<Rightarrow> MemoryRegionSection
                   \<Rightarrow> VFIOHostDMAWindow list"
  memory_get_xlat_addr :: "IOMMUTLBEntry \<Rightarrow> (hwaddr \<times> hwaddr \<times> bool \<times> bool) option"
  devices_all_dirty_tracking :: "VFIOContainer \<Rightarrow> bool"

subsection \<open>Helpers of the QEMU headers\<close>

text \<open>
  Modelled from the spec: the \<^verbatim>\<open>Int128\<close> helpers of \<^verbatim>\<open>include/qemu/int128.h\<close> are not
  among the source files. The spec's data model gives a section's size as a 128-bit
  integer ("to permit \<open>2^64\<close> exactly"); each helper has the meaning its name states on
  128-bit two's-complement values. \<open>int128_get64\<close> returns the low 64 bits and asserts
  that nothing is lost.
\<close>

definition int128_make64 :: "64 word \<Rightarrow> Int128" where
  "int128_make64 a = ucast a"

definition int128_exts64 :: "64 word \<Rightarrow> Int128" where
  "int128_exts64 a = scast a"

definition int128_one :: Int128 where
  "int128_one = 1"

definition int128_2_64 :: Int128 where
  "int128_2_64 = push_bit 64 1"

definition int128_add :: "Int128 \<Rightarrow> Int128 \<Rightarrow> Int128" where
  "int128_add a b = a + b"

definition int128_sub :: "Int128 \<Rightarrow> Int128 \<Rightarrow> Int128" where
  "int128_sub a b = a - b"

definition int128_and :: "Int128 \<Rightarrow> Int128 \<Rightarrow> Int128" where
  "int128_and a b = a AND b"

definition int128_rshift :: "Int128 \<Rightarrow> nat \<Rightarrow> Int128" where
  "int128_rshift a k = signed_drop_bit k a"

definition int128_ge :: "Int128 \<Rightarrow> Int128 \<Rightarrow> bool" where
  "int128_ge a b \<longleftrightarrow> sint b \<le> sint a"

definition int128_eq :: "Int128 \<Rightarrow> Int128 \<Rightarrow> bool" where
  "int128_eq a b \<longleftrightarrow> a = b"

definition int128_getlo :: "Int128 \<Rightarrow> 64 word" where
  "int128_getlo a = ucast a"

definition int128_get64 :: "Int128 \<Rightarrow> fatal + 64 word" where
  "int128_get64 a =
     (if ucast (ucast a :: 64 word) = a then Inr (ucast a)
      else Inl (Assert_failed ''int128_get64: r == a''))"

text \<open>
  Modelled from the spec: the alignment macros of \<^verbatim>\<open>include/qemu/osdep.h\<close> and
  \<^verbatim>\<open>include/exec/cpu-all.h\<close> are not among the source files. \<open>REAL_HOST_PAGE_ALIGN\<close> is the
  macro \<^verbatim>\<open>vfio_container_region_add\<close> applies to \<^verbatim>\<open>offset_within_address_space\<close>, which
  the spec (4.3.2) describes as rounding "up to host page size";
  \<^verbatim>\<open>qemu_real_host_page_mask()\<close> is the mask that rounds the end "down". \<open>ROUND_UP\<close> is the
  round-up of the populate loop (4.3.6), \<open>TARGET_PAGE_ALIGN\<close> and \<open>TARGET_PAGE_MASK\<close> are
  the same two for the target page size. The divisor is a power of two, and rounding is
  done on the bits, in 64-bit arithmetic.
\<close>

definition ROUND_UP :: "64 word \<Rightarrow> 64 word \<Rightarrow> 64 word" where
  "ROUND_UP k d = (k + d - 1) AND (- d)"

definition QEMU_ALIGN_DOWN :: "64 word \<Rightarrow> 64 word \<Rightarrow> 64 word" where
  "QEMU_ALIGN_DOWN k d = (k div d) * d"

definition QEMU_IS_ALIGNED :: "64 word \<Rightarrow> 64 word \<Rightarrow> bool" where
  "QEMU_IS_ALIGNED k d \<longleftrightarrow> k mod d = 0"

definition qemu_real_host_page_mask :: "env \<Rightarrow> 64 word" where
  "qemu_real_host_page_mask e = - qemu_real_host_page_size e"

definition REAL_HOST_PAGE_ALIGN :: "env \<Rightarrow> 64 word \<Rightarrow> 64 word" where
  "REAL_HOST_PAGE_ALIGN e addr = ROUND_UP addr (qemu_real_host_page_size e)"

definition TARGET_PAGE_MASK :: "env \<Rightarrow> 64 word" where
  "TARGET_PAGE_MASK e = - TARGET_PAGE_SIZE e"

definition TARGET_PAGE_ALIGN :: "env \<Rightarrow> 64 word \<Rightarrow> 64 word" where
  "TARGET_PAGE_ALIGN e addr = (addr + (TARGET_PAGE_SIZE e - 1)) AND TARGET_PAGE_MASK e"

text \<open>
  Modelled from the spec: \<^verbatim>\<open>ctz64\<close> and \<^verbatim>\<open>is_power_of_2\<close> of \<^verbatim>\<open>include/qemu/host-utils.h\<close>
  are not among the source files. \<open>ctz64\<close> counts the trailing zero bits (64 for 0), so
  that \<open>1 << ctz64 pgsizes\<close> is the "smallest page size" of a page-size bitmap.
\<close>

definition ctz64 :: "64 word \<Rightarrow> nat" where
  "ctz64 w = length (takeWhile (\<lambda>i. \<not> bit w i) [0..<64])"

definition is_power_of_2 :: "64 word \<Rightarrow> bool" where
  "is_power_of_2 w \<longleftrightarrow> w \<noteq> 0 \<and> w AND (w - 1) = 0"

text \<open>
  Modelled from the spec: \<^verbatim>\<open>ranges_overlap\<close> of \<^verbatim>\<open>include/qemu/range.h\<close> is not among the
  source files. The spec (4.1) has \<open>add\<close> fail "if any existing window overlaps
  \<open>[min,max]\<close>": two ranges, each given by its first address and its length, overlap
  unless one ends before the other starts.
\<close>

definition range_get_last :: "64 word \<Rightarrow> 64 word \<Rightarrow> 64 word" where
  "range_get_last first len = first + len - 1"

definition ranges_overlap :: "64 word \<Rightarrow> 64 word \<Rightarrow> 64 word \<Rightarrow> 64 word \<Rightarrow> bool" where
  "ranges_overlap first1 len1 first2 len2 \<longleftrightarrow>
     \<not> (range_get_last first2 len2 < first1 \<or> range_get_last first1 len1 < first2)"

text \<open>
  Constants of \<^verbatim>\<open>include/exec/memory.h\<close> and \<^verbatim>\<open>errno.h\<close>, with the values of those
  headers. Modelled from the spec: the notifier flags are not among the source files; the
  spec (4.3.2) has the two callback kinds "UNMAP-only" and "MAP+UNMAP", the second being
  \<open>IOMMU_NOTIFIER_IOTLB_EVENTS\<close>.
\<close>

definition IOMMU_NOTIFIER_UNMAP :: "32 word" where
  "IOMMU_NOTIFIER_UNMAP = 1"

definition IOMMU_NOTIFIER_MAP :: "32 word" where
  "IOMMU_NOTIFIER_MAP = 2"

definition IOMMU_NOTIFIER_IOTLB_EVENTS :: "32 word" where
  "IOMMU_NOTIFIER_IOTLB_EVENTS = IOMMU_NOTIFIER_UNMAP OR IOMMU_NOTIFIER_MAP"

definition IOMMU_NONE :: "32 word" where
  "IOMMU_NONE = 0"

definition IOMMU_RW :: "32 word" where
  "IOMMU_RW = 3"

definition EFAULT :: int where
  "EFAULT = 14"

definition EINVAL :: int where
  "EINVAL = 22"

subsection \<open>The host window table\<close>

text \<open>
  \<^verbatim>\<open>vfio_host_win_add\<close>: the loop over the list stops the process at the first window that
  overlaps; otherwise the new window goes to the head of the list.
\<close>

definition vfio_host_win_add ::
  "VFIOContainer \<Rightarrow> hwaddr \<Rightarrow> hwaddr \<Rightarrow> 64 word \<Rightarrow> fatal + VFIOContainer" where
  "vfio_host_win_add container mn mx pgs =
     (if list_ex (\<lambda>hostwin. ranges_overlap (min_iova hostwin)
                              (max_iova hostwin - min_iova hostwin + 1)
                              mn (mx - mn + 1))
                 (hostwin_list container)
      then Inl (Hw_error ''vfio_host_win_add: Overlapped IOMMU are not enabled'')
      else Inr (container\<lparr>hostwin_list :=
                  \<lparr>min_iova = mn, max_iova = mx, iova_pgsizes = pgs\<rparr>
                    # hostwin_list container\<rparr>))"

fun host_win_remove :: "VFIOHostDMAWindow list \<Rightarrow> hwaddr \<Rightarrow> hwaddr
                          \<Rightarrow> VFIOHostDMAWindow list option" where
  "host_win_remove [] mn mx = None"
| "host_win_remove (hostwin # ws) mn mx =
     (if min_iova hostwin = mn \<and> max_iova hostwin = mx then Some ws
      else map_option ((#) hostwin) (host_win_remove ws mn mx))"

text \<open>\<^verbatim>\<open>vfio_host_win_del\<close>: the status, and the container as the call leaves it.\<close>

definition vfio_host_win_del ::
  "VFIOContainer \<Rightarrow> hwaddr \<Rightarrow> hwaddr \<Rightarrow> int \<times> VFIOContainer" where
  "vfio_host_win_del container mn mx =
     (case host_win_remove (hostwin_list container) mn mx of
        Some ws \<Rightarrow> (0, container\<lparr>hostwin_list := ws\<rparr>)
      | None \<Rightarrow> (- 1, container))"

text \<open>
  \<^verbatim>\<open>hostwin_from_range\<close>: the first window that holds \<open>[iova, end]\<close>, \<open>None\<close> for \<^verbatim>\<open>NULL\<close>.
\<close>

definition hostwin_from_range ::
  "VFIOContainer \<Rightarrow> hwaddr \<Rightarrow> hwaddr \<Rightarrow> VFIOHostDMAWindow option" where
  "hostwin_from_range container iova end_incl =
     find (\<lambda>hostwin. min_iova hostwin \<le> iova \<and> end_incl \<le> max_iova hostwin)
          (hostwin_list container)"

subsection \<open>The backend operations\<close>

text \<open>\<^verbatim>\<open>iommufd_check_extension\<close>.\<close>

definition iommufd_check_extension :: "VFIOContainer \<Rightarrow> VFIOContainerFeature \<Rightarrow> bool" where
  "iommufd_check_extension bcontainer feat =
     (case feat of VFIO_FEAT_DMA_COPY \<Rightarrow> True | _ \<Rightarrow> False)"

text \<open>
  Modelled from the spec: \<^verbatim>\<open>vfio_container_check_extension\<close> (hw/vfio/container.c) and the
  legacy backend are not among the source files. The call goes to the backend's
  \<^verbatim>\<open>check_extension\<close>; the legacy variant is the one with "no copy" (4.2).
\<close>

definition vfio_container_check_extension ::
  "VFIOContainer \<Rightarrow> VFIOContainerFeature \<Rightarrow> bool" where
  "vfio_container_check_extension container feat =
     (case ops container of
        Iommufd_ops \<Rightarrow> iommufd_check_extension container feat
      | Legacy_ops \<Rightarrow> False)"

text \<open>A call to a collaborator that returns a status: the call is traced, the status read.\<close>

definition collaborator_call :: "env \<Rightarrow> event \<Rightarrow> event list \<Rightarrow> int \<times> event list" where
  "collaborator_call e ev tr = (status e tr ev, tr @ [ev])"

text \<open>
  \<^verbatim>\<open>iommufd_map\<close> and \<^verbatim>\<open>iommufd_unmap\<close> hand the call to the backend object
  (\<^verbatim>\<open>iommufd_backend_map_dma\<close>, \<^verbatim>\<open>iommufd_backend_unmap_dma\<close>), \<^verbatim>\<open>iommufd_copy\<close> does so
  after its assertion on the two fds.
\<close>

definition iommufd_map ::
  "env \<Rightarrow> VFIOContainer \<Rightarrow> hwaddr \<Rightarrow> hwaddr \<Rightarrow> hwaddr \<Rightarrow> bool \<Rightarrow> event list
     \<Rightarrow> int \<times> event list" where
  "iommufd_map e bcontainer iova sz vaddr ro tr =
     collaborator_call e (Dma_map (container_id bcontainer) iova sz vaddr ro) tr"

definition iommufd_unmap ::
  "env \<Rightarrow> VFIOContainer \<Rightarrow> hwaddr \<Rightarrow> hwaddr \<Rightarrow> IOMMUTLBEntry option \<Rightarrow> event list
     \<Rightarrow> int \<times> event list" where
  "iommufd_unmap e bcontainer iova sz iotlb tr =
     collaborator_call e (Dma_unmap (container_id bcontainer) iova sz iotlb) tr"

definition iommufd_copy ::
  "env \<Rightarrow> VFIOContainer \<Rightarrow> VFIOContainer \<Rightarrow> hwaddr \<Rightarrow> hwaddr \<Rightarrow> bool \<Rightarrow> event list
     \<Rightarrow> fatal + int \<times> event list" where
  "iommufd_copy e src dst iova sz ro tr =
     (if be_fd src = be_fd dst
      then Inr (collaborator_call e
                  (Dma_copy (container_id src) (container_id dst) iova sz ro) tr)
      else Inl (Assert_failed ''container_src->be->fd == container_dst->be->fd''))"

text \<open>
  Modelled from the spec: the wrappers \<^verbatim>\<open>vfio_container_dma_map\<close>,
  \<^verbatim>\<open>vfio_container_dma_unmap\<close>, \<^verbatim>\<open>vfio_container_dma_copy\<close> and
  \<^verbatim>\<open>vfio_container_get_dirty_bitmap\<close> of hw/vfio/container.c, and the legacy backend
  behind them, are not among the source files. Each hands the call to the container's
  backend (spec 4.2: "all synchronous, all report either success or a negative error
  code"); \<open>copy\<close> exists only between two containers of the fd-based backend and fails
  with \<open>-EINVAL\<close> otherwise.
\<close>

definition vfio_container_dma_map ::
  "env \<Rightarrow> VFIOContainer \<Rightarrow> hwaddr \<Rightarrow> hwaddr \<Rightarrow> hwaddr \<Rightarrow> bool \<Rightarrow> event list
     \<Rightarrow> int \<times> event list" where
  "vfio_container_dma_map e container iova sz vaddr ro tr =
     (case ops container of
        Iommufd_ops \<Rightarrow> iommufd_map e container iova sz vaddr ro tr
      | Legacy_ops \<Rightarrow>
          collaborator_call e (Dma_map (container_id container) iova sz vaddr ro) tr)"

definition vfio_container_dma_unmap ::
  "env \<Rightarrow> VFIOContainer \<Rightarrow> hwaddr \<Rightarrow> hwaddr \<Rightarrow> IOMMUTLBEntry option \<Rightarrow> event list
     \<Rightarrow> int \<times> event list" where
  "vfio_container_dma_unmap e container iova sz iotlb tr =
     (case ops container of
        Iommufd_ops \<Rightarrow> iommufd_unmap e container iova sz iotlb tr
      | Legacy_ops \<Rightarrow>
          collaborator_call e (Dma_unmap (container_id container) iova sz iotlb) tr)"

definition vfio_container_dma_copy ::
  "env \<Rightarrow> VFIOContainer \<Rightarrow> VFIOContainer \<Rightarrow> hwaddr \<Rightarrow> hwaddr \<Rightarrow> bool \<Rightarrow> event list
     \<Rightarrow> fatal + int \<times> event list" where
  "vfio_container_dma_copy e src dst iova sz ro tr =
     (if ops src = Iommufd_ops \<and> ops dst = Iommufd_ops
      then iommufd_copy e src dst iova sz ro tr
      else Inr (- EINVAL,
                tr @ [Error_report ''Incompatiable container: unable to copy dma'']))"

definition vfio_container_get_dirty_bitmap ::
  "env \<Rightarrow> VFIOContainer \<Rightarrow> hwaddr \<Rightarrow> hwaddr \<Rightarrow> hwaddr \<Rightarrow> event list
     \<Rightarrow> int \<times> event list" where
  "vfio_container_get_dirty_bitmap e container iova sz ram tr =
     collaborator_call e (Get_dirty_bitmap (container_id container) iova sz ram) tr"

text \<open>
  Modelled from the spec: \<^verbatim>\<open>vfio_container_add_section_window\<close> and
  \<^verbatim>\<open>vfio_container_del_section_window\<close> of hw/vfio/container.c are not among the source
  files. Per the spec (4.3.2, 4.3.7) the first "may extend the window list" or fail, the
  second lets "the collaborator remove the section window": the call is traced and the
  environment gives the error or the window list.
\<close>

definition vfio_container_add_section_window ::
  "env \<Rightarrow> VFIOContainer \<Rightarrow> MemoryRegionSection \<Rightarrow> event list
     \<Rightarrow> (string + VFIOContainer) \<times> event list" where
  "vfio_container_add_section_window e container section tr =
     (case add_window e tr container section of
        Inl err \<Rightarrow> (Inl err, tr @ [Add_section_window (container_id container) section])
      | Inr ws \<Rightarrow> (Inr (container\<lparr>hostwin_list := ws\<rparr>),
                   tr @ [Add_section_window (container_id container) section]))"

definition vfio_container_del_section_window ::
  "env \<Rightarrow> VFIOContainer \<Rightarrow> MemoryRegionSection \<Rightarrow> event list
     \<Rightarrow> VFIOContainer \<times> event list" where
  "vfio_container_del_section_window e container section tr =
     (container\<lparr>hostwin_list := del_window e tr container section\<rparr>,
      tr @ [Del_section_window (container_id container) section])"

subsection \<open>Section filtering\<close>

definition vfio_listener_skipped_section :: "MemoryRegionSection \<Rightarrow> bool" where
  "vfio_listener_skipped_section section \<longleftrightarrow>
     (\<not> memory_region_is_ram (mr section) \<and> \<not> memory_region_is_iommu (mr section)) \<or>
     memory_region_is_protected (mr section) \<or>
     offset_within_address_space section AND push_bit 63 1 \<noteq> 0"

text \<open>
  \<^verbatim>\<open>vfio_known_safe_misalignment\<close>; whether the owner is a TPM CRB device is a fact of
  the region.
\<close>

definition vfio_known_safe_misalignment :: "MemoryRegionSection \<Rightarrow> bool" where
  "vfio_known_safe_misalignment section = owner_is_tpm_crb (mr section)"

subsection \<open>The guest-IOMMU notifier callbacks\<close>

definition warn_discard_msg :: string where
  "warn_discard_msg =
     ''Using vfio with vIOMMUs and coordinated discarding of RAM works, however, malicious guests can trigger pinning of more memory than intended via an IOMMU''"

text \<open>
  \<^verbatim>\<open>vfio_get_xlat_addr\<close>: the translation is the memory core's; \<^verbatim>\<open>warn_report_once\<close>
  reports only when it has not reported before.
\<close>

definition vfio_get_xlat_addr ::
  "env \<Rightarrow> IOMMUTLBEntry \<Rightarrow> event list \<Rightarrow> (hwaddr \<times> hwaddr \<times> bool) option \<times> event list"
  where
  "vfio_get_xlat_addr e iotlb tr =
     (case memory_get_xlat_addr e iotlb of
        None \<Rightarrow> (None, tr)
      | Some (vaddr, ram, read_only, mr_has_discard_manager) \<Rightarrow>
          (Some (vaddr, ram, read_only),
           if mr_has_discard_manager \<and> Warn_report warn_discard_msg \<notin> set tr
           then tr @ [Warn_report warn_discard_msg] else tr))"

text \<open>\<^verbatim>\<open>vfio_nested_unmap_notify\<close>.\<close>

definition vfio_nested_unmap_notify ::
  "VFIOGuestIOMMU \<Rightarrow> IOMMUTLBEntry \<Rightarrow> event list \<Rightarrow> event list" where
  "vfio_nested_unmap_notify giommu iotlb tr =
     tr @ [Memory_region_invalidate_cache (mr_id (iommu_mr giommu)) iotlb]"

text \<open>\<^verbatim>\<open>vfio_iommu_map_notify\<close>; \<open>container\<close> is \<^verbatim>\<open>giommu->container\<close>.\<close>

definition vfio_iommu_map_notify ::
  "env \<Rightarrow> VFIOContainer \<Rightarrow> VFIOGuestIOMMU \<Rightarrow> IOMMUTLBEntry \<Rightarrow> event list \<Rightarrow> event list"
  where
  "vfio_iommu_map_notify e container giommu iotlb tr =
     (let iova = iotlb_iova iotlb + iommu_offset giommu in
      if \<not> target_as_is_memory iotlb
      then tr @ [Error_report ''Wrong target AS, only system memory is allowed'']
      else if perm iotlb AND IOMMU_RW \<noteq> IOMMU_NONE
      then (case vfio_get_xlat_addr e iotlb tr of
              (None, tr1) \<Rightarrow> tr1
            | (Some (vaddr, ram, read_only), tr1) \<Rightarrow>
                (case vfio_container_dma_map e container iova (addr_mask iotlb + 1)
                        vaddr read_only tr1 of
                   (r, tr2) \<Rightarrow>
                     if r \<noteq> 0 then tr2 @ [Error_report ''vfio_dma_map failed''] else tr2))
      else (case vfio_container_dma_unmap e container iova (addr_mask iotlb + 1)
                   (Some iotlb) tr of
              (r, tr1) \<Rightarrow>
                if r \<noteq> 0 then tr1 @ [Error_report ''vfio_dma_unmap failed''] else tr1))"

text \<open>
  The memory core delivers an IOTLB event to a registered notifier by calling the
  callback the notifier was initialised with.
\<close>

definition iommu_notifier_deliver ::
  "env \<Rightarrow> VFIOContainer \<Rightarrow> VFIOGuestIOMMU \<Rightarrow> IOMMUTLBEntry \<Rightarrow> event list \<Rightarrow> event list"
  where
  "iommu_notifier_deliver e container giommu iotlb tr =
     (case notify (giommu_n giommu) of
        Vfio_nested_unmap_notify \<Rightarrow> vfio_nested_unmap_notify giommu iotlb tr
      | Vfio_iommu_map_notify \<Rightarrow> vfio_iommu_map_notify e container giommu iotlb tr
      | Vfio_iommu_map_dirty_notify \<Rightarrow> tr)"

subsection \<open>The RAM discard listener\<close>

text \<open>\<^verbatim>\<open>vfio_ram_discard_notify_discard\<close>: one unmap for the whole section.\<close>

definition vfio_ram_discard_notify_discard ::
  "env \<Rightarrow> VFIOContainer \<Rightarrow> MemoryRegionSection \<Rightarrow> event list \<Rightarrow> fatal + event list" where
  "vfio_ram_discard_notify_discard e container section tr =
     (case int128_get64 (section_size section) of
        Inl f \<Rightarrow> Inl f
      | Inr sz \<Rightarrow>
          (case vfio_container_dma_unmap e container
                  (offset_within_address_space section) sz None tr of
             (r, tr1) \<Rightarrow>
               Inr (if r \<noteq> 0
                    then tr1 @ [Error_report
                                  ''vfio_ram_discard_notify_discard: vfio_dma_unmap() failed'']
                    else tr1)))"

text \<open>
  The loop of \<^verbatim>\<open>vfio_ram_discard_notify_populate\<close>, from \<open>start\<close>. In 64-bit arithmetic
  \<open>ROUND_UP (start + 1)\<close> can wrap to 0, and then the loop need not end: the result is an
  option, \<open>None\<close> when the loop runs forever.
\<close>

partial_function (option) populate_loop ::
  "env \<Rightarrow> VFIOContainer \<Rightarrow> VFIORamDiscardListener \<Rightarrow> MemoryRegionSection \<Rightarrow> hwaddr
     \<Rightarrow> hwaddr \<Rightarrow> event list \<Rightarrow> (fatal + int \<times> event list) option" where
  "populate_loop e container vrdl section end_excl start tr =
     (if start < end_excl
      then (case vfio_container_dma_map e container
                   (start - offset_within_region section
                      + offset_within_address_space section)
                   (min (ROUND_UP (start + 1) (granularity vrdl)) end_excl - start)
                   (memory_region_get_ram_ptr (mr section) + start)
                   (readonly section) tr of
              (r, tr1) \<Rightarrow>
                if r \<noteq> 0
                then (case vfio_ram_discard_notify_discard e container section tr1 of
                        Inl f \<Rightarrow> Some (Inl f)
                      | Inr tr2 \<Rightarrow> Some (Inr (r, tr2)))
                else populate_loop e container vrdl section end_excl
                       (min (ROUND_UP (start + 1) (granularity vrdl)) end_excl) tr1)
      else Some (Inr (0, tr)))"

definition vfio_ram_discard_notify_populate ::
  "env \<Rightarrow> VFIOContainer \<Rightarrow> VFIORamDiscardListener \<Rightarrow> MemoryRegionSection \<Rightarrow> event list
     \<Rightarrow> (fatal + int \<times> event list) option" where
  "vfio_ram_discard_notify_populate e container vrdl section tr =
     (case int128_get64 (section_size section) of
        Inl f \<Rightarrow> Some (Inl f)
      | Inr sz \<Rightarrow>
          populate_loop e container vrdl section (offset_within_region section + sz)
            (offset_within_region section) tr)"

text \<open>
  The sanity check at the end of \<^verbatim>\<open>vfio_register_ram_discard_listener\<close>: the loop over
  the listeners, in \<^verbatim>\<open>unsigned int\<close> arithmetic; the result is
  \<open>(vrdl_count, vrdl_mappings)\<close>.
\<close>

definition vrdl_count_mappings :: "VFIORamDiscardListener list \<Rightarrow> 32 word \<times> 32 word" where
  "vrdl_count_mappings vrdls =
     foldl (\<lambda>(vrdl_count, vrdl_mappings) vrdl.
              (vrdl_count + 1,
               vrdl_mappings +
                 ucast ((ROUND_UP (vrdl_offset_within_address_space vrdl + vrdl_size vrdl)
                           (granularity vrdl)
                         - QEMU_ALIGN_DOWN (vrdl_offset_within_address_space vrdl)
                             (granularity vrdl))
                        div granularity vrdl)))
           (0, 0) vrdls"

text \<open>
  \<^verbatim>\<open>vfio_register_ram_discard_listener\<close>. Registering hands the listener to the discard
  manager, which then drives \<^verbatim>\<open>vfio_ram_discard_notify_populate\<close> and
  \<^verbatim>\<open>vfio_ram_discard_notify_discard\<close>; the registration is traced, the callbacks are
  the functions above.
\<close>

definition vfio_register_ram_discard_listener ::
  "env \<Rightarrow> VFIOContainer \<Rightarrow> MemoryRegionSection \<Rightarrow> event list
     \<Rightarrow> fatal + VFIOContainer \<times> event list" where
  "vfio_register_ram_discard_listener e container section tr =
     (if \<not> QEMU_IS_ALIGNED (offset_within_region section) (TARGET_PAGE_SIZE e)
      then Inl (Assert_failed ''QEMU_IS_ALIGNED(section->offset_within_region, TARGET_PAGE_SIZE)'')
      else if \<not> QEMU_IS_ALIGNED (offset_within_address_space section) (TARGET_PAGE_SIZE e)
      then Inl (Assert_failed
                  ''QEMU_IS_ALIGNED(section->offset_within_address_space, TARGET_PAGE_SIZE)'')
      else
        (case int128_get64 (section_size section) of
           Inl f \<Rightarrow> Inl f
         | Inr sz \<Rightarrow>
             if \<not> QEMU_IS_ALIGNED sz (TARGET_PAGE_SIZE e)
             then Inl (Assert_failed
                         ''QEMU_IS_ALIGNED(int128_get64(section->size), TARGET_PAGE_SIZE)'')
             else
               (let vrdl = \<lparr>vrdl_mr = mr section,
                            vrdl_offset_within_address_space =
                              offset_within_address_space section,
                            vrdl_size = sz,
                            granularity =
                              ram_discard_manager_get_min_granularity (mr section)\<rparr>
                in
                if \<not> (granularity vrdl \<noteq> 0 \<and> is_power_of_2 (granularity vrdl))
                then Inl (Assert_failed
                            ''vrdl->granularity && is_power_of_2(vrdl->granularity)'')
                else if \<not> (pgsizes container \<noteq> 0 \<and>
                             push_bit (ctz64 (pgsizes container)) 1 \<le> granularity vrdl)
                then Inl (Assert_failed
                   ''container->pgsizes && vrdl->granularity >= 1ULL << ctz64(container->pgsizes)'')
                else
                  (let tr1 = tr @ [Ram_discard_manager_register_listener
                                     (mr_id (mr section)) section];
                       vrdls = vrdl # vrdl_list container
                   in Inr (container\<lparr>vrdl_list := vrdls\<rparr>,
                           if dma_max_mappings container \<noteq> 0 \<and>
                              dma_max_mappings container
                                < snd (vrdl_count_mappings vrdls) + max_memslots e
                                    - fst (vrdl_count_mappings vrdls)
                           then tr1 @ [Warn_report
                             ''vfio_register_ram_discard_listener: possibly running out of DMA mappings'']
                           else tr1)))))"

text \<open>
  \<^verbatim>\<open>vfio_unregister_ram_discard_listener\<close>: the first listener of the region at this
  address; the process stops when there is none.
\<close>

definition vfio_unregister_ram_discard_listener ::
  "env \<Rightarrow> VFIOContainer \<Rightarrow> MemoryRegionSection \<Rightarrow> event list
     \<Rightarrow> fatal + VFIOContainer \<times> event list" where
  "vfio_unregister_ram_discard_listener e container section tr =
     (case find (\<lambda>vrdl. mr_id (vrdl_mr vrdl) = mr_id (mr section) \<and>
                        vrdl_offset_within_address_space vrdl =
                          offset_within_address_space section)
                (vrdl_list container) of
        None \<Rightarrow> Inl (Hw_error ''vfio: Trying to unregister missing RAM discard listener'')
      | Some vrdl \<Rightarrow>
          Inr (container\<lparr>vrdl_list := remove1 vrdl (vrdl_list container)\<rparr>,
               tr @ [Ram_discard_manager_unregister_listener (mr_id (mr section))
                       (offset_within_address_space section)]))"

subsection \<open>Mapping and unmapping a RAM section\<close>

text \<open>
  The test \<^verbatim>\<open>(iova & pgmask) || (int128_get64(llsize) & pgmask)\<close> on a RAM device, with
  \<^verbatim>\<open>pgmask = (1ULL << ctz64(hostwin->iova_pgsizes)) - 1\<close>; it stands in
  \<^verbatim>\<open>vfio_dma_map_ram_section\<close> and in \<^verbatim>\<open>vfio_dma_unmap_ram_section\<close>. The right operand
  is evaluated only when the left one is zero.
\<close>

definition ram_device_misaligned ::
  "VFIOHostDMAWindow \<Rightarrow> hwaddr \<Rightarrow> Int128 \<Rightarrow> fatal + bool" where
  "ram_device_misaligned hostwin iova llsize =
     (let pgmask = push_bit (ctz64 (iova_pgsizes hostwin)) 1 - 1 in
      if iova AND pgmask \<noteq> 0 then Inr True
      else (case int128_get64 llsize of
              Inl f \<Rightarrow> Inl f
            | Inr sz \<Rightarrow> Inr (sz AND pgmask \<noteq> 0)))"

text \<open>
  \<^verbatim>\<open>copy_dma_supported\<close> in \<^verbatim>\<open>vfio_dma_map_ram_section\<close>, after its two assignments: the
  container advertises the feature, and \<^verbatim>\<open>src_container && *src_container\<close>. The result
  is the source container when the flag is set. \<open>src_container\<close> is \<open>None\<close> for a
  \<^verbatim>\<open>NULL\<close> pointer, \<open>Some None\<close> for a pointer to \<^verbatim>\<open>NULL\<close>.
\<close>

definition copy_dma_source ::
  "VFIOContainer \<Rightarrow> VFIOContainer option option \<Rightarrow> VFIOContainer option" where
  "copy_dma_source container src_container =
     (if vfio_container_check_extension container VFIO_FEAT_DMA_COPY
      then (case src_container of Some (Some src) \<Rightarrow> Some src | _ \<Rightarrow> None)
      else None)"

text \<open>
  The end of \<^verbatim>\<open>vfio_dma_map_ram_section\<close>, from the test of the copy feature on: the
  copy when there is a source, else (or when the copy fails) the map. The result is the
  error the function returns (\<open>None\<close> for 0 with no error set), the pointer
  \<^verbatim>\<open>*src_container\<close> names and the trace.
\<close>

definition vfio_dma_map_ram_section_dma ::
  "env \<Rightarrow> VFIOContainer \<Rightarrow> VFIOContainer option option \<Rightarrow> MemoryRegionSection \<Rightarrow> hwaddr
     \<Rightarrow> Int128 \<Rightarrow> hwaddr \<Rightarrow> event list
     \<Rightarrow> fatal + (int \<times> string) option \<times> VFIOContainer option option \<times> event list" where
  "vfio_dma_map_ram_section_dma e container src_container section iova llsize vaddr tr =
     (case int128_get64 llsize of
        Inl f \<Rightarrow> Inl f
      | Inr sz \<Rightarrow>
          (case (case copy_dma_source container src_container of
                   None \<Rightarrow> Inr (False, tr)
                 | Some src \<Rightarrow>
                     (case vfio_container_dma_copy e src container iova sz
                             (readonly section) tr of
                        Inl f \<Rightarrow> Inl f
                      | Inr (r, tr1) \<Rightarrow>
                          Inr (if r = 0 then (True, tr1)
                               else (False, tr1 @ [Info_report
                                        ''IOAS copy failed try map for container'']))))
           of
             Inl f \<Rightarrow> Inl f
           | Inr (True, tr1) \<Rightarrow> Inr (None, src_container, tr1)
           | Inr (False, tr1) \<Rightarrow>
               (case vfio_container_dma_map e container iova sz vaddr (readonly section) tr1
                of (r, tr2) \<Rightarrow>
                  if r \<noteq> 0
                  then (if memory_region_is_ram_device (mr section)
                        then Inr (None, src_container,
                                  tr2 @ [Error_report ''vfio_container_dma_map failed''])
                        else Inr (Some (r, ''vfio_container_dma_map failed''),
                                  src_container, tr2))
                  else Inr (None,
                            if copy_dma_source container src_container \<noteq> None
                            then Some (Some container) else src_container,
                            tr2))))"

text \<open>\<^verbatim>\<open>vfio_dma_map_ram_section\<close>.\<close>

definition vfio_dma_map_ram_section ::
  "env \<Rightarrow> VFIOContainer \<Rightarrow> VFIOContainer option option \<Rightarrow> MemoryRegionSection \<Rightarrow> event list
     \<Rightarrow> fatal + (int \<times> string) option \<times> VFIOContainer \<times> VFIOContainer option option
                 \<times> event list" where
  "vfio_dma_map_ram_section e container src_container section tr =
     (if \<not> memory_region_is_ram (mr section)
      then Inl (Assert_failed ''memory_region_is_ram(section->mr)'')
      else
        (let iova = TARGET_PAGE_ALIGN e (offset_within_address_space section);
             llend = int128_and
                       (int128_add (int128_make64 (offset_within_address_space section))
                          (section_size section))
                       (int128_exts64 (TARGET_PAGE_MASK e))
         in
         case int128_get64 (int128_sub llend int128_one) of
           Inl f \<Rightarrow> Inl f
         | Inr end_incl \<Rightarrow>
             if memory_region_has_ram_discard_manager (mr section)
             then (case vfio_register_ram_discard_listener e container section tr of
                     Inl f \<Rightarrow> Inl f
                   | Inr (c1, tr1) \<Rightarrow> Inr (None, c1, src_container, tr1))
             else
               (case hostwin_from_range container iova end_incl of
                  None \<Rightarrow>
                    Inr (Some (- EFAULT, ''Container can't map guest IOVA region''),
                         container, src_container, tr)
                | Some hostwin \<Rightarrow>
                    (let llsize = int128_sub llend (int128_make64 iova);
                         vaddr = memory_region_get_ram_ptr (mr section)
                                 + offset_within_region section
                                 + (iova - offset_within_address_space section)
                     in
                     case (if memory_region_is_ram_device (mr section)
                           then ram_device_misaligned hostwin iova llsize
                           else Inr False) of
                       Inl f \<Rightarrow> Inl f
                     | Inr True \<Rightarrow> Inr (None, container, src_container, tr)
                     | Inr False \<Rightarrow>
                         (case vfio_dma_map_ram_section_dma e container src_container
                                 section iova llsize vaddr tr of
                            Inl f \<Rightarrow> Inl f
                          | Inr (err, src1, tr1) \<Rightarrow> Inr (err, container, src1, tr1))))))"

text \<open>An unmap whose failure is only reported, as \<^verbatim>\<open>vfio_dma_unmap_ram_section\<close> does twice.\<close>

definition unmap_and_report ::
  "env \<Rightarrow> VFIOContainer \<Rightarrow> hwaddr \<Rightarrow> hwaddr \<Rightarrow> event list \<Rightarrow> event list" where
  "unmap_and_report e container iova sz tr =
     (case vfio_container_dma_unmap e container iova sz None tr of
        (r, tr1) \<Rightarrow> if r \<noteq> 0 then tr1 @ [Error_report ''vfio_dma_unmap failed''] else tr1)"

text \<open>
  The end of \<^verbatim>\<open>vfio_dma_unmap_ram_section\<close>, under \<^verbatim>\<open>if (try_unmap)\<close>: a span of
  \<open>2^64\<close> is halved and unmapped in two calls.
\<close>

definition vfio_dma_unmap_ram_section_unmap ::
  "env \<Rightarrow> VFIOContainer \<Rightarrow> hwaddr \<Rightarrow> Int128 \<Rightarrow> event list \<Rightarrow> fatal + event list" where
  "vfio_dma_unmap_ram_section_unmap e container iova llsize tr =
     (if int128_eq llsize int128_2_64
      then (case int128_get64 (int128_rshift llsize 1) of
              Inl f \<Rightarrow> Inl f
            | Inr sz \<Rightarrow>
                Inr (unmap_and_report e container (iova + sz) sz
                       (unmap_and_report e container iova sz tr)))
      else (case int128_get64 llsize of
              Inl f \<Rightarrow> Inl f
            | Inr sz \<Rightarrow> Inr (unmap_and_report e container iova sz tr)))"

text \<open>
  \<^verbatim>\<open>try_unmap\<close> in \<^verbatim>\<open>vfio_dma_unmap_ram_section\<close>, with the container and the trace as
  the two branches leave them.
\<close>

definition vfio_dma_unmap_ram_section_try ::
  "env \<Rightarrow> VFIOContainer \<Rightarrow> MemoryRegionSection \<Rightarrow> hwaddr \<Rightarrow> hwaddr \<Rightarrow> Int128 \<Rightarrow> event list
     \<Rightarrow> fatal + bool \<times> VFIOContainer \<times> event list" where
  "vfio_dma_unmap_ram_section_try e container section iova end_incl llsize tr =
     (if memory_region_is_ram_device (mr section)
      then (case hostwin_from_range container iova end_incl of
              None \<Rightarrow> Inl (Assert_failed ''hostwin'')
            | Some hostwin \<Rightarrow>
                (case ram_device_misaligned hostwin iova llsize of
                   Inl f \<Rightarrow> Inl f
                 | Inr b \<Rightarrow> Inr (\<not> b, container, tr)))
      else if memory_region_has_ram_discard_manager (mr section)
      then (case vfio_unregister_ram_discard_listener e container section tr of
              Inl f \<Rightarrow> Inl f
            | Inr (c1, tr1) \<Rightarrow> Inr (False, c1, tr1))
      else Inr (True, container, tr))"

text \<open>\<^verbatim>\<open>vfio_dma_unmap_ram_section\<close>.\<close>

definition vfio_dma_unmap_ram_section ::
  "env \<Rightarrow> VFIOContainer \<Rightarrow> MemoryRegionSection \<Rightarrow> event list
     \<Rightarrow> fatal + VFIOContainer \<times> event list" where
  "vfio_dma_unmap_ram_section e container section tr =
     (let iova = REAL_HOST_PAGE_ALIGN e (offset_within_address_space section);
          llend = int128_and
                    (int128_add (int128_make64 (offset_within_address_space section))
                       (section_size section))
                    (int128_exts64 (qemu_real_host_page_mask e))
      in
      if int128_ge (int128_make64 iova) llend then Inr (container, tr)
      else
        (case int128_get64 (int128_sub llend int128_one) of
           Inl f \<Rightarrow> Inl f
         | Inr end_incl \<Rightarrow>
             (case vfio_dma_unmap_ram_section_try e container section iova end_incl
                     (int128_sub llend (int128_make64 iova)) tr of
                Inl f \<Rightarrow> Inl f
              | Inr (try_unmap, c1, tr1) \<Rightarrow>
                  if try_unmap
                  then (case vfio_dma_unmap_ram_section_unmap e c1 iova
                                (int128_sub llend (int128_make64 iova)) tr1 of
                          Inl f \<Rightarrow> Inl f
                        | Inr tr2 \<Rightarrow> Inr (c1, tr2))
                  else Inr (c1, tr1))))"

subsection \<open>The nested pre-registration listener\<close>

definition vfio_prereg_listener_region_add ::
  "env \<Rightarrow> VFIOContainer \<Rightarrow> MemoryRegionSection \<Rightarrow> event list
     \<Rightarrow> fatal + VFIOContainer \<times> event list" where
  "vfio_prereg_listener_region_add e container section tr =
     (if \<not> memory_region_is_ram (mr section) then Inr (container, tr)
      else (case vfio_dma_map_ram_section e container None section tr of
              Inl f \<Rightarrow> Inl f
            | Inr (err, c1, src1, tr1) \<Rightarrow>
                Inr (c1, case err of
                           None \<Rightarrow> tr1
                         | Some (r, msg) \<Rightarrow> tr1 @ [Error_report msg])))"

definition vfio_prereg_listener_region_del ::
  "env \<Rightarrow> VFIOContainer \<Rightarrow> MemoryRegionSection \<Rightarrow> event list
     \<Rightarrow> fatal + VFIOContainer \<times> event list" where
  "vfio_prereg_listener_region_del e container section tr =
     (if \<not> memory_region_is_ram (mr section) then Inr (container, tr)
      else vfio_dma_unmap_ram_section e container section tr)"

subsection \<open>region_add\<close>

text \<open>
  How the body of \<^verbatim>\<open>vfio_container_region_add\<close> ends: at a \<^verbatim>\<open>return\<close>, or at
  \<^verbatim>\<open>goto fail\<close> with the error that has been set.
\<close>

datatype region_add_exit = Return | Goto_fail string

text \<open>
  The test for a section whose two offsets disagree below the host page size, in
  \<^verbatim>\<open>vfio_container_region_add\<close> and \<^verbatim>\<open>vfio_container_region_del\<close>.
\<close>

definition section_misaligned :: "env \<Rightarrow> MemoryRegionSection \<Rightarrow> bool" where
  "section_misaligned e section \<longleftrightarrow>
     offset_within_address_space section AND NOT (qemu_real_host_page_mask e)
       \<noteq> offset_within_region section AND NOT (qemu_real_host_page_mask e)"

text \<open>
  The branch of \<^verbatim>\<open>vfio_container_region_add\<close> for an IOMMU region. \<open>flags\<close> and the
  callback follow \<open>nested\<close>; \<^verbatim>\<open>iommu_notifier_init\<close> is called with the callback and with
  the constant \<^verbatim>\<open>IOMMU_NOTIFIER_IOTLB_EVENTS\<close>; \<open>flags\<close> decides the replay.
\<close>

definition vfio_container_region_add_iommu ::
  "env \<Rightarrow> VFIOContainer \<Rightarrow> MemoryRegionSection \<Rightarrow> event list
     \<Rightarrow> fatal + region_add_exit \<times> VFIOContainer \<times> event list" where
  "vfio_container_region_add_iommu e container section tr =
     (case int128_get64
             (int128_sub
                (int128_add (int128_make64 (offset_within_region section))
                   (section_size section))
                int128_one) of
        Inl f \<Rightarrow> Inl f
      | Inr llend \<Rightarrow>
          (let flags = (if nested container then IOMMU_NOTIFIER_UNMAP
                        else IOMMU_NOTIFIER_IOTLB_EVENTS);
               giommu =
                 \<lparr>iommu_mr = mr section,
                  iommu_offset = offset_within_address_space section
                                 - offset_within_region section,
                  giommu_n =
                    \<lparr>notify = (if nested container then Vfio_nested_unmap_notify
                               else Vfio_iommu_map_notify),
                     notifier_flags = IOMMU_NOTIFIER_IOTLB_EVENTS,
                     notifier_start = offset_within_region section,
                     notifier_end = llend,
                     iommu_idx = memory_region_iommu_attrs_to_index (mr section)\<rparr>\<rparr>;
               set_mask = Memory_region_iommu_set_page_size_mask (mr_id (mr section))
                            (pgsizes container);
               reg = Memory_region_register_iommu_notifier (mr_id (mr section))
                       (giommu_n giommu)
           in
           case collaborator_call e set_mask tr of
             (r, tr1) \<Rightarrow>
               if r \<noteq> 0 then Inr (Goto_fail (error_message e tr set_mask), container, tr1)
               else
                 (case collaborator_call e reg tr1 of
                    (r2, tr2) \<Rightarrow>
                      if r2 \<noteq> 0
                      then Inr (Goto_fail (error_message e tr1 reg), container, tr2)
                      else Inr (Return,
                                container\<lparr>giommu_list := giommu # giommu_list container\<rparr>,
                                if flags AND IOMMU_NOTIFIER_MAP \<noteq> 0
                                then tr2 @ [Memory_region_iommu_replay (mr_id (mr section))
                                              (giommu_n giommu)]
                                else tr2))))"

text \<open>
  \<^verbatim>\<open>vfio_container_region_add\<close> up to its label \<^verbatim>\<open>fail\<close>. For a skipped section the
  arguments of \<^verbatim>\<open>trace_vfio_listener_region_add_skip\<close> are evaluated before the return,
  among them \<^verbatim>\<open>int128_get64(int128_sub(section->size, int128_one()))\<close>, whose assertion
  fails for a size of 0 or above \<open>2 ^ 64\<close>.
\<close>

definition vfio_container_region_add_body ::
  "env \<Rightarrow> VFIOContainer \<Rightarrow> VFIOContainer option option \<Rightarrow> MemoryRegionSection \<Rightarrow> event list
     \<Rightarrow> fatal + region_add_exit \<times> VFIOContainer \<times> VFIOContainer option option \<times> event list"
  where
  "vfio_container_region_add_body e container src_container section tr =
     (if vfio_listener_skipped_section section
      then (case int128_get64 (int128_sub (section_size section) int128_one) of
              Inl f \<Rightarrow> Inl f
            | Inr last_offset \<Rightarrow> Inr (Return, container, src_container, tr))
      else if section_misaligned e section
      then Inr (Return, container, src_container,
                if vfio_known_safe_misalignment section then tr
                else tr @ [Error_report
                             ''vfio_container_region_add received unaligned region''])
      else
        (let iova = REAL_HOST_PAGE_ALIGN e (offset_within_address_space section);
             llend = int128_and
                       (int128_add (int128_make64 (offset_within_address_space section))
                          (section_size section))
                       (int128_exts64 (qemu_real_host_page_mask e))
         in
         if int128_ge (int128_make64 iova) llend
         then Inr (Return, container, src_container, tr)
         else
           (case int128_get64 (int128_sub llend int128_one) of
              Inl f \<Rightarrow> Inl f
            | Inr end_incl \<Rightarrow>
                (case vfio_container_add_section_window e container section tr of
                   (Inl err, tr1) \<Rightarrow> Inr (Goto_fail err, container, src_container, tr1)
                 | (Inr c1, tr1) \<Rightarrow>
                     (case hostwin_from_range c1 iova end_incl of
                        None \<Rightarrow>
                          Inr (Goto_fail ''Container can't map guest IOVA region'',
                               c1, src_container, tr1)
                      | Some hostwin \<Rightarrow>
                          (let tr2 = tr1 @ [Memory_region_ref (mr_id (mr section))] in
                           if memory_region_is_iommu (mr section)
                           then (case vfio_container_region_add_iommu e c1 section tr2 of
                                   Inl f \<Rightarrow> Inl f
                                 | Inr (ex, c2, tr3) \<Rightarrow> Inr (ex, c2, src_container, tr3))
                           else (case vfio_dma_map_ram_section e c1 src_container
                                        section tr2 of
                                   Inl f \<Rightarrow> Inl f
                                 | Inr (None, c2, src1, tr3) \<Rightarrow> Inr (Return, c2, src1, tr3)
                                 | Inr (Some (r, msg), c2, src1, tr3) \<Rightarrow>
                                     Inr (Goto_fail msg, c2, src1, tr3))))))))"

text \<open>
  The code of \<^verbatim>\<open>vfio_container_region_add\<close> at its label \<^verbatim>\<open>fail\<close>, with the error \<open>err\<close>.
  \<^verbatim>\<open>error_propagate_prepend\<close> stores the error, with the prefix put before its message;
  \<^verbatim>\<open>error_free\<close> drops it.
\<close>

definition vfio_container_region_add_fail ::
  "VFIOContainer \<Rightarrow> MemoryRegionSection \<Rightarrow> string \<Rightarrow> event list
     \<Rightarrow> fatal + VFIOContainer \<times> event list" where
  "vfio_container_region_add_fail container section err tr =
     (if memory_region_is_ram_device (mr section)
      then Inr (container,
                tr @ [Error_report ''failed to vfio_dma_map. pci p2p may not work''])
      else if \<not> initialized container
      then (if error container = None
            then Inr (container\<lparr>error :=
                        Some (''Region '' @ memory_region_name (mr section) @ '': '' @ err)\<rparr>,
                      tr)
            else Inr (container, tr))
      else Inl (Hw_error ''vfio: DMA mapping failed, unable to continue''))"

text \<open>\<^verbatim>\<open>vfio_container_region_add\<close>.\<close>

definition vfio_container_region_add ::
  "env \<Rightarrow> VFIOContainer \<Rightarrow> VFIOContainer option option \<Rightarrow> MemoryRegionSection \<Rightarrow> event list
     \<Rightarrow> fatal + VFIOContainer \<times> VFIOContainer option option \<times> event list" where
  "vfio_container_region_add e container src_container section tr =
     (case vfio_container_region_add_body e container src_container section tr of
        Inl f \<Rightarrow> Inl f
      | Inr (Return, c1, src1, tr1) \<Rightarrow> Inr (c1, src1, tr1)
      | Inr (Goto_fail err, c1, src1, tr1) \<Rightarrow>
          (case vfio_container_region_add_fail c1 section err tr1 of
             Inl f \<Rightarrow> Inl f
           | Inr (c2, tr2) \<Rightarrow> Inr (c2, src1, tr2)))"

text \<open>
  A \<^verbatim>\<open>VFIOAddressSpace\<close>: its containers, in list order, and whether its listener is
  registered.
\<close>

record VFIOAddressSpace =
  containers :: "VFIOContainer list"
  listener_initialized :: bool

text \<open>
  The loop of \<^verbatim>\<open>vfio_listener_region_add\<close> over the containers of the space, with the
  local \<^verbatim>\<open>src_container\<close> it passes by address.
\<close>

fun region_add_containers ::
  "env \<Rightarrow> VFIOContainer option option \<Rightarrow> MemoryRegionSection \<Rightarrow> event list
     \<Rightarrow> VFIOContainer list
     \<Rightarrow> fatal + VFIOContainer list \<times> VFIOContainer option option \<times> event list" where
  "region_add_containers e src_container section tr [] = Inr ([], src_container, tr)"
| "region_add_containers e src_container section tr (container # cs) =
     (case vfio_container_region_add e container src_container section tr of
        Inl f \<Rightarrow> Inl f
      | Inr (c1, src1, tr1) \<Rightarrow>
          (case region_add_containers e src1 section tr1 cs of
             Inl f \<Rightarrow> Inl f
           | Inr (cs1, src2, tr2) \<Rightarrow> Inr (c1 # cs1, src2, tr2)))"

definition vfio_listener_region_add ::
  "env \<Rightarrow> VFIOAddressSpace \<Rightarrow> MemoryRegionSection \<Rightarrow> event list
     \<Rightarrow> fatal + VFIOAddressSpace \<times> event list" where
  "vfio_listener_region_add e space section tr =
     (case region_add_containers e (Some None) section tr (containers space) of
        Inl f \<Rightarrow> Inl f
      | Inr (cs, src, tr1) \<Rightarrow> Inr (space\<lparr>containers := cs\<rparr>, tr1))"

subsection \<open>region_del\<close>

text \<open>
  The loop of \<^verbatim>\<open>vfio_container_region_del\<close> over the guest-IOMMU notifiers: the first
  one of this region that starts at this offset is unregistered and removed.
\<close>

definition region_del_giommu ::
  "VFIOContainer \<Rightarrow> MemoryRegionSection \<Rightarrow> event list \<Rightarrow> VFIOContainer \<times> event list" where
  "region_del_giommu container section tr =
     (case find (\<lambda>giommu. mr_id (iommu_mr giommu) = mr_id (mr section) \<and>
                          notifier_start (giommu_n giommu) = offset_within_region section)
                (giommu_list container) of
        None \<Rightarrow> (container, tr)
      | Some giommu \<Rightarrow>
          (container\<lparr>giommu_list := remove1 giommu (giommu_list container)\<rparr>,
           tr @ [Memory_region_unregister_iommu_notifier (mr_id (mr section))
                   (giommu_n giommu)]))"

text \<open>
  \<^verbatim>\<open>vfio_container_region_del\<close>. Its skip branch evaluates the arguments of
  \<^verbatim>\<open>trace_vfio_listener_region_del_skip\<close> as that of region_add does.
\<close>

definition vfio_container_region_del ::
  "env \<Rightarrow> VFIOContainer \<Rightarrow> MemoryRegionSection \<Rightarrow> event list
     \<Rightarrow> fatal + VFIOContainer \<times> event list" where
  "vfio_container_region_del e container section tr =
     (if vfio_listener_skipped_section section
      then (case int128_get64 (int128_sub (section_size section) int128_one) of
              Inl f \<Rightarrow> Inl f
            | Inr last_offset \<Rightarrow> Inr (container, tr))
      else if section_misaligned e section
      then Inr (container,
                if vfio_known_safe_misalignment section then tr
                else tr @ [Error_report
                             ''vfio_container_region_del received unaligned region''])
      else
        (case (if memory_region_is_iommu (mr section)
               then region_del_giommu container section tr else (container, tr)) of
           (c1, tr1) \<Rightarrow>
             (case vfio_dma_unmap_ram_section e c1 section tr1 of
                Inl f \<Rightarrow> Inl f
              | Inr (c2, tr2) \<Rightarrow>
                  Inr (vfio_container_del_section_window e c2 section
                         (tr2 @ [Memory_region_unref (mr_id (mr section))])))))"

fun region_del_containers ::
  "env \<Rightarrow> MemoryRegionSection \<Rightarrow> event list \<Rightarrow> VFIOContainer list
     \<Rightarrow> fatal + VFIOContainer list \<times> event list" where
  "region_del_containers e section tr [] = Inr ([], tr)"
| "region_del_containers e section tr (container # cs) =
     (case vfio_container_region_del e container section tr of
        Inl f \<Rightarrow> Inl f
      | Inr (c1, tr1) \<Rightarrow>
          (case region_del_containers e section tr1 cs of
             Inl f \<Rightarrow> Inl f
           | Inr (cs1, tr2) \<Rightarrow> Inr (c1 # cs1, tr2)))"

definition vfio_listener_region_del ::
  "env \<Rightarrow> VFIOAddressSpace \<Rightarrow> MemoryRegionSection \<Rightarrow> event list
     \<Rightarrow> fatal + VFIOAddressSpace \<times> event list" where
  "vfio_listener_region_del e space section tr =
     (case region_del_containers e section tr (containers space) of
        Inl f \<Rightarrow> Inl f
      | Inr (cs, tr1) \<Rightarrow> Inr (space\<lparr>containers := cs\<rparr>, tr1))"

subsection \<open>log_sync\<close>

text \<open>
  \<^verbatim>\<open>vfio_iommu_map_dirty_notify\<close>, the callback of the transient notifier of
  \<^verbatim>\<open>vfio_sync_dirty_bitmap\<close>, and \<^verbatim>\<open>vfio_ram_discard_get_dirty_bitmap\<close>, the callback
  given to the discard manager's replay. The latter reads its \<^verbatim>\<open>opaque\<close> as a pointer to
  a listener and passes \<^verbatim>\<open>vrdl->container\<close> on; when \<^verbatim>\<open>opaque\<close> is the address of a
  variable, the field read is not the container of a listener (what it is rests on the
  layout of the structure, declared outside these files).
\<close>

definition vfio_iommu_map_dirty_notify ::
  "env \<Rightarrow> VFIOContainer \<Rightarrow> VFIOGuestIOMMU \<Rightarrow> IOMMUTLBEntry \<Rightarrow> event list \<Rightarrow> event list"
  where
  "vfio_iommu_map_dirty_notify e container giommu iotlb tr =
     (let iova = iotlb_iova iotlb + iommu_offset giommu in
      if \<not> target_as_is_memory iotlb
      then tr @ [Error_report ''Wrong target AS, only system memory is allowed'']
      else (case vfio_get_xlat_addr e iotlb tr of
              (None, tr1) \<Rightarrow> tr1
            | (Some (vaddr, ram, read_only), tr1) \<Rightarrow>
                (case vfio_container_get_dirty_bitmap e container iova
                        (addr_mask iotlb + 1) ram tr1 of
                   (r, tr2) \<Rightarrow>
                     if r \<noteq> 0
                     then tr2 @ [Error_report ''vfio_iommu_map_dirty_notify failed'']
                     else tr2)))"

definition vfio_ram_discard_get_dirty_bitmap ::
  "env \<Rightarrow> MemoryRegionSection \<Rightarrow> opaque \<Rightarrow> event list \<Rightarrow> fatal + int \<times> event list"
  where
  "vfio_ram_discard_get_dirty_bitmap e section opaque tr =
     (case int128_get64 (section_size section) of
        Inl f \<Rightarrow> Inl f
      | Inr sz \<Rightarrow>
          (case opaque of
             Listener container vrdl \<Rightarrow>
               Inr (vfio_container_get_dirty_bitmap e container
                      (offset_within_address_space section) sz
                      (memory_region_get_ram_addr (mr section)
                       + offset_within_region section)
                      tr)
           | Listener_variable container vrdl \<Rightarrow>
               Inl (Undefined_read ''vrdl->container'')))"

text \<open>
  \<^verbatim>\<open>vfio_sync_ram_discard_listener_dirty_bitmap\<close>: the replay is the discard manager's,
  which calls \<^verbatim>\<open>vfio_ram_discard_get_dirty_bitmap\<close> for the populated parts with the
  \<^verbatim>\<open>opaque\<close> it is given here. That is \<^verbatim>\<open>&vrdl\<close>, the address of the local variable, not
  the listener \<^verbatim>\<open>vrdl\<close> the loop has found.
\<close>

definition vfio_sync_ram_discard_listener_dirty_bitmap ::
  "env \<Rightarrow> VFIOContainer \<Rightarrow> MemoryRegionSection \<Rightarrow> event list
     \<Rightarrow> fatal + int \<times> event list" where
  "vfio_sync_ram_discard_listener_dirty_bitmap e container section tr =
     (case find (\<lambda>vrdl. mr_id (vrdl_mr vrdl) = mr_id (mr section) \<and>
                        vrdl_offset_within_address_space vrdl =
                          offset_within_address_space section)
                (vrdl_list container) of
        None \<Rightarrow> Inl (Hw_error ''vfio: Trying to sync missing RAM discard listener'')
      | Some vrdl \<Rightarrow>
          Inr (collaborator_call e
                 (Ram_discard_manager_replay_populated (mr_id (mr section)) section
                    (Listener_variable container vrdl))
                 tr))"

text \<open>
  \<^verbatim>\<open>vfio_sync_dirty_bitmap\<close>. For an IOMMU region the replay through the transient
  notifier is the memory core's, which calls \<^verbatim>\<open>vfio_iommu_map_dirty_notify\<close> for the
  mapped entries.
\<close>

definition vfio_sync_dirty_bitmap ::
  "env \<Rightarrow> VFIOContainer \<Rightarrow> MemoryRegionSection \<Rightarrow> event list
     \<Rightarrow> fatal + int \<times> event list" where
  "vfio_sync_dirty_bitmap e container section tr =
     (if memory_region_is_iommu (mr section)
      then (case find (\<lambda>giommu. mr_id (iommu_mr giommu) = mr_id (mr section) \<and>
                                notifier_start (giommu_n giommu)
                                  = offset_within_region section)
                      (giommu_list container) of
              None \<Rightarrow> Inr (0, tr)
            | Some giommu \<Rightarrow>
                (case int128_get64
                        (int128_sub
                           (int128_add (int128_make64 (offset_within_region section))
                              (section_size section))
                           int128_one) of
                   Inl f \<Rightarrow> Inl f
                 | Inr llend \<Rightarrow>
                     Inr (0, tr @ [Memory_region_iommu_replay (mr_id (iommu_mr giommu))
                                     \<lparr>notify = Vfio_iommu_map_dirty_notify,
                                      notifier_flags = IOMMU_NOTIFIER_MAP,
                                      notifier_start = offset_within_region section,
                                      notifier_end = llend,
                                      iommu_idx = memory_region_iommu_attrs_to_index
                                                    (iommu_mr giommu)\<rparr>])))
      else if memory_region_has_ram_discard_manager (mr section)
      then vfio_sync_ram_discard_listener_dirty_bitmap e container section tr
      else (case int128_get64 (section_size section) of
              Inl f \<Rightarrow> Inl f
            | Inr sz \<Rightarrow>
                Inr (vfio_container_get_dirty_bitmap e container
                       (REAL_HOST_PAGE_ALIGN e (offset_within_address_space section)) sz
                       (memory_region_get_ram_addr (mr section)
                        + offset_within_region section)
                       tr)))"

text \<open>
  \<^verbatim>\<open>vfio_container_log_sync\<close>. Modelled from the spec:
  \<^verbatim>\<open>vfio_container_devices_all_dirty_tracking\<close> (hw/vfio/container.c) is not among the
  source files; it tells whether the "devices in the container collectively require
  tracking" (4.3.8), a fact of the environment.
\<close>

definition vfio_container_log_sync ::
  "env \<Rightarrow> VFIOContainer \<Rightarrow> MemoryRegionSection \<Rightarrow> event list \<Rightarrow> fatal + event list" where
  "vfio_container_log_sync e container section tr =
     (if vfio_listener_skipped_section section \<or> \<not> dirty_pages_supported container
      then Inr tr
      else if devices_all_dirty_tracking e container
      then (case vfio_sync_dirty_bitmap e container section tr of
              Inl f \<Rightarrow> Inl f
            | Inr (r, tr1) \<Rightarrow> Inr tr1)
      else Inr tr)"

fun log_sync_containers ::
  "env \<Rightarrow> MemoryRegionSection \<Rightarrow> event list \<Rightarrow> VFIOContainer list \<Rightarrow> fatal + event list"
  where
  "log_sync_containers e section tr [] = Inr tr"
| "log_sync_containers e section tr (container # cs) =
     (case vfio_container_log_sync e container section tr of
        Inl f \<Rightarrow> Inl f
      | Inr tr1 \<Rightarrow> log_sync_containers e section tr1 cs)"

definition vfio_listener_log_sync ::
  "env \<Rightarrow> VFIOAddressSpace \<Rightarrow> MemoryRegionSection \<Rightarrow> event list \<Rightarrow> fatal + event list" where
  "vfio_listener_log_sync e space section tr =
     log_sync_containers e section tr (containers space)"

subsection \<open>The end of the attach\<close>

text \<open>
  \<^verbatim>\<open>iommufd_attach_device\<close>, after \<^verbatim>\<open>vfio_as_add_container\<close> has registered the memory
  listener and the memory core has delivered the sections: an error latched in the
  container fails the attach with status \<open>-1\<close> and the error, prefixed; otherwise the
  container becomes initialized.
\<close>

definition iommufd_attach_device_listener_check ::
  "VFIOContainer \<Rightarrow> int \<times> string + VFIOContainer" where
  "iommufd_attach_device_listener_check bcontainer =
     (case error bcontainer of
        Some err \<Rightarrow> Inl (- 1, ''memory listener initialization failed: '' @ err)
      | None \<Rightarrow> Inr (bcontainer\<lparr>initialized := True\<rparr>))"

section \<open>Notions of the specification\<close>

subsection \<open>Host windows\<close>

text \<open>The addresses of a window, and a window list without two windows that share one.\<close>

definition win_range :: "VFIOHostDMAWindow \<Rightarrow> hwaddr set" where
  "win_range w = {min_iova w .. max_iova w}"

fun hostwin_disjoint :: "VFIOHostDMAWindow list \<Rightarrow> bool" where
  "hostwin_disjoint [] = True"
| "hostwin_disjoint (w # ws) =
     ((\<forall>v \<in> set ws. win_range w \<inter> win_range v = {}) \<and> hostwin_disjoint ws)"

subsection \<open>Example inputs\<close>

definition example_window :: VFIOHostDMAWindow where
  "example_window = \<lparr>min_iova = 0, max_iova = 0xfff, iova_pgsizes = 0x1000\<rparr>"

definition example_container :: VFIOContainer where
  "example_container =
     \<lparr>container_id = 0, ops = Iommufd_ops, be_fd = 3, ioas_id = 1,
      hostwin_list = [], giommu_list = [], vrdl_list = [],
      pgsizes = 0x1000, dma_max_mappings = 0, nested = False,
      dirty_pages_supported = False, initialized = False, error = None\<rparr>"

definition example_env :: env where
  "example_env =
     \<lparr>qemu_real_host_page_size = 0x1000, TARGET_PAGE_SIZE = 0x1000, max_memslots = 512,
      status = (\<lambda>tr ev. 0), error_message = (\<lambda>tr ev. ''failed''),
      add_window = (\<lambda>tr container section. Inr (hostwin_list container)),
      del_window = (\<lambda>tr container section. hostwin_list container),
      memory_get_xlat_addr = (\<lambda>iotlb. None),
      devices_all_dirty_tracking = (\<lambda>container. True)\<rparr>"

definition example_ram :: MemoryRegion where
  "example_ram =
     \<lparr>mr_id = 7, memory_region_name = ''ram'', memory_region_is_ram = True,
      memory_region_is_iommu = False, memory_region_is_ram_device = False,
      memory_region_is_protected = False, memory_region_has_ram_discard_manager = False,
      memory_region_get_ram_ptr = 0x7f0000000000, memory_region_get_ram_addr = 0,
      ram_discard_manager_get_min_granularity = 0,
      memory_region_iommu_attrs_to_index = 0, owner_is_tpm_crb = False\<rparr>"

definition full_window :: VFIOHostDMAWindow where
  "full_window = \<lparr>min_iova = 0, max_iova = - 1, iova_pgsizes = 0x1000\<rparr>"

definition bar_sizing_section :: MemoryRegionSection where
  "bar_sizing_section =
     \<lparr>mr = example_ram, offset_within_region = 0,
      offset_within_address_space = 0xfffffffffe000000, section_size = 0x2000000,
      readonly = False\<rparr>"

definition example_space :: VFIOAddressSpace where
  "example_space =
     \<lparr>containers = [example_container\<lparr>hostwin_list := [full_window],
                                       dirty_pages_supported := True\<rparr>],
      listener_initialized = True\<rparr>"

definition protected_high_section :: MemoryRegionSection where
  "protected_high_section =
     \<lparr>mr = example_ram\<lparr>memory_region_is_protected := True\<rparr>, offset_within_region = 0,
      offset_within_address_space = 0x8000000000000000, section_size = 0x2000,
      readonly = False\<rparr>"

fun is_dma_copy :: "event \<Rightarrow> bool" where
  "is_dma_copy (Dma_copy src dst iova sz ro) = True"
| "is_dma_copy ev = False"

definition example_iommu :: MemoryRegion where
  "example_iommu =
     \<lparr>mr_id = 8, memory_region_name = ''smmu'', memory_region_is_ram = False,
      memory_region_is_iommu = True, memory_region_is_ram_device = False,
      memory_region_is_protected = False, memory_region_has_ram_discard_manager = False,
      memory_region_get_ram_ptr = 0, memory_region_get_ram_addr = 0,
      ram_discard_manager_get_min_granularity = 0,
      memory_region_iommu_attrs_to_index = 0, owner_is_tpm_crb = False\<rparr>"

definition iommu_section :: MemoryRegionSection where
  "iommu_section =
     \<lparr>mr = example_iommu, offset_within_region = 0, offset_within_address_space = 0,
      section_size = 0x100000, readonly = False\<rparr>"

definition nested_container :: VFIOContainer where
  "nested_container = example_container\<lparr>hostwin_list := [full_window], nested := True\<rparr>"

definition gib_section :: MemoryRegionSection where
  "gib_section =
     \<lparr>mr = example_ram, offset_within_region = 0, offset_within_address_space = 0,
      section_size = 0x40000000, readonly = False\<rparr>"

definition container0 :: VFIOContainer where
  "container0 = example_container\<lparr>hostwin_list := [full_window]\<rparr>"

definition container1 :: VFIOContainer where
  "container1 = example_container\<lparr>container_id := 1, ioas_id := 2,
                                   hostwin_list := [full_window]\<rparr>"

definition two_container_space :: VFIOAddressSpace where
  "two_container_space = \<lparr>containers = [container0, container1], listener_initialized = True\<rparr>"



fun region_add_calls ::
  "env \<Rightarrow> VFIOContainer
     \<Rightarrow> (VFIOContainer option option \<times> MemoryRegionSection \<times> event list) list
     \<Rightarrow> fatal + VFIOContainer" where
  "region_add_calls e container [] = Inr container"
| "region_add_calls e container ((src_container, section, tr) # later) =
     (case vfio_container_region_add e container src_container section tr of
        Inl f \<Rightarrow> Inl f
      | Inr (c1, src1, tr1) \<Rightarrow> region_add_calls e c1 later)"

definition failing_map_env :: env where
  "failing_map_env =
     example_env\<lparr>status := (\<lambda>tr ev. case ev of Dma_map c iova sz vaddr ro \<Rightarrow> - 12 | _ \<Rightarrow> 0)\<rparr>"

definition second_section :: MemoryRegionSection where
  "second_section =
     \<lparr>mr = example_ram\<lparr>mr_id := 9, memory_region_name := ''pc.bios''\<rparr>,
      offset_within_region = 0, offset_within_address_space = 0xfffc0000,
      section_size = 0x40000, readonly = True\<rparr>"

subsection \<open>Page-aligned ranges\<close>

text \<open>
  Rounding down and up to a multiple of \<open>d\<close>, on the natural numbers, and the two ends of
  the page-aligned range of a section as the specification words them for region_add:
  the start rounded up, the exclusive end rounded down.
\<close>

definition round_down :: "nat \<Rightarrow> nat \<Rightarrow> nat" where
  "round_down k d = (k div d) * d"

definition round_up :: "nat \<Rightarrow> nat \<Rightarrow> nat" where
  "round_up k d = ((k + d - 1) div d) * d"

definition aligned_start :: "env \<Rightarrow> MemoryRegionSection \<Rightarrow> nat" where
  "aligned_start e s =
     round_up (unat (offset_within_address_space s)) (unat (qemu_real_host_page_size e))"

definition aligned_end :: "env \<Rightarrow> MemoryRegionSection \<Rightarrow> nat" where
  "aligned_end e s =
     round_down (unat (offset_within_address_space s) + unat (section_size s))
       (unat (qemu_real_host_page_size e))"

subsection \<open>The unmap calls of a trace\<close>

text \<open>
  The backend unmap calls of a trace, in order, each as container, iova and size, and
  the addresses one of them names.
\<close>

fun unmap_of :: "event \<Rightarrow> (nat \<times> hwaddr \<times> hwaddr) list" where
  "unmap_of (Dma_unmap cid iova sz iotlb) = [(cid, iova, sz)]"
| "unmap_of ev = []"

definition dma_unmaps :: "event list \<Rightarrow> (nat \<times> hwaddr \<times> hwaddr) list" where
  "dma_unmaps tr = concat (map unmap_of tr)"

fun unmap_range :: "event \<Rightarrow> nat set" where
  "unmap_range (Dma_unmap cid iova sz iotlb) = {unat iova ..< unat iova + unat sz}"
| "unmap_range ev = {}"

text \<open>
  When region_del reaches its direct unmap: the region has no RAM discard manager (the
  unregistration of the discard listener unmaps instead), and a RAM device lies in a host
  window whose smallest page divides its start and size.
\<close>

definition unmap_attempted :: "env \<Rightarrow> VFIOContainer \<Rightarrow> MemoryRegionSection \<Rightarrow> bool" where
  "unmap_attempted e c s \<longleftrightarrow>
     \<not> memory_region_has_ram_discard_manager (mr s) \<and>
     (if memory_region_is_ram_device (mr s)
      then (case hostwin_from_range c (word_of_nat (aligned_start e s))
                   (word_of_nat (aligned_end e s - 1)) of
              None \<Rightarrow> False
            | Some w \<Rightarrow>
                ram_device_misaligned w (word_of_nat (aligned_start e s))
                  (word_of_nat (aligned_end e s - aligned_start e s)) = Inr False)
      else True)"

text \<open>The direct unmap of the addresses from \<open>a\<close> up to \<open>b\<close>: the full span in two halves.\<close>

definition direct_unmaps ::
  "env \<Rightarrow> VFIOContainer \<Rightarrow> nat \<Rightarrow> nat \<Rightarrow> event list \<Rightarrow> event list" where
  "direct_unmaps e c a b tr =
     (if b \<le> a then tr
      else if b - a = 2 ^ 64
      then unmap_and_report e c (2 ^ 63) (2 ^ 63) (unmap_and_report e c 0 (2 ^ 63) tr)
      else unmap_and_report e c (word_of_nat a) (word_of_nat (b - a)) tr)"

definition full_section :: MemoryRegionSection where
  "full_section =
     \<lparr>mr = example_ram, offset_within_region = 0, offset_within_address_space = 0,
      section_size = 0x10000000000000000, readonly = False\<rparr>"

definition sub_page_section :: MemoryRegionSection where
  "sub_page_section =
     \<lparr>mr = example_ram, offset_within_region = 0x800, offset_within_address_space = 0x800,
      section_size = 0x2000, readonly = False\<rparr>"

definition ram_device_section :: MemoryRegionSection where
  "ram_device_section =
     \<lparr>mr = example_ram\<lparr>mr_id := 10, memory_region_name := ''bar0'',
                         memory_region_is_ram_device := True\<rparr>,
      offset_within_region = 0, offset_within_address_space = 0x1000,
      section_size = 0x1000, readonly = False\<rparr>"

definition container_64k :: VFIOContainer where
  "container_64k =
     example_container\<lparr>hostwin_list :=
       [\<lparr>min_iova = 0, max_iova = - 1, iova_pgsizes = 0x10000\<rparr>]\<rparr>"

subsection \<open>The calls of the pre-registration listener\<close>

text \<open>
  The range \<^verbatim>\<open>vfio_dma_map_ram_section\<close> maps, which it aligns to the target page size,
  the one map call it makes for the range, and when it reaches that call: the region has
  no RAM discard manager and is not a RAM device, the aligned range is not empty and not
  the whole \<open>2 ^ 64\<close>, and a host window holds it.
\<close>

definition target_start :: "env \<Rightarrow> MemoryRegionSection \<Rightarrow> nat" where
  "target_start e s =
     round_up (unat (offset_within_address_space s)) (unat (TARGET_PAGE_SIZE e))"

definition target_end :: "env \<Rightarrow> MemoryRegionSection \<Rightarrow> nat" where
  "target_end e s =
     round_down (unat (offset_within_address_space s) + unat (section_size s))
       (unat (TARGET_PAGE_SIZE e))"

definition prereg_map_call :: "env \<Rightarrow> VFIOContainer \<Rightarrow> MemoryRegionSection \<Rightarrow> event" where
  "prereg_map_call e c s =
     Dma_map (container_id c) (word_of_nat (target_start e s))
       (word_of_nat (target_end e s - target_start e s))
       (memory_region_get_ram_ptr (mr s) + offset_within_region s
          + (word_of_nat (target_start e s) - offset_within_address_space s))
       (readonly s)"

definition map_attempted :: "env \<Rightarrow> VFIOContainer \<Rightarrow> MemoryRegionSection \<Rightarrow> bool" where
  "map_attempted e c s \<longleftrightarrow>
     \<not> memory_region_has_ram_discard_manager (mr s) \<and>
     \<not> memory_region_is_ram_device (mr s) \<and>
     target_start e s < target_end e s \<and>
     target_end e s - target_start e s < 2 ^ 64 \<and>
     hostwin_from_range c (word_of_nat (target_start e s))
       (word_of_nat (target_end e s - 1)) \<noteq> None"


subsection \<open>The populate notification in the words of the specification\<close>

text \<open>
  The slices of a populate notification (4.3.6): from \<open>st\<close>, each slice ends at
  \<open>min (round_up (start + 1) granularity) end\<close>, where the next one starts.
\<close>

function spec_slices :: "nat \<Rightarrow> nat \<Rightarrow> nat \<Rightarrow> (nat \<times> nat) list" where
  "spec_slices g en st =
     (if st < en \<and> 0 < g
      then (st, min (round_up (st + 1) g) en)
           # spec_slices g en (min (round_up (st + 1) g) en)
      else [])"
  by pat_completeness auto
termination
proof (relation "measure (\<lambda>(g, en, st). en - st)")
  show "wf (measure (\<lambda>(g, en, st). en - st))" by simp
next
  fix g en st :: nat
  assume a: "st < en \<and> 0 < g"
  have r: "round_up (st + 1) g = (st + g) div g * g" by (simp add: round_up_def)
  have "(st + g) div g * g = (st + g) - (st + g) mod g"
    by (simp only: minus_mod_eq_div_mult)
  moreover have "(st + g) mod g < g" using a by simp
  ultimately have "st + 1 \<le> round_up (st + 1) g"
    unfolding r by linarith
  with a have "st < min (round_up (st + 1) g) en" by simp
  moreover have "min (round_up (st + 1) g) en \<le> en" by simp
  ultimately have "en - min (round_up (st + 1) g) en < en - st" by linarith
  then show "((g, en, min (round_up (st + 1) g) en), (g, en, st))
               \<in> measure (\<lambda>(g, en, st). en - st)"
    by simp
qed

declare spec_slices.simps [simp del]

text \<open>
  The map call of one slice, the calls made one after the other up to the first that
  fails, and the unmap of the whole section that is the discard.
\<close>

definition slice_call :: "VFIOContainer \<Rightarrow> MemoryRegionSection \<Rightarrow> nat \<times> nat \<Rightarrow> event" where
  "slice_call c s sl =
     Dma_map (container_id c)
       (word_of_nat (fst sl) - offset_within_region s + offset_within_address_space s)
       (word_of_nat (snd sl - fst sl))
       (memory_region_get_ram_ptr (mr s) + word_of_nat (fst sl))
       (readonly s)"

fun map_until_failure :: "env \<Rightarrow> event list \<Rightarrow> event list \<Rightarrow> int \<times> event list" where
  "map_until_failure e tr [] = (0, tr)"
| "map_until_failure e tr (ev # evs) =
     (if status e tr ev \<noteq> 0 then (status e tr ev, tr @ [ev])
      else map_until_failure e (tr @ [ev]) evs)"

definition discard_call :: "VFIOContainer \<Rightarrow> MemoryRegionSection \<Rightarrow> event" where
  "discard_call c s =
     Dma_unmap (container_id c) (offset_within_address_space s)
       (word_of_nat (unat (section_size s))) None"

definition with_rollback ::
  "env \<Rightarrow> VFIOContainer \<Rightarrow> MemoryRegionSection \<Rightarrow> int \<times> event list \<Rightarrow> int \<times> event list"
  where
  "with_rollback e c s p =
     (case p of
        (r, tr1) \<Rightarrow>
          if r \<noteq> 0
          then (r, tr1 @ discard_call c s #
                     (if status e tr1 (discard_call c s) \<noteq> 0
                      then [Error_report
                              ''vfio_ram_discard_notify_discard: vfio_dma_unmap() failed'']
                      else []))
          else (0, tr1))"

definition populate_calls ::
  "VFIOContainer \<Rightarrow> VFIORamDiscardListener \<Rightarrow> MemoryRegionSection \<Rightarrow> event list" where
  "populate_calls c vrdl s =
     map (slice_call c s)
       (spec_slices (unat (granularity vrdl))
          (unat (offset_within_region s) + unat (section_size s))
          (unat (offset_within_region s)))"

definition populate_spec ::
  "env \<Rightarrow> VFIOContainer \<Rightarrow> VFIORamDiscardListener \<Rightarrow> MemoryRegionSection \<Rightarrow> event list
     \<Rightarrow> int \<times> event list" where
  "populate_spec e c vrdl s tr =
     with_rollback e c s (map_until_failure e tr (populate_calls c vrdl s))"

text \<open>The unmap of the rollback succeeded.\<close>

definition rollback_ok ::
  "env \<Rightarrow> VFIOContainer \<Rightarrow> VFIORamDiscardListener \<Rightarrow> MemoryRegionSection \<Rightarrow> event list
     \<Rightarrow> bool" where
  "rollback_ok e c vrdl s tr \<longleftrightarrow>
     status e (snd (map_until_failure e tr (populate_calls c vrdl s))) (discard_call c s) = 0"

subsection \<open>The mapping table of the backend\<close>

text \<open>
  Modelled from the spec: the IOMMU backend that holds the mappings is the kernel, behind
  \<^verbatim>\<open>iommufd_backend_map_dma\<close> and \<^verbatim>\<open>iommufd_backend_unmap_dma\<close>, and is not among the
  source files. Following 4.2 and 7, a call that returns 0 took effect and a call the
  kernel rejected changed nothing: a map or a copy adds its range to the container, an
  unmap removes from the container the ranges that lie inside its own. \<open>backend_table\<close>
  is the table after the calls of a trace, each with the status it returned.
\<close>

definition covers :: "hwaddr \<Rightarrow> hwaddr \<Rightarrow> hwaddr \<Rightarrow> hwaddr \<Rightarrow> bool" where
  "covers iova sz i n \<longleftrightarrow> unat iova \<le> unat i \<and> unat i + unat n \<le> unat iova + unat sz"

fun backend_apply ::
  "event \<Rightarrow> (nat \<times> hwaddr \<times> hwaddr) list \<Rightarrow> (nat \<times> hwaddr \<times> hwaddr) list" where
  "backend_apply (Dma_map cid iova sz vaddr ro) m = (cid, iova, sz) # m"
| "backend_apply (Dma_copy src dst iova sz ro) m = (dst, iova, sz) # m"
| "backend_apply (Dma_unmap cid iova sz iotlb) m =
     filter (\<lambda>(c, i, n). \<not> (c = cid \<and> covers iova sz i n)) m"
| "backend_apply ev m = m"

fun backend_run ::
  "env \<Rightarrow> event list \<Rightarrow> event list \<Rightarrow> (nat \<times> hwaddr \<times> hwaddr) list
     \<Rightarrow> (nat \<times> hwaddr \<times> hwaddr) list" where
  "backend_run e h [] m = m"
| "backend_run e h (ev # evs) m =
     backend_run e (h @ [ev]) evs (if status e h ev = 0 then backend_apply ev m else m)"

definition backend_table :: "env \<Rightarrow> event list \<Rightarrow> (nat \<times> hwaddr \<times> hwaddr) list" where
  "backend_table e tr = backend_run e [] tr []"

fun mapping_of :: "event \<Rightarrow> (nat \<times> hwaddr \<times> hwaddr) list" where
  "mapping_of (Dma_map cid iova sz vaddr ro) = [(cid, iova, sz)]"
| "mapping_of ev = []"

text \<open>
  A section of a region with a RAM discard manager, of two slices of 2 MiB, and two
  backends: one that refuses the second map, one that also refuses every unmap.
\<close>

definition discard_section :: MemoryRegionSection where
  "discard_section =
     \<lparr>mr = example_ram\<lparr>mr_id := 11, memory_region_name := ''virtio-mem'',
                         memory_region_has_ram_discard_manager := True,
                         ram_discard_manager_get_min_granularity := 0x200000\<rparr>,
      offset_within_region = 0, offset_within_address_space = 0x100000000,
      section_size = 0x400000, readonly = False\<rparr>"

definition example_vrdl :: VFIORamDiscardListener where
  "example_vrdl =
     \<lparr>vrdl_mr = mr discard_section, vrdl_offset_within_address_space = 0x100000000,
      vrdl_size = 0x400000, granularity = 0x200000\<rparr>"

definition second_map_fails_env :: env where
  "second_map_fails_env =
     example_env\<lparr>status :=
       (\<lambda>tr ev. case ev of
                   Dma_map c iova sz vaddr ro \<Rightarrow> if iova = 0x100000000 then 0 else - 12
                 | _ \<Rightarrow> 0)\<rparr>"

definition rollback_fails_env :: env where
  "rollback_fails_env =
     example_env\<lparr>status :=
       (\<lambda>tr ev. case ev of
                   Dma_map c iova sz vaddr ro \<Rightarrow> if iova = 0x100000000 then 0 else - 12
                 | Dma_unmap c iova sz iotlb \<Rightarrow> - 22
                 | _ \<Rightarrow> 0)\<rparr>"

section \<open>Properties\<close>

subsection \<open>The host window table\<close>

lemma range_get_last_window: "range_get_last mn (mx - mn + 1) = mx"
  by (simp add: range_get_last_def)

lemma ranges_overlap_window:
  "ranges_overlap (min_iova w) (max_iova w - min_iova w + 1) mn (mx - mn + 1)
     \<longleftrightarrow> \<not> (mx < min_iova w \<or> max_iova w < mn)"
  by (simp add: ranges_overlap_def range_get_last_window)

lemma win_range_meet:
  assumes "win_range w \<inter> {mn..mx} \<noteq> {}"
  shows "\<not> (mx < min_iova w \<or> max_iova w < mn)"
proof -
  from assms obtain x where "x \<in> win_range w" "x \<in> {mn..mx}"
    by blast
  then have "min_iova w \<le> x" "x \<le> max_iova w" "mn \<le> x" "x \<le> mx"
    by (simp_all add: win_range_def)
  then show ?thesis by auto
qed

lemma win_range_apart:
  assumes "mx < min_iova w \<or> max_iova w < mn"
  shows "{mn..mx} \<inter> win_range w = {}"
  using assms by (auto simp: win_range_def)

lemma host_win_remove_subset:
  "host_win_remove ws mn mx = Some ws' \<Longrightarrow> set ws' \<subseteq> set ws"
  by (induction ws arbitrary: ws') (auto split: if_splits)

lemma host_win_remove_disjoint:
  "hostwin_disjoint ws \<Longrightarrow> host_win_remove ws mn mx = Some ws' \<Longrightarrow> hostwin_disjoint ws'"
proof (induction ws arbitrary: ws')
  case Nil
  then show ?case by simp
next
  case (Cons w ws)
  show ?case
  proof (cases "min_iova w = mn \<and> max_iova w = mx")
    case True
    with Cons.prems show ?thesis by auto
  next
    case False
    with Cons.prems obtain vs where vs: "host_win_remove ws mn mx = Some vs" "ws' = w # vs"
      by auto
    from Cons.prems(1) have d: "hostwin_disjoint ws" by simp
    have "hostwin_disjoint vs" using Cons.IH [OF d vs(1)] .
    moreover have "set vs \<subseteq> set ws" using vs(1) by (rule host_win_remove_subset)
    ultimately show ?thesis using Cons.prems(1) vs(2) by auto
  qed
qed

text \<open>
  C8. If the windows of a container are pairwise disjoint, then \<^verbatim>\<open>vfio_host_win_add\<close> of
  \<open>[mn, mx]\<close> stops the process (and so inserts nothing) when an existing window shares
  an address with \<open>[mn, mx]\<close>; when it returns, the new window is at the head of the list
  and the windows are again pairwise disjoint. \<^verbatim>\<open>vfio_host_win_del\<close> keeps the windows
  pairwise disjoint as well.
\<close>

theorem host_win_add_keeps_disjoint:
  assumes "hostwin_disjoint (hostwin_list container)"
  shows "((\<exists>w \<in> set (hostwin_list container). win_range w \<inter> {mn..mx} \<noteq> {}) \<longrightarrow>
            vfio_host_win_add container mn mx pgs
              = Inl (Hw_error ''vfio_host_win_add: Overlapped IOMMU are not enabled'')) \<and>
         (\<forall>c'. vfio_host_win_add container mn mx pgs = Inr c' \<longrightarrow>
            hostwin_list c' = \<lparr>min_iova = mn, max_iova = mx, iova_pgsizes = pgs\<rparr>
                                # hostwin_list container \<and>
            hostwin_disjoint (hostwin_list c')) \<and>
         hostwin_disjoint (hostwin_list (snd (vfio_host_win_del container mn mx)))"
proof (intro conjI impI allI)
  assume "\<exists>w \<in> set (hostwin_list container). win_range w \<inter> {mn..mx} \<noteq> {}"
  then obtain w where "w \<in> set (hostwin_list container)" "win_range w \<inter> {mn..mx} \<noteq> {}"
    by blast
  then have "\<exists>w \<in> set (hostwin_list container). \<not> (mx < min_iova w \<or> max_iova w < mn)"
    using win_range_meet by blast
  then show "vfio_host_win_add container mn mx pgs
               = Inl (Hw_error ''vfio_host_win_add: Overlapped IOMMU are not enabled'')"
    by (simp add: vfio_host_win_add_def ranges_overlap_window list_ex_iff)
next
  fix c' assume a: "vfio_host_win_add container mn mx pgs = Inr c'"
  then have no: "\<forall>w \<in> set (hostwin_list container). mx < min_iova w \<or> max_iova w < mn"
    and c': "c' = container\<lparr>hostwin_list :=
                  \<lparr>min_iova = mn, max_iova = mx, iova_pgsizes = pgs\<rparr> # hostwin_list container\<rparr>"
    by (auto simp: vfio_host_win_add_def ranges_overlap_window list_ex_iff split: if_splits)
  show "hostwin_list c' = \<lparr>min_iova = mn, max_iova = mx, iova_pgsizes = pgs\<rparr>
                                # hostwin_list container"
    using c' by simp
  have "\<forall>w \<in> set (hostwin_list container). {mn..mx} \<inter> win_range w = {}"
    using no win_range_apart by blast
  then show "hostwin_disjoint (hostwin_list c')"
    using c' assms by (simp add: win_range_def)
next
  show "hostwin_disjoint (hostwin_list (snd (vfio_host_win_del container mn mx)))"
    using assms host_win_remove_disjoint
    by (auto simp: vfio_host_win_del_def split: option.splits)
qed

theorem host_win_add_keeps_disjoint_witness:
  "hostwin_disjoint (hostwin_list (example_container\<lparr>hostwin_list := [example_window]\<rparr>)) \<and>
   vfio_host_win_add (example_container\<lparr>hostwin_list := [example_window]\<rparr>) 0x800 0x17ff 0x1000
     = Inl (Hw_error ''vfio_host_win_add: Overlapped IOMMU are not enabled'') \<and>
   (\<exists>c'. vfio_host_win_add (example_container\<lparr>hostwin_list := [example_window]\<rparr>)
            0x1000 0x1fff 0x1000 = Inr c' \<and>
         hostwin_disjoint (hostwin_list c'))"
proof -
  let ?c = "example_container\<lparr>hostwin_list := [example_window]\<rparr>"
  have d: "hostwin_disjoint (hostwin_list ?c)" by simp
  have m: "\<exists>w \<in> set (hostwin_list ?c). win_range w \<inter> {0x800..0x17ff} \<noteq> {}"
  proof -
    have "(0x800 :: hwaddr) \<in> win_range example_window \<inter> {0x800..0x17ff}"
      by (simp add: win_range_def example_window_def)
    then show ?thesis by auto
  qed
  have r: "vfio_host_win_add ?c 0x1000 0x1fff 0x1000
             = Inr (?c\<lparr>hostwin_list := \<lparr>min_iova = 0x1000, max_iova = 0x1fff,
                                         iova_pgsizes = 0x1000\<rparr> # hostwin_list ?c\<rparr>)"
    by (simp add: vfio_host_win_add_def ranges_overlap_def range_get_last_def
                  example_window_def)
  have a: "vfio_host_win_add ?c 0x800 0x17ff 0x1000
             = Inl (Hw_error ''vfio_host_win_add: Overlapped IOMMU are not enabled'')"
    using host_win_add_keeps_disjoint [OF d, of "0x800" "0x17ff" "0x1000"] m by blast
  have b: "hostwin_disjoint (hostwin_list (?c\<lparr>hostwin_list := \<lparr>min_iova = 0x1000,
              max_iova = 0x1fff, iova_pgsizes = 0x1000\<rparr> # hostwin_list ?c\<rparr>))"
    using host_win_add_keeps_disjoint [OF d, of "0x1000" "0x1fff" "0x1000"] r by blast
  show ?thesis using d a r b by blast
qed

subsection \<open>Section filtering\<close>

lemma bit63_test: "(w :: 64 word) AND push_bit 63 1 \<noteq> 0 \<longleftrightarrow> bit w 63"
proof -
  have "w AND 2 ^ 63 = 0 \<longleftrightarrow> \<not> bit w 63"
    by (rule and_exp_eq_0_iff_not_bit)
  then show ?thesis
    by (simp only: push_bit_of_1) blast
qed

lemma skipped_section_iff:
  "vfio_listener_skipped_section s \<longleftrightarrow>
     (\<not> memory_region_is_ram (mr s) \<and> \<not> memory_region_is_iommu (mr s)) \<or>
     memory_region_is_protected (mr s) \<or> bit (offset_within_address_space s) 63"
  unfolding vfio_listener_skipped_section_def bit63_test ..

subsection \<open>The fan-out of region_add\<close>

text \<open>The definitions to unfold when a function of the model is evaluated.\<close>

lemmas page_defs =
  ROUND_UP_def REAL_HOST_PAGE_ALIGN_def qemu_real_host_page_mask_def TARGET_PAGE_ALIGN_def
  TARGET_PAGE_MASK_def section_misaligned_def

lemmas dma_defs =
  vfio_container_dma_map_def vfio_container_dma_unmap_def vfio_container_dma_copy_def
  iommufd_map_def iommufd_unmap_def iommufd_copy_def collaborator_call_def
  vfio_container_check_extension_def iommufd_check_extension_def copy_dma_source_def

lemmas region_add_defs =
  vfio_listener_region_add_def vfio_container_region_add_def
  vfio_container_region_add_body_def vfio_container_region_add_iommu_def
  vfio_container_region_add_fail_def vfio_dma_map_ram_section_def
  vfio_dma_map_ram_section_dma_def vfio_container_add_section_window_def
  hostwin_from_range_def vfio_listener_skipped_section_def

lemmas example_defs =
  example_env_def example_ram_def example_container_def full_window_def

lemmas int128_defs =
  int128_make64_def int128_exts64_def int128_one_def int128_2_64_def int128_add_def
  int128_sub_def int128_and_def int128_rshift_def int128_ge_def int128_eq_def
  int128_getlo_def int128_get64_def

text \<open>
  C1. Two containers of the fd-based backend on one fd, a host window over the whole
  address space, a RAM section of \<open>2^30\<close> bytes at 0, every call succeeding: the fan-out of
  \<^verbatim>\<open>vfio_listener_region_add\<close> maps the section in the first container and maps it again
  in the second. No copy is made: \<^verbatim>\<open>copy_dma_supported\<close> has been cleared by the test of
  \<^verbatim>\<open>*src_container\<close> before the successful map could record the container as the source.
\<close>

theorem fanout_second_container_maps_again:
  "vfio_listener_region_add example_env two_container_space gib_section [] =
     Inr (two_container_space,
          [Add_section_window 0 gib_section, Memory_region_ref 7,
           Dma_map 0 0 0x40000000 0x7f0000000000 False,
           Add_section_window 1 gib_section, Memory_region_ref 7,
           Dma_map 1 0 0x40000000 0x7f0000000000 False])"
  by (simp add: region_add_defs dma_defs page_defs int128_defs example_defs
        two_container_space_def container0_def container1_def gib_section_def)

text \<open>
  C2. A nested container, an IOMMU region: \<^verbatim>\<open>vfio_container_region_add\<close> registers the
  notifier with the callback \<^verbatim>\<open>vfio_nested_unmap_notify\<close> and requests no replay, but the
  flags it registers are \<^verbatim>\<open>IOMMU_NOTIFIER_IOTLB_EVENTS\<close>, which hold the MAP flag, not the
  UNMAP-only \<open>flags\<close> it has computed.
\<close>

theorem nested_notifier_registered_for_map_and_unmap:
  "\<exists>c' tr'.
     vfio_container_region_add example_env nested_container (Some None) iommu_section []
       = Inr (c', Some None, tr') \<and>
     map (\<lambda>giommu. notifier_flags (giommu_n giommu)) (giommu_list c')
       = [IOMMU_NOTIFIER_IOTLB_EVENTS] \<and>
     IOMMU_NOTIFIER_IOTLB_EVENTS \<noteq> IOMMU_NOTIFIER_UNMAP \<and>
     IOMMU_NOTIFIER_IOTLB_EVENTS AND IOMMU_NOTIFIER_MAP \<noteq> 0 \<and>
     tr' = [Add_section_window 0 iommu_section, Memory_region_ref 8,
            Memory_region_iommu_set_page_size_mask 8 0x1000,
            Memory_region_register_iommu_notifier 8
              \<lparr>notify = Vfio_nested_unmap_notify,
               notifier_flags = IOMMU_NOTIFIER_IOTLB_EVENTS,
               notifier_start = 0, notifier_end = 0xfffff, iommu_idx = 0\<rparr>]"
  by (simp add: region_add_defs dma_defs page_defs int128_defs example_defs
        nested_container_def iommu_section_def example_iommu_def
        IOMMU_NOTIFIER_IOTLB_EVENTS_def IOMMU_NOTIFIER_UNMAP_def IOMMU_NOTIFIER_MAP_def)


lemma copy_dma_source_no_src [simp]:
  "copy_dma_source c (Some None) = None" "copy_dma_source c None = None"
  by (simp_all add: copy_dma_source_def)


lemma dma_unmap_trace:
  "vfio_container_dma_unmap e c iova sz iotlb tr = (r, tr') \<Longrightarrow>
   tr' = tr @ [Dma_unmap (container_id c) iova sz iotlb]"
  by (auto simp: vfio_container_dma_unmap_def iommufd_unmap_def collaborator_call_def
           split: VFIOIOMMUBackendOps.splits)



lemma register_rdl_Inr:
  "vfio_register_ram_discard_listener e c s tr = Inr (c', tr') \<Longrightarrow>
   filter is_dma_copy tr' = filter is_dma_copy tr \<and> initialized c' = initialized c \<and>
   error c' = error c"
  by (auto simp: vfio_register_ram_discard_listener_def Let_def
           split: sum.splits if_splits)





lemma region_add_iommu_Inr:
  "vfio_container_region_add_iommu e c s tr = Inr (ex, c', tr') \<Longrightarrow>
   filter is_dma_copy tr' = filter is_dma_copy tr \<and> initialized c' = initialized c \<and>
   error c' = error c"
  by (auto simp: vfio_container_region_add_iommu_def Let_def collaborator_call_def
           split: sum.splits prod.splits if_splits)


lemma add_section_window_Inr:
  "vfio_container_add_section_window e c s tr = (Inr c', tr') \<Longrightarrow>
   filter is_dma_copy tr' = filter is_dma_copy tr \<and> initialized c' = initialized c \<and>
   error c' = error c"
  by (auto simp: vfio_container_add_section_window_def split: sum.splits)










subsection \<open>The error latch of an uninitialized container\<close>

lemma map_dma_keeps_container:
  "vfio_dma_map_ram_section e c src s tr = Inr (err, c', src', tr') \<Longrightarrow>
   initialized c' = initialized c \<and> error c' = error c"
  by (auto simp: vfio_dma_map_ram_section_def Let_def
           split: sum.splits prod.splits if_splits option.splits bool.splits
           dest!: register_rdl_Inr)

lemma region_add_body_keeps_latch:
  "vfio_container_region_add_body e c src s tr = Inr (ex, c', src', tr') \<Longrightarrow>
   initialized c' = initialized c \<and> error c' = error c"
  by (auto simp: vfio_container_region_add_body_def Let_def
           split: sum.splits prod.splits if_splits option.splits
           dest!: map_dma_keeps_container region_add_iommu_Inr add_section_window_Inr)

lemma region_add_latched:
  assumes "\<not> initialized c" "error c = Some first"
    and "vfio_container_region_add e c src s tr = Inr (c', src', tr')"
  shows "\<not> initialized c' \<and> error c' = Some first"
proof (cases "vfio_container_region_add_body e c src s tr")
  case (Inl f)
  with assms(3) show ?thesis by (simp add: vfio_container_region_add_def)
next
  case (Inr r)
  obtain ex c1 src1 tr1 where r: "r = (ex, c1, src1, tr1)" by (cases r) auto
  from region_add_body_keeps_latch [OF Inr [unfolded r]] assms(1,2)
  have k: "\<not> initialized c1" "error c1 = Some first" by simp_all
  from assms(3) Inr r k show ?thesis
    by (cases ex)
       (auto simp: vfio_container_region_add_def vfio_container_region_add_fail_def
             split: if_splits)
qed

lemma region_add_calls_latched:
  "\<not> initialized c \<Longrightarrow> error c = Some first \<Longrightarrow> region_add_calls e c later = Inr c' \<Longrightarrow>
   \<not> initialized c' \<and> error c' = Some first"
proof (induction later arbitrary: c)
  case Nil
  then show ?case by simp
next
  case (Cons step later)
  obtain src s tr where step: "step = (src, s, tr)" by (cases step) auto
  from Cons.prems(3) step obtain c1 src1 tr1
    where a: "vfio_container_region_add e c src s tr = Inr (c1, src1, tr1)"
      and b: "region_add_calls e c1 later = Inr c'"
    by (auto split: sum.splits prod.splits)
  from region_add_latched [OF Cons.prems(1,2) a]
  have "\<not> initialized c1" "error c1 = Some first" by simp_all
  from Cons.IH [OF this b] show ?case .
qed

text \<open>
  C4. A container that is not initialized and holds no error; a region_add on a region
  that is not a RAM device reaches \<^verbatim>\<open>fail\<close> with the error \<open>err\<close>. Then, after this call
  and after any further region_add calls on the container (whatever sections, source
  pointers and traces they get) that do not stop the process, the container is still not
  initialized, its error is the first one, \<open>Region <name>: err\<close>, every later error having
  been dropped, and the attach fails with status \<open>-1\<close> and that error, prefixed.
\<close>

theorem first_error_is_latched_and_reported:
  assumes "\<not> initialized c" and "error c = None"
    and "\<not> memory_region_is_ram_device (mr s)"
    and "vfio_container_region_add_body e c src s tr = Inr (Goto_fail err, c1, src1, tr1)"
    and "region_add_calls e c ((src, s, tr) # later) = Inr c'"
  shows "error c' = Some (''Region '' @ memory_region_name (mr s) @ '': '' @ err) \<and>
         \<not> initialized c' \<and>
         iommufd_attach_device_listener_check c' =
           Inl (- 1, ''memory listener initialization failed: '' @
                     ''Region '' @ memory_region_name (mr s) @ '': '' @ err)"
proof -
  let ?m = "''Region '' @ memory_region_name (mr s) @ '': '' @ err"
  from region_add_body_keeps_latch [OF assms(4)] assms(1,2)
  have k: "\<not> initialized c1" "error c1 = None" by simp_all
  then have step: "vfio_container_region_add e c src s tr
                     = Inr (c1\<lparr>error := Some ?m\<rparr>, src1, tr1)"
    using assms(3,4)
    by (simp add: vfio_container_region_add_def vfio_container_region_add_fail_def)
  with assms(5) have later: "region_add_calls e (c1\<lparr>error := Some ?m\<rparr>) later = Inr c'"
    by simp
  have "\<not> initialized (c1\<lparr>error := Some ?m\<rparr>)" "error (c1\<lparr>error := Some ?m\<rparr>) = Some ?m"
    using k by simp_all
  from region_add_calls_latched [OF this later]
  show ?thesis by (simp add: iommufd_attach_device_listener_check_def)
qed

lemma failing_map_body:
  "vfio_container_region_add_body failing_map_env container0 (Some None) gib_section []
     = Inr (Goto_fail ''vfio_container_dma_map failed'', container0, Some None,
            [Add_section_window 0 gib_section, Memory_region_ref 7,
             Dma_map 0 0 0x40000000 0x7f0000000000 False])"
  by (simp add: region_add_defs dma_defs page_defs int128_defs example_defs
        failing_map_env_def container0_def gib_section_def EFAULT_def)

lemma failing_map_calls:
  "region_add_calls failing_map_env container0
     [(Some None, gib_section, []),
      (Some None, second_section,
         [Add_section_window 0 gib_section, Memory_region_ref 7,
          Dma_map 0 0 0x40000000 0x7f0000000000 False])]
   = Inr (container0\<lparr>error := Some ''Region ram: vfio_container_dma_map failed''\<rparr>)"
  by (simp add: region_add_defs dma_defs page_defs int128_defs example_defs
        failing_map_env_def container0_def gib_section_def second_section_def EFAULT_def)

theorem first_error_is_latched_and_reported_witness:
  "error (container0\<lparr>error := Some ''Region ram: vfio_container_dma_map failed''\<rparr>)
     = Some (''Region '' @ memory_region_name (mr gib_section) @ '': ''
             @ ''vfio_container_dma_map failed'') \<and>
   iommufd_attach_device_listener_check
       (container0\<lparr>error := Some ''Region ram: vfio_container_dma_map failed''\<rparr>)
     = Inl (- 1, ''memory listener initialization failed: '' @
                 ''Region '' @ memory_region_name (mr gib_section) @ '': ''
                 @ ''vfio_container_dma_map failed'')"
proof -
  have a: "\<not> initialized container0" "error container0 = None"
    by (simp_all add: container0_def example_container_def)
  have b: "\<not> memory_region_is_ram_device (mr gib_section)"
    by (simp add: gib_section_def example_ram_def)
  from first_error_is_latched_and_reported [OF a b failing_map_body failing_map_calls]
  show ?thesis by blast
qed

subsection \<open>Page arithmetic on machine words\<close>

text \<open>
  The masks and round-ups of the code, on 64-bit and 128-bit words, agree with division
  on the natural numbers as long as nothing wraps.
\<close>

lemma and_neg_pow2: "x AND - (2 ^ n) = push_bit n (drop_bit n x)" for x :: "'a::len word"
  by (rule bit_eqI) (auto simp: bit_simps minus_exp_eq_not_mask)

lemma unat_and_neg_pow2:
  "unat (x AND - (2 ^ n)) = round_down (unat x) (2 ^ n)" for x :: "'a::len word"
proof -
  have "unat (push_bit n (drop_bit n x)) = take_bit LENGTH('a) (push_bit n (unat (drop_bit n x)))"
    by (simp add: unsigned_push_bit_eq)
  also have "unat (drop_bit n x) = drop_bit n (unat x)"
    by (simp add: unat_drop_bit_eq)
  also have "push_bit n (drop_bit n (unat x)) = (unat x div 2 ^ n) * 2 ^ n"
    by (simp add: push_bit_eq_mult drop_bit_eq_div)
  also have "take_bit LENGTH('a) ((unat x div 2 ^ n) * 2 ^ n) = (unat x div 2 ^ n) * 2 ^ n"
  proof (rule take_bit_nat_eq_self)
    have "(unat x div 2 ^ n) * 2 ^ n \<le> unat x" by simp
    also have "unat x < 2 ^ LENGTH('a)" by (rule unsigned_less)
    finally show "(unat x div 2 ^ n) * 2 ^ n < 2 ^ LENGTH('a)" .
  qed
  finally show ?thesis by (simp add: and_neg_pow2 round_down_def)
qed

lemma unat_pow2:
  assumes "k < LENGTH('a)"
  shows "unat (2 ^ k :: 'a::len word) = 2 ^ k"
proof -
  have "unat (push_bit k (1 :: 'a word)) = take_bit LENGTH('a) (push_bit k (unat (1 :: 'a word)))"
    by (rule unsigned_push_bit_eq)
  also have "\<dots> = take_bit LENGTH('a) (2 ^ k :: nat)"
    by (simp add: push_bit_of_1)
  also have "\<dots> = 2 ^ k"
    using assms by (intro take_bit_nat_eq_self) simp
  finally show ?thesis by (simp add: push_bit_of_1)
qed

lemma unat_pow2_m1: "k < LENGTH('a) \<Longrightarrow> unat (2 ^ k - 1 :: 'a::len word) = 2 ^ k - 1"
proof -
  assume k: "k < LENGTH('a)"
  have "(2 ^ k :: 'a word) \<noteq> 0" using k by (simp add: exp_eq_zero_iff)
  then show ?thesis using unat_pow2 [OF k] by (simp add: unat_minus_one)
qed

lemma unat_ROUND_UP:
  fixes x :: "'a::len word"
  assumes "k < LENGTH('a)" "unat x + 2 ^ k \<le> 2 ^ LENGTH('a)"
  shows "unat ((x + 2 ^ k - 1) AND - (2 ^ k)) = round_up (unat x) (2 ^ k)"
proof -
  have "(0 :: nat) < 2 ^ k" by simp
  then have lt: "unat x + (2 ^ k - 1) < 2 ^ LENGTH('a)" using assms(2) by linarith
  have "unat (x + (2 ^ k - 1)) = unat x + unat (2 ^ k - 1 :: 'a word)"
    using lt unat_pow2_m1 [OF assms(1)] by (simp add: unat_add_lem [THEN iffD1])
  then have "unat (x + 2 ^ k - 1) = unat x + 2 ^ k - 1"
    using unat_pow2_m1 [OF assms(1)] by (simp add: add_diff_eq)
  then show ?thesis
    by (simp add: unat_and_neg_pow2 round_up_def round_down_def)
qed

lemma scast_neg_pow2:
  assumes "k < 64"
  shows "(scast (- (2 ^ k) :: 64 word) :: 128 word) = - (2 ^ k)"
proof -
  have "(- (2 ^ k) :: 64 word) = word_of_int (- (2 ^ k))" by simp
  then have "sint (- (2 ^ k) :: 64 word) = signed_take_bit 63 (- (2 ^ k) :: int)"
    by (simp only: sint_sbintrunc') simp
  also have "\<dots> = - (2 ^ k)"
  proof (rule signed_take_bit_int_eq_self)
    have "(2 :: int) ^ k \<le> 2 ^ 63" using assms by (intro power_increasing) simp_all
    then show "- (2 ^ 63) \<le> - (2 ^ k :: int)" by simp
    show "- (2 ^ k :: int) < 2 ^ 63"
      by (rule less_le_trans [of _ 0]) simp_all
  qed
  finally have "sint (- (2 ^ k) :: 64 word) = - (2 ^ k)" .
  then have "(scast (- (2 ^ k) :: 64 word) :: 128 word) = word_of_int (- (2 ^ k))"
    by (simp add: scast_eq)
  then show ?thesis by simp
qed

lemma sint_eq_unat:
  fixes w :: "128 word"
  assumes "unat w < 2 ^ 127"
  shows "sint w = int (unat w)"
proof -
  have "sint w = signed_take_bit 127 (uint w)" by (simp add: sint_uint)
  also have "\<dots> = uint w"
  proof (rule signed_take_bit_int_eq_self)
    show "- (2 ^ 127) \<le> uint w" by (rule order_trans [of _ 0]) simp_all
    from assms have "int (unat w) < int (2 ^ 127)" by (simp only: of_nat_less_iff)
    then show "uint w < 2 ^ 127" by simp
  qed
  finally show ?thesis by simp
qed

lemma unat_ucast_64_128: "unat (ucast (x :: 64 word) :: 128 word) = unat x"
  by (simp add: unsigned_ucast_eq take_bit_nat_eq_self
        order_less_trans [OF unsigned_less [of x]])

lemma unat_add_128:
  fixes a b :: "128 word"
  assumes "unat a + unat b < 2 ^ 128"
  shows "unat (a + b) = unat a + unat b"
  using assms by (simp add: unat_add_lem [THEN iffD1])

lemma unat_sub_128:
  fixes a b :: "128 word"
  assumes "unat b \<le> unat a"
  shows "unat (a - b) = unat a - unat b"
  using assms by (simp add: unat_sub word_le_nat_alt)

lemma int128_fits:
  fixes w :: "128 word"
  assumes "unat w < 2 ^ 64"
  shows "ucast (ucast w :: 64 word) = w" and "unat (ucast w :: 64 word) = unat w"
proof -
  show u: "unat (ucast w :: 64 word) = unat w"
    using assms by (simp add: unsigned_ucast_eq take_bit_nat_eq_self)
  show "ucast (ucast w :: 64 word) = w"
    by (rule word_unat_eq_iff [THEN iffD2]) (simp add: unat_ucast_64_128 u)
qed

lemma int128_not_fits:
  fixes w :: "128 word"
  assumes "2 ^ 64 \<le> unat w"
  shows "ucast (ucast w :: 64 word) \<noteq> w"
proof
  assume "ucast (ucast w :: 64 word) = w"
  then have "unat w = unat (ucast w :: 64 word)" by (metis unat_ucast_64_128)
  also have "\<dots> < 2 ^ 64" using unsigned_less [of "ucast w :: 64 word"] by simp
  finally show False using assms by simp
qed

lemma not_bit63_bound:
  fixes x :: "64 word"
  assumes "\<not> bit x 63"
  shows "unat x < 2 ^ 63"
proof (rule ccontr)
  assume "\<not> unat x < 2 ^ 63"
  then have ge: "2 ^ 63 \<le> unat x" by simp
  have lt: "unat x < 2 ^ 64" using unsigned_less [of x] by simp
  have "unat x div 2 ^ 63 = 1"
  proof -
    have "unat x div 2 ^ 63 < 2" using lt by (simp add: less_mult_imp_div_less)
    moreover have "1 \<le> unat x div 2 ^ 63" using ge by (simp add: div_greater_zero_iff Suc_le_eq)
    ultimately show ?thesis by simp
  qed
  then have "bit (unat x) 63" by (simp add: bit_iff_odd)
  then have "bit x 63" by (simp add: bit_unsigned_iff)
  with assms show False by simp
qed

lemma round_up_bounds:
  assumes "0 < d"
  shows "k \<le> round_up k d" and "round_up k d < k + d"
proof -
  have "(k + d - 1) div d * d = (k + d - 1) - (k + d - 1) mod d"
    by (simp add: minus_mod_eq_div_mult)
  moreover have "(k + d - 1) mod d < d" using assms by simp
  moreover have "(k + d - 1) mod d \<le> k + d - 1" by simp
  ultimately show "k \<le> round_up k d" "round_up k d < k + d"
    using assms unfolding round_up_def by linarith+
qed

lemma round_down_le: "round_down k d \<le> k"
  by (simp add: round_down_def)

lemma pow2_le_63: "k < 64 \<Longrightarrow> (2 :: nat) ^ k \<le> 2 ^ 63"
  by (intro power_increasing) simp_all

subsection \<open>The unmap of region_del\<close>

lemma dma_unmaps_append [simp]: "dma_unmaps (tr @ tr') = dma_unmaps tr @ dma_unmaps tr'"
  by (simp add: dma_unmaps_def)

lemma dma_unmaps_simps [simp]:
  "dma_unmaps [] = []"
  "dma_unmaps (ev # tr) = unmap_of ev @ dma_unmaps tr"
  by (simp_all add: dma_unmaps_def)

lemma unmap_and_report_trace:
  "unmap_and_report e c iova sz tr =
     tr @ Dma_unmap (container_id c) iova sz None #
       (if status e tr (Dma_unmap (container_id c) iova sz None) \<noteq> 0
        then [Error_report ''vfio_dma_unmap failed''] else [])"
  by (simp add: unmap_and_report_def vfio_container_dma_unmap_def iommufd_unmap_def
        collaborator_call_def split: VFIOIOMMUBackendOps.splits)

lemma dma_unmaps_unmap_and_report [simp]:
  "dma_unmaps (unmap_and_report e c iova sz tr) = dma_unmaps tr @ [(container_id c, iova, sz)]"
  by (simp add: unmap_and_report_trace)

lemma int128_get64_fits:
  assumes "unat w < 2 ^ 64"
  shows "int128_get64 w = Inr (word_of_nat (unat w))"
proof -
  have "(ucast w :: 64 word) = word_of_nat (unat w)"
    by (rule word_unat_eq_iff [THEN iffD2])
       (simp add: int128_fits(2) [OF assms] unat_of_nat assms)
  then show ?thesis by (simp add: int128_get64_def int128_fits(1) [OF assms])
qed

lemma unmap_tail_spec:
  fixes llsize :: "128 word"
  assumes "unat llsize \<le> 2 ^ 64"
  shows "vfio_dma_unmap_ram_section_unmap e c iova llsize tr =
           Inr (if unat llsize = 2 ^ 64
                then unmap_and_report e c (iova + 2 ^ 63) (2 ^ 63)
                       (unmap_and_report e c iova (2 ^ 63) tr)
                else unmap_and_report e c iova (word_of_nat (unat llsize)) tr)"
proof (cases "unat llsize = 2 ^ 64")
  case True
  then have "unat llsize = unat (push_bit 64 1 :: 128 word)" by simp
  then have l: "llsize = push_bit 64 1" by (simp only: word_unat_eq_iff)
  show ?thesis
    by (simp add: vfio_dma_unmap_ram_section_unmap_def l int128_eq_def int128_2_64_def
          int128_rshift_def int128_get64_def)
next
  case False
  with assms have lt: "unat llsize < 2 ^ 64" by simp
  from False have "llsize \<noteq> push_bit 64 1" by auto
  then show ?thesis using False
    by (simp add: vfio_dma_unmap_ram_section_unmap_def int128_eq_def int128_2_64_def
          int128_get64_fits [OF lt])
qed

lemma aligned_range:
  assumes pg: "qemu_real_host_page_size e = 2 ^ k" "k < 64"
    and room: "unat (offset_within_address_space s) + 2 ^ k \<le> 2 ^ 64"
    and fit: "unat (offset_within_address_space s) + unat (section_size s) \<le> 2 ^ 64"
  shows "unat (REAL_HOST_PAGE_ALIGN e (offset_within_address_space s)) = aligned_start e s"
    and "unat (int128_and
                 (int128_add (int128_make64 (offset_within_address_space s))
                    (section_size s))
                 (int128_exts64 (qemu_real_host_page_mask e))) = aligned_end e s"
    and "aligned_start e s < 2 ^ 64" and "aligned_end e s \<le> 2 ^ 64"
proof -
  let ?oas = "offset_within_address_space s"
  have p: "unat (qemu_real_host_page_size e) = 2 ^ k"
    using pg by (simp add: unat_pow2)
  have p2: "unat (2 ^ k :: 64 word) = 2 ^ k" using pg(2) by (simp add: unat_pow2)
  have "unat ((?oas + 2 ^ k - 1) AND - (2 ^ k)) = round_up (unat ?oas) (2 ^ k)"
    using pg(2) room by (intro unat_ROUND_UP) simp_all
  then show "unat (REAL_HOST_PAGE_ALIGN e ?oas) = aligned_start e s"
    by (simp add: REAL_HOST_PAGE_ALIGN_def ROUND_UP_def aligned_start_def pg(1) p2)
  have "unat (ucast ?oas + section_size s) = unat ?oas + unat (section_size s)"
    using fit by (intro unat_add_128 [THEN trans]) (simp_all add: unat_ucast_64_128)
  then show "unat (int128_and (int128_add (int128_make64 ?oas) (section_size s))
                     (int128_exts64 (qemu_real_host_page_mask e))) = aligned_end e s"
    by (simp add: int128_and_def int128_add_def int128_make64_def int128_exts64_def
          qemu_real_host_page_mask_def pg(1) scast_neg_pow2 [OF pg(2)] unat_and_neg_pow2
          aligned_end_def p2)
  have "round_up (unat ?oas) (2 ^ k) < unat ?oas + 2 ^ k" by (rule round_up_bounds) simp
  with room show "aligned_start e s < 2 ^ 64" by (simp add: aligned_start_def p)
  show "aligned_end e s \<le> 2 ^ 64"
    using fit round_down_le [of "unat ?oas + unat (section_size s)" "2 ^ k"]
    by (simp add: aligned_end_def p)
qed

lemma low_half_room:
  fixes x :: "64 word"
  assumes "k < 64" and "\<not> bit x 63"
  shows "unat x + 2 ^ k \<le> 2 ^ 64"
proof -
  have "unat x < 2 ^ 63" using assms(2) by (rule not_bit63_bound)
  moreover have "(2 :: nat) ^ k \<le> 2 ^ 63" using assms(1) by (rule pow2_le_63)
  ultimately show ?thesis by simp
qed

lemma word_of_nat_unat_eq: "unat w = n \<Longrightarrow> w = word_of_nat n"
  by auto

lemma unmap_ram_section_range:
  assumes pg: "qemu_real_host_page_size e = 2 ^ k" "k < 64"
    and room: "unat (offset_within_address_space s) + 2 ^ k \<le> 2 ^ 64"
    and fit: "unat (offset_within_address_space s) + unat (section_size s) \<le> 2 ^ 64"
  shows "vfio_dma_unmap_ram_section e c s tr =
     (if aligned_end e s \<le> aligned_start e s then Inr (c, tr)
      else
        (case vfio_dma_unmap_ram_section_try e c s (word_of_nat (aligned_start e s))
                (word_of_nat (aligned_end e s - 1))
                (word_of_nat (aligned_end e s - aligned_start e s)) tr of
           Inl f \<Rightarrow> Inl f
         | Inr (try_unmap, c1, tr1) \<Rightarrow>
             if try_unmap
             then (case vfio_dma_unmap_ram_section_unmap e c1
                           (word_of_nat (aligned_start e s))
                           (word_of_nat (aligned_end e s - aligned_start e s)) tr1 of
                     Inl f \<Rightarrow> Inl f
                   | Inr tr2 \<Rightarrow> Inr (c1, tr2))
             else Inr (c1, tr1)))"
proof -
  let ?a = "aligned_start e s" and ?b = "aligned_end e s"
  let ?iova = "REAL_HOST_PAGE_ALIGN e (offset_within_address_space s)"
  let ?L = "int128_and
              (int128_add (int128_make64 (offset_within_address_space s)) (section_size s))
              (int128_exts64 (qemu_real_host_page_mask e))"
  note r = aligned_range [OF pg room fit]
  have ua: "unat ?iova = ?a" and uL: "unat ?L = ?b" by (rule r)+
  have a64: "?a < 2 ^ 64" and b64: "?b \<le> 2 ^ 64" by (rule r)+
  have iova: "?iova = word_of_nat ?a" using ua by (rule word_of_nat_unat_eq)
  have um: "unat (int128_make64 ?iova) = ?a"
    by (simp add: int128_make64_def unat_ucast_64_128 ua)
  have "sint (int128_make64 ?iova) = int ?a"
    using a64 by (intro sint_eq_unat [THEN trans]) (simp_all add: um)
  moreover have "sint ?L = int ?b"
    using b64 by (intro sint_eq_unat [THEN trans]) (simp_all add: uL)
  ultimately have ge: "int128_ge (int128_make64 ?iova) ?L \<longleftrightarrow> ?b \<le> ?a"
    by (simp add: int128_ge_def)
  show ?thesis
  proof (cases "?b \<le> ?a")
    case True
    then show ?thesis using ge by (simp add: vfio_dma_unmap_ram_section_def Let_def)
  next
    case False
    then have lt: "?a < ?b" by simp
    have "unat (int128_sub ?L int128_one) = ?b - 1"
      using lt by (simp add: int128_sub_def int128_one_def unat_sub_128 uL)
    moreover have "?b - 1 < 2 ^ 64" using b64 lt by simp
    ultimately have g: "int128_get64 (int128_sub ?L int128_one) = Inr (word_of_nat (?b - 1))"
      by (simp add: int128_get64_fits)
    have "unat (int128_sub ?L (int128_make64 ?iova)) = ?b - ?a"
      using lt by (simp add: int128_sub_def unat_sub_128 uL um)
    then have sz: "int128_sub ?L (int128_make64 ?iova) = word_of_nat (?b - ?a)"
      by (rule word_of_nat_unat_eq)
    show ?thesis
      unfolding vfio_dma_unmap_ram_section_def Let_def
      using False ge by (simp only: g sz if_False sum.case iova [symmetric])
  qed
qed

lemma region_del_giommu_keeps:
  assumes "region_del_giommu c s tr = (c1, tr1)"
  shows "container_id c1 = container_id c" and "hostwin_list c1 = hostwin_list c"
    and "\<exists>g. tr1 = tr @ g \<and> dma_unmaps g = [] \<and> (\<Union>ev \<in> set g. unmap_range ev) = {}"
  using assms by (auto simp: region_del_giommu_def split: option.splits)

lemma unmap_try_attempted:
  assumes "unmap_attempted e c s" and "hostwin_list c1 = hostwin_list c"
  shows "vfio_dma_unmap_ram_section_try e c1 s (word_of_nat (aligned_start e s))
           (word_of_nat (aligned_end e s - 1))
           (word_of_nat (aligned_end e s - aligned_start e s)) tr = Inr (True, c1, tr)"
proof -
  have h: "hostwin_from_range c1 = hostwin_from_range c"
    using assms(2) by (simp add: hostwin_from_range_def fun_eq_iff)
  show ?thesis
    using assms(1)
    by (auto simp: unmap_attempted_def vfio_dma_unmap_ram_section_try_def h
             split: option.splits if_splits)
qed

lemma unmap_ram_section_direct:
  assumes pg: "qemu_real_host_page_size e = 2 ^ k" "k < 64"
    and room: "unat (offset_within_address_space s) + 2 ^ k \<le> 2 ^ 64"
    and fit: "unat (offset_within_address_space s) + unat (section_size s) \<le> 2 ^ 64"
    and att: "unmap_attempted e c s" and hw: "hostwin_list c1 = hostwin_list c"
  shows "vfio_dma_unmap_ram_section e c1 s tr =
           Inr (c1, direct_unmaps e c1 (aligned_start e s) (aligned_end e s) tr)"
proof (cases "aligned_end e s \<le> aligned_start e s")
  case True
  then show ?thesis
    by (simp add: unmap_ram_section_range [OF pg room fit] direct_unmaps_def)
next
  case False
  let ?a = "aligned_start e s" and ?b = "aligned_end e s"
  from False have lt: "?a < ?b" by simp
  define span where "span = ?b - ?a"
  have b64: "?b \<le> 2 ^ 64" by (rule aligned_range [OF pg room fit])
  then have n: "span \<le> 2 ^ 64" by (simp add: span_def)
  then have "span < 2 ^ 128"
    by (rule le_less_trans) simp
  then have u: "unat (word_of_nat span :: 128 word) = span"
    by (simp add: unat_of_nat)
  have a0: "(word_of_nat ?a :: 64 word) = 0" if "span = 2 ^ 64"
  proof -
    have "\<And>n :: nat. ?b - ?a = n \<Longrightarrow> ?b \<le> n \<Longrightarrow> 0 < n \<Longrightarrow> ?a = 0" by arith
    from this [OF that [unfolded span_def] b64] have "?a = 0" by simp
    then show ?thesis by simp
  qed
  have "vfio_dma_unmap_ram_section_unmap e c1 (word_of_nat ?a) (word_of_nat span) tr
          = Inr (if span = 2 ^ 64
                 then unmap_and_report e c1 (word_of_nat ?a + 2 ^ 63) (2 ^ 63)
                        (unmap_and_report e c1 (word_of_nat ?a) (2 ^ 63) tr)
                 else unmap_and_report e c1 (word_of_nat ?a) (word_of_nat span) tr)"
    using unmap_tail_spec [of "word_of_nat span" e c1 "word_of_nat ?a" tr] n
    by (simp only: u)
  also have "\<dots> = Inr (direct_unmaps e c1 ?a ?b tr)"
    using lt a0 by (simp add: direct_unmaps_def flip: span_def)
  finally have tail: "vfio_dma_unmap_ram_section_unmap e c1 (word_of_nat ?a)
                        (word_of_nat span) tr = Inr (direct_unmaps e c1 ?a ?b tr)" .
  note tried = unmap_try_attempted [OF att hw, of tr]
  note tail' = tail [unfolded span_def]
  show ?thesis
    using False unmap_ram_section_range [OF pg room fit, of c1 tr]
    by (simp only: if_False tried tail' sum.case prod.case if_True)
qed

lemma region_del_direct:
  assumes pg: "qemu_real_host_page_size e = 2 ^ k" "k < 64"
    and listen: "\<not> vfio_listener_skipped_section s" "\<not> section_misaligned e s"
    and fit: "unat (offset_within_address_space s) + unat (section_size s) \<le> 2 ^ 64"
    and att: "unmap_attempted e c s"
  shows "\<exists>c1 g. container_id c1 = container_id c \<and> dma_unmaps g = [] \<and>
           (\<Union>ev \<in> set g. unmap_range ev) = {} \<and>
           vfio_container_region_del e c s tr =
             Inr (vfio_container_del_section_window e c1 s
                    (direct_unmaps e c1 (aligned_start e s) (aligned_end e s) (tr @ g)
                     @ [Memory_region_unref (mr_id (mr s))]))"
proof -
  from listen(1) have "\<not> bit (offset_within_address_space s) 63"
    by (simp add: skipped_section_iff)
  with pg(2) have room: "unat (offset_within_address_space s) + 2 ^ k \<le> 2 ^ 64"
    by (rule low_half_room)
  obtain c1 tr1 where g: "(if memory_region_is_iommu (mr s)
                            then region_del_giommu c s tr else (c, tr)) = (c1, tr1)"
    by (cases "if memory_region_is_iommu (mr s)
               then region_del_giommu c s tr else (c, tr)") auto
  have k: "container_id c1 = container_id c \<and> hostwin_list c1 = hostwin_list c \<and>
           (\<exists>g. tr1 = tr @ g \<and> dma_unmaps g = [] \<and> (\<Union>ev \<in> set g. unmap_range ev) = {})"
  proof (cases "memory_region_is_iommu (mr s)")
    case True
    with g have "region_del_giommu c s tr = (c1, tr1)" by simp
    from region_del_giommu_keeps [OF this] show ?thesis by blast
  next
    case False
    with g show ?thesis by simp
  qed
  then obtain gs where gs: "tr1 = tr @ gs" "dma_unmaps gs = []"
      "(\<Union>ev \<in> set gs. unmap_range ev) = {}" by blast
  from k have hw: "hostwin_list c1 = hostwin_list c" by blast
  have "vfio_container_region_del e c s tr =
          Inr (vfio_container_del_section_window e c1 s
                 (direct_unmaps e c1 (aligned_start e s) (aligned_end e s) tr1
                  @ [Memory_region_unref (mr_id (mr s))]))"
    using listen g
    by (simp add: vfio_container_region_del_def
          unmap_ram_section_direct [OF pg room fit att hw])
  with k gs show ?thesis by blast
qed

lemma direct_unmaps_shape:
  assumes "b \<le> 2 ^ 64"
  shows "\<exists>d. direct_unmaps e c a b tr = tr @ d \<and>
           dma_unmaps d =
             (if b - a = 2 ^ 64
              then [(container_id c, 0, 2 ^ 63), (container_id c, 2 ^ 63, 2 ^ 63)]
              else if a < b
              then [(container_id c, word_of_nat a, word_of_nat (b - a))]
              else []) \<and>
           sum_list (map (\<lambda>(cid, iova, sz). unat sz) (dma_unmaps d)) = b - a \<and>
           (\<Union>ev \<in> set d. unmap_range ev) = {a ..< b}"
proof (cases "b \<le> a")
  case True
  then show ?thesis by (simp add: direct_unmaps_def)
next
  case False
  then have lt: "a < b" by simp
  show ?thesis
  proof (cases "b - a = 2 ^ 64")
    case True
    have "\<And>n :: nat. b - a = n \<Longrightarrow> b \<le> n \<Longrightarrow> 0 < n \<Longrightarrow> a = 0 \<and> b = n" by arith
    from this [OF True assms] have ab: "a = 0" "b = 2 ^ 64" by simp_all
    have "{0 ..< 9223372036854775808} \<union> {9223372036854775808 ..< 18446744073709551616}
            = {0 ..< (18446744073709551616 :: nat)}"
      by (rule ivl_disj_un) simp_all
    then show ?thesis
      by (simp add: direct_unmaps_def ab unmap_and_report_trace Un_commute)
  next
    case False
    with assms lt have n: "b - a < 2 ^ 64" and a64: "a < 2 ^ 64" by simp_all
    have ua: "unat (word_of_nat a :: 64 word) = a" using a64 by (simp add: unat_of_nat)
    have un: "unat (word_of_nat (b - a) :: 64 word) = b - a" using n by (simp add: unat_of_nat)
    have "direct_unmaps e c a b tr
            = unmap_and_report e c (word_of_nat a) (word_of_nat (b - a)) tr"
      using False lt by (simp only: direct_unmaps_def) simp
    then show ?thesis
      using False lt ua un
      by (simp only: unmap_and_report_trace) (auto simp del: of_nat_diff)
  qed
qed

lemma del_section_window_trace:
  "\<exists>c'. vfio_container_del_section_window e c s tr
           = (c', tr @ [Del_section_window (container_id c) s])"
  by (simp add: vfio_container_del_section_window_def)

lemma region_del_direct_trace:
  assumes pg: "qemu_real_host_page_size e = 2 ^ k" "k < 64"
    and listen: "\<not> vfio_listener_skipped_section s" "\<not> section_misaligned e s"
    and fit: "unat (offset_within_address_space s) + unat (section_size s) \<le> 2 ^ 64"
    and att: "unmap_attempted e c s"
  obtains c' g d where
    "vfio_container_region_del e c s tr =
       Inr (c', tr @ g @ d @ [Memory_region_unref (mr_id (mr s)),
                             Del_section_window (container_id c) s])"
    and "dma_unmaps g = []" and "(\<Union>ev \<in> set g. unmap_range ev) = {}"
    and "dma_unmaps d =
           (if aligned_end e s - aligned_start e s = 2 ^ 64
            then [(container_id c, 0, 2 ^ 63), (container_id c, 2 ^ 63, 2 ^ 63)]
            else if aligned_start e s < aligned_end e s
            then [(container_id c, word_of_nat (aligned_start e s),
                   word_of_nat (aligned_end e s - aligned_start e s))]
            else [])"
    and "sum_list (map (\<lambda>(cid, iova, sz). unat sz) (dma_unmaps d))
           = aligned_end e s - aligned_start e s"
    and "(\<Union>ev \<in> set d. unmap_range ev) = {aligned_start e s ..< aligned_end e s}"
proof -
  from listen(1) have "\<not> bit (offset_within_address_space s) 63"
    by (simp add: skipped_section_iff)
  with pg(2) have room: "unat (offset_within_address_space s) + 2 ^ k \<le> 2 ^ 64"
    by (rule low_half_room)
  have b64: "aligned_end e s \<le> 2 ^ 64" by (rule aligned_range [OF pg room fit])
  from region_del_direct [OF pg listen fit att, of tr]
  obtain c1 g where c1: "container_id c1 = container_id c" and g: "dma_unmaps g = []"
      "(\<Union>ev \<in> set g. unmap_range ev) = {}"
    and r: "vfio_container_region_del e c s tr =
              Inr (vfio_container_del_section_window e c1 s
                     (direct_unmaps e c1 (aligned_start e s) (aligned_end e s) (tr @ g)
                      @ [Memory_region_unref (mr_id (mr s))]))"
    by blast
  from direct_unmaps_shape [OF b64, of e c1 "aligned_start e s" "tr @ g"]
  obtain d where d: "direct_unmaps e c1 (aligned_start e s) (aligned_end e s) (tr @ g)
                       = (tr @ g) @ d"
    and du: "dma_unmaps d =
             (if aligned_end e s - aligned_start e s = 2 ^ 64
              then [(container_id c1, 0, 2 ^ 63), (container_id c1, 2 ^ 63, 2 ^ 63)]
              else if aligned_start e s < aligned_end e s
              then [(container_id c1, word_of_nat (aligned_start e s),
                     word_of_nat (aligned_end e s - aligned_start e s))]
              else [])"
    and ds: "sum_list (map (\<lambda>(cid, iova, sz). unat sz) (dma_unmaps d))
               = aligned_end e s - aligned_start e s"
    and dr: "(\<Union>ev \<in> set d. unmap_range ev) = {aligned_start e s ..< aligned_end e s}"
    by blast
  from del_section_window_trace
         [of e c1 s "((tr @ g) @ d) @ [Memory_region_unref (mr_id (mr s))]"]
  obtain c' where "vfio_container_del_section_window e c1 s
                     (((tr @ g) @ d) @ [Memory_region_unref (mr_id (mr s))])
                   = (c', (((tr @ g) @ d) @ [Memory_region_unref (mr_id (mr s))])
                          @ [Del_section_window (container_id c1) s])"
    by blast
  with r d c1 have r': "vfio_container_region_del e c s tr =
             Inr (c', tr @ g @ d @ [Memory_region_unref (mr_id (mr s)),
                                   Del_section_window (container_id c) s])"
    by simp
  show thesis
    by (rule that [OF r' g du [unfolded c1] ds dr])
qed

text \<open>
  C6. A region_del of a RAM section that reaches the direct unmap issues exactly two
  backend unmap calls when the page-aligned span is the whole \<open>2 ^ 64\<close>, each of one half
  of it and the second starting where the first ends; exactly one call when the span is
  smaller and not empty; none when it is empty. The sizes of the calls sum to the span.
  The direct unmap is reached when the listener does not skip or reject the section, the
  region has no RAM discard manager and, for a RAM device, the start and the size are
  multiples of the smallest page of the host window.
\<close>

theorem region_del_unmap_calls:
  assumes "qemu_real_host_page_size e = 2 ^ k" and "k < 64"
    and "memory_region_is_ram (mr s)"
    and "\<not> vfio_listener_skipped_section s" and "\<not> section_misaligned e s"
    and "unat (offset_within_address_space s) + unat (section_size s) \<le> 2 ^ 64"
    and "unmap_attempted e c s"
  shows "\<exists>c' tr' calls.
           vfio_container_region_del e c s tr = Inr (c', tr') \<and>
           dma_unmaps tr' = dma_unmaps tr @ calls \<and>
           calls =
             (if aligned_end e s - aligned_start e s = 2 ^ 64
              then [(container_id c, 0, 2 ^ 63), (container_id c, 2 ^ 63, 2 ^ 63)]
              else if aligned_start e s < aligned_end e s
              then [(container_id c, word_of_nat (aligned_start e s),
                     word_of_nat (aligned_end e s - aligned_start e s))]
              else []) \<and>
           sum_list (map (\<lambda>(cid, iova, sz). unat sz) calls)
             = aligned_end e s - aligned_start e s"
proof -
  obtain c' g d where
    r: "vfio_container_region_del e c s tr =
          Inr (c', tr @ g @ d @ [Memory_region_unref (mr_id (mr s)),
                                Del_section_window (container_id c) s])"
    and g: "dma_unmaps g = []"
    and du: "dma_unmaps d =
             (if aligned_end e s - aligned_start e s = 2 ^ 64
              then [(container_id c, 0, 2 ^ 63), (container_id c, 2 ^ 63, 2 ^ 63)]
              else if aligned_start e s < aligned_end e s
              then [(container_id c, word_of_nat (aligned_start e s),
                     word_of_nat (aligned_end e s - aligned_start e s))]
              else [])"
    and ds: "sum_list (map (\<lambda>(cid, iova, sz). unat sz) (dma_unmaps d))
               = aligned_end e s - aligned_start e s"
    by (rule region_del_direct_trace [OF assms(1,2,4,5,6,7), of tr])
  have a: "dma_unmaps (tr @ g @ d @ [Memory_region_unref (mr_id (mr s)),
                                    Del_section_window (container_id c) s])
             = dma_unmaps tr @ dma_unmaps d"
    using g by simp
  show ?thesis
    by (intro exI [of _ c'] exI [of _ "dma_unmaps d"] conjI r a du ds
          exI [of _ "tr @ g @ d @ [Memory_region_unref (mr_id (mr s)),
                                  Del_section_window (container_id c) s]"])
qed

text \<open>
  C3. A region_del of a RAM section that reaches the direct unmap unmaps the addresses
  from \<open>offset_within_address_space\<close> rounded up to the host page size, up to
  \<open>offset_within_address_space + size\<close> rounded down to the host page size (exclusive).
\<close>

theorem region_del_unmapped_range:
  assumes "qemu_real_host_page_size e = 2 ^ k" and "k < 64"
    and "memory_region_is_ram (mr s)"
    and "\<not> vfio_listener_skipped_section s" and "\<not> section_misaligned e s"
    and "unat (offset_within_address_space s) + unat (section_size s) \<le> 2 ^ 64"
    and "unmap_attempted e c s"
  shows "\<exists>c' new.
           vfio_container_region_del e c s tr = Inr (c', tr @ new) \<and>
           (\<Union>ev \<in> set new. unmap_range ev) =
             {round_up (unat (offset_within_address_space s))
                (unat (qemu_real_host_page_size e))
              ..< round_down (unat (offset_within_address_space s) + unat (section_size s))
                    (unat (qemu_real_host_page_size e))}"
proof -
  obtain c' g d where
    r: "vfio_container_region_del e c s tr =
          Inr (c', tr @ g @ d @ [Memory_region_unref (mr_id (mr s)),
                                Del_section_window (container_id c) s])"
    and g: "(\<Union>ev \<in> set g. unmap_range ev) = {}"
    and dr: "(\<Union>ev \<in> set d. unmap_range ev) = {aligned_start e s ..< aligned_end e s}"
    by (rule region_del_direct_trace [OF assms(1,2,4,5,6,7), of tr])
  have a: "(\<Union>ev \<in> set (g @ d @ [Memory_region_unref (mr_id (mr s)),
                                    Del_section_window (container_id c) s]). unmap_range ev)
             = {aligned_start e s ..< aligned_end e s}"
    using g dr by (simp add: UN_Un)
  show ?thesis
    by (intro exI [of _ c'] conjI r a [unfolded aligned_start_def aligned_end_def]
          exI [of _ "g @ d @ [Memory_region_unref (mr_id (mr s)),
                             Del_section_window (container_id c) s]"])
qed

lemmas region_del_defs =
  vfio_container_region_del_def vfio_dma_unmap_ram_section_def
  vfio_dma_unmap_ram_section_try_def vfio_dma_unmap_ram_section_unmap_def
  unmap_and_report_def vfio_container_del_section_window_def region_del_giommu_def
  hostwin_from_range_def ram_device_misaligned_def vfio_listener_skipped_section_def

lemma ctz64_64k: "ctz64 0x10000 = 16"
  by (simp add: ctz64_def upt_rec)

text \<open>
  The start is not rounded down: of a section from \<open>0x800\<close> to \<open>0x2800\<close>, with pages of
  \<open>0x1000\<close>, region_del unmaps from \<open>0x1000\<close>, and the start rounded down, 0, is not
  unmapped.
\<close>

theorem region_del_start_rounds_up_counterexample:
  "vfio_container_region_del example_env container0 sub_page_section [] =
     Inr (container0,
          [Dma_unmap 0 0x1000 0x1000 None, Memory_region_unref 7,
           Del_section_window 0 sub_page_section]) \<and>
   unmap_range (Dma_unmap 0 0x1000 0x1000 None) = {0x1000 ..< 0x2000} \<and>
   round_down (unat (offset_within_address_space sub_page_section))
     (unat (qemu_real_host_page_size example_env)) = 0 \<and>
   round_down (unat (offset_within_address_space sub_page_section)
               + unat (section_size sub_page_section))
     (unat (qemu_real_host_page_size example_env)) = 0x2000 \<and>
   round_down (unat (offset_within_address_space sub_page_section))
     (unat (qemu_real_host_page_size example_env))
     \<notin> unmap_range (Dma_unmap 0 0x1000 0x1000 None)"
  by (simp add: region_del_defs dma_defs page_defs int128_defs example_defs
        container0_def sub_page_section_def round_down_def)

text \<open>
  A RAM device of one page of \<open>0x1000\<close> in a host window whose smallest page is
  \<open>0x10000\<close>: the aligned span is not empty, and region_del issues no unmap.
\<close>

theorem region_del_unmap_calls_counterexample:
  "vfio_container_region_del example_env container_64k ram_device_section [] =
     Inr (container_64k,
          [Memory_region_unref 10, Del_section_window 0 ram_device_section]) \<and>
   memory_region_is_ram (mr ram_device_section) \<and>
   aligned_start example_env ram_device_section = 0x1000 \<and>
   aligned_end example_env ram_device_section = 0x2000 \<and>
   dma_unmaps [Memory_region_unref 10, Del_section_window 0 ram_device_section] = []"
  by (simp add: region_del_defs dma_defs page_defs int128_defs example_defs
        container_64k_def ram_device_section_def round_down_def round_up_def
        aligned_start_def aligned_end_def ctz64_64k)

lemma example_page_size: "qemu_real_host_page_size example_env = 2 ^ 12"
  by (simp add: example_env_def)

text \<open>The full span and a span of 1 GiB.\<close>

theorem region_del_unmap_calls_witness:
  "(\<exists>c' tr'. vfio_container_region_del example_env container0 full_section []
                = Inr (c', tr') \<and>
              dma_unmaps tr' = [(0, 0, 0x8000000000000000),
                                (0, 0x8000000000000000, 0x8000000000000000)]) \<and>
   (\<exists>c' tr'. vfio_container_region_del example_env container0 gib_section []
                = Inr (c', tr') \<and>
              dma_unmaps tr' = [(0, 0, 0x40000000)])"
proof -
  have f: "memory_region_is_ram (mr full_section)"
      "\<not> vfio_listener_skipped_section full_section"
      "\<not> section_misaligned example_env full_section"
      "unat (offset_within_address_space full_section) + unat (section_size full_section)
         \<le> 2 ^ 64"
      "unmap_attempted example_env container0 full_section"
    by (simp_all add: full_section_def example_ram_def vfio_listener_skipped_section_def
          section_misaligned_def unmap_attempted_def)
  have g: "memory_region_is_ram (mr gib_section)"
      "\<not> vfio_listener_skipped_section gib_section"
      "\<not> section_misaligned example_env gib_section"
      "unat (offset_within_address_space gib_section) + unat (section_size gib_section)
         \<le> 2 ^ 64"
      "unmap_attempted example_env container0 gib_section"
    by (simp_all add: gib_section_def example_ram_def vfio_listener_skipped_section_def
          section_misaligned_def unmap_attempted_def)
  have af: "aligned_start example_env full_section = 0"
      "aligned_end example_env full_section = 2 ^ 64"
    by (simp_all add: aligned_start_def aligned_end_def round_up_def round_down_def
          full_section_def example_env_def)
  have ag: "aligned_start example_env gib_section = 0"
      "aligned_end example_env gib_section = 2 ^ 30"
    by (simp_all add: aligned_start_def aligned_end_def round_up_def round_down_def
          gib_section_def example_env_def)
  have c: "container_id container0 = 0"
    by (simp add: container0_def example_container_def)
  from region_del_unmap_calls [where c = container0 and tr = "[]", OF example_page_size _ f]
  have 1: "\<exists>c' tr'. vfio_container_region_del example_env container0 full_section []
                = Inr (c', tr') \<and>
              dma_unmaps tr' = [(0, 0, 0x8000000000000000),
                                (0, 0x8000000000000000, 0x8000000000000000)]"
    by (simp add: af c) blast
  from region_del_unmap_calls [where c = container0 and tr = "[]", OF example_page_size _ g]
  have 2: "\<exists>c' tr'. vfio_container_region_del example_env container0 gib_section []
                = Inr (c', tr') \<and> dma_unmaps tr' = [(0, 0, 0x40000000)]"
    by (simp add: ag c) blast
  from 1 2 show ?thesis by (rule conjI)
qed

theorem region_del_unmapped_range_witness:
  "\<exists>c' new. vfio_container_region_del example_env container0 sub_page_section []
               = Inr (c', new) \<and>
             (\<Union>ev \<in> set new. unmap_range ev) = {0x1000 ..< 0x2000}"
proof -
  have f: "memory_region_is_ram (mr sub_page_section)"
      "\<not> vfio_listener_skipped_section sub_page_section"
      "\<not> section_misaligned example_env sub_page_section"
      "unat (offset_within_address_space sub_page_section)
         + unat (section_size sub_page_section) \<le> 2 ^ 64"
      "unmap_attempted example_env container0 sub_page_section"
    by (simp_all add: sub_page_section_def example_ram_def vfio_listener_skipped_section_def
          section_misaligned_def unmap_attempted_def)
  have a: "round_up (unat (offset_within_address_space sub_page_section))
             (unat (qemu_real_host_page_size example_env)) = 0x1000"
      "round_down (unat (offset_within_address_space sub_page_section)
                   + unat (section_size sub_page_section))
             (unat (qemu_real_host_page_size example_env)) = 0x2000"
    by (simp_all add: round_up_def round_down_def sub_page_section_def example_env_def)
  from region_del_unmapped_range [where c = container0 and tr = "[]", OF example_page_size _ f]
  show ?thesis by (simp add: a)
qed

subsection \<open>The populate notification\<close>

lemma dma_map_call:
  "vfio_container_dma_map e c iova sz vaddr ro tr =
     (status e tr (Dma_map (container_id c) iova sz vaddr ro),
      tr @ [Dma_map (container_id c) iova sz vaddr ro])"
  by (simp add: vfio_container_dma_map_def iommufd_map_def collaborator_call_def
           split: VFIOIOMMUBackendOps.splits)

lemma dma_unmap_call:
  "vfio_container_dma_unmap e c iova sz iotlb tr =
     (status e tr (Dma_unmap (container_id c) iova sz iotlb),
      tr @ [Dma_unmap (container_id c) iova sz iotlb])"
  by (simp add: vfio_container_dma_unmap_def iommufd_unmap_def collaborator_call_def
           split: VFIOIOMMUBackendOps.splits)

lemma discard_trace:
  assumes "unat (section_size s) < 2 ^ 64"
  shows "vfio_ram_discard_notify_discard e c s tr =
           Inr (tr @ discard_call c s #
                  (if status e tr (discard_call c s) \<noteq> 0
                   then [Error_report
                           ''vfio_ram_discard_notify_discard: vfio_dma_unmap() failed'']
                   else []))"
  by (simp add: vfio_ram_discard_notify_discard_def int128_get64_fits [OF assms]
        dma_unmap_call discard_call_def)

lemma unat_word_of_nat_64: "n < 2 ^ 64 \<Longrightarrow> unat (word_of_nat n :: 64 word) = n"
  by (simp add: unat_of_nat)

lemma word_of_nat_less_64:
  "a < 2 ^ 64 \<Longrightarrow> b < 2 ^ 64 \<Longrightarrow> (word_of_nat a :: 64 word) < word_of_nat b \<longleftrightarrow> a < b"
  by (simp add: word_less_nat_alt unat_word_of_nat_64)

lemma word_of_nat_min_64:
  "a < 2 ^ 64 \<Longrightarrow> b < 2 ^ 64 \<Longrightarrow>
   min (word_of_nat a :: 64 word) (word_of_nat b) = word_of_nat (min a b)"
  by (simp add: min_def word_le_nat_alt unat_word_of_nat_64)

lemma ROUND_UP_word_of_nat:
  assumes "j < 64" "n + 2 ^ j \<le> 2 ^ 64"
  shows "ROUND_UP (word_of_nat n) (2 ^ j) = (word_of_nat (round_up n (2 ^ j)) :: 64 word)"
proof -
  have n: "n < 2 ^ 64" using assms(2)
    by (rule less_le_trans [rotated]) simp
  have u: "unat (word_of_nat n :: 64 word) = n" using n by (rule unat_word_of_nat_64)
  have "unat ((word_of_nat n + 2 ^ j - 1 :: 64 word) AND - (2 ^ j)) = round_up n (2 ^ j)"
    using unat_ROUND_UP [of j "word_of_nat n :: 64 word"] assms by (simp add: u)
  then show ?thesis
    unfolding ROUND_UP_def by (rule word_of_nat_unat_eq)
qed

lemma populate_loop_slices:
  assumes j: "j < 64" and g: "granularity vrdl = 2 ^ j"
    and fits: "unat (section_size s) < 2 ^ 64"
  shows "st \<le> en \<Longrightarrow> en + 2 ^ j \<le> 2 ^ 64 \<Longrightarrow> gr = 2 ^ j \<Longrightarrow>
         populate_loop e c vrdl s (word_of_nat en) (word_of_nat st) tr =
           Some (Inr (with_rollback e c s
                        (map_until_failure e tr
                           (map (slice_call c s) (spec_slices gr en st)))))"
proof (induction gr en st arbitrary: tr rule: spec_slices.induct)
  case (1 gr en st)
  have en64: "en < 2 ^ 64" using "1.prems"(2)
    by (rule less_le_trans [rotated]) simp
  with "1.prems"(1) have st64: "st < 2 ^ 64" by simp
  show ?case
  proof (cases "st < en")
    case False
    with "1.prems"(1) have "st = en" by simp
    moreover have "spec_slices gr en en = []"
      by (subst spec_slices.simps) simp
    ultimately show ?thesis
      by (subst populate_loop.simps) (simp add: with_rollback_def)
  next
    case True
    define nx where "nx = min (round_up (st + 1) gr) en"
    have gpos: "0 < gr" using "1.prems"(3) by simp
    have up: "st + 1 \<le> round_up (st + 1) gr" "round_up (st + 1) gr < st + 1 + gr"
      using gpos by (rule round_up_bounds)+
    have nx: "st < nx" "nx \<le> en" using up(1) True by (simp_all add: nx_def)
    have ru64: "round_up (st + 1) gr < 2 ^ 64"
      using up(2) True "1.prems"(2,3) by simp
    have w1: "(word_of_nat st + 1 :: 64 word) = word_of_nat (st + 1)" by simp
    have "ROUND_UP (word_of_nat (st + 1)) (2 ^ j) = (word_of_nat (round_up (st + 1) (2 ^ j)) :: 64 word)"
      using j True "1.prems"(2,3) by (intro ROUND_UP_word_of_nat) simp_all
    then have wnx: "min (ROUND_UP (word_of_nat st + 1) (granularity vrdl)) (word_of_nat en)
                     = (word_of_nat nx :: 64 word)"
      using ru64 en64 "1.prems"(3)
      by (simp only: w1 g nx_def word_of_nat_min_64)
    have wd: "(word_of_nat nx - word_of_nat st :: 64 word) = word_of_nat (nx - st)"
      using nx(1) by simp
    have lt: "(word_of_nat st :: 64 word) < word_of_nat en"
      using True st64 en64 by (simp add: word_of_nat_less_64)
    have sl: "spec_slices gr en st = (st, nx) # spec_slices gr en nx"
      using True gpos by (subst spec_slices.simps) (simp add: nx_def)
    let ?ev = "slice_call c s (st, nx)"
    have IH: "populate_loop e c vrdl s (word_of_nat en) (word_of_nat nx) (tr @ [?ev]) =
                Some (Inr (with_rollback e c s
                             (map_until_failure e (tr @ [?ev])
                                (map (slice_call c s) (spec_slices gr en nx)))))"
      using "1.IH" [of "tr @ [?ev]"] True gpos nx(2) "1.prems"(2,3)
      by (simp add: nx_def)
    have ev: "Dma_map (container_id c)
                (word_of_nat st - offset_within_region s + offset_within_address_space s)
                (word_of_nat (nx - st))
                (memory_region_get_ram_ptr (mr s) + word_of_nat st) (readonly s) = ?ev"
      by (simp add: slice_call_def)
    have step: "populate_loop e c vrdl s (word_of_nat en) (word_of_nat st) tr =
                  (if status e tr ?ev \<noteq> 0
                   then (case vfio_ram_discard_notify_discard e c s (tr @ [?ev]) of
                           Inl f \<Rightarrow> Some (Inl f)
                         | Inr tr2 \<Rightarrow> Some (Inr (status e tr ?ev, tr2)))
                   else populate_loop e c vrdl s (word_of_nat en) (word_of_nat nx)
                          (tr @ [?ev]))"
      by (subst populate_loop.simps)
         (simp only: lt if_True wnx wd dma_map_call prod.case ev)
    show ?thesis
    proof (cases "status e tr ?ev = 0")
      case True
      then show ?thesis
        by (simp add: step sl IH)
    next
      case False
      then show ?thesis
        by (simp add: step sl discard_trace [OF fits] with_rollback_def)
    qed
  qed
qed

lemma backend_run_append:
  "backend_run e h (xs @ ys) m = backend_run e (h @ xs) ys (backend_run e h xs m)"
  by (induction xs arbitrary: h m) simp_all

lemma backend_table_snoc:
  "backend_table e (tr @ [ev]) =
     (if status e tr ev = 0 then backend_apply ev (backend_table e tr) else backend_table e tr)"
  by (simp add: backend_table_def backend_run_append)

lemma spec_slices_bounds:
  "(a, b) \<in> set (spec_slices g en st) \<Longrightarrow> st \<le> a \<and> a < b \<and> b \<le> en"
proof (induction g en st rule: spec_slices.induct)
  case (1 g en st)
  show ?case
  proof (cases "st < en \<and> 0 < g")
    case False
    with "1.prems" show ?thesis by (subst (asm) spec_slices.simps) simp
  next
    case True
    define nx where "nx = min (round_up (st + 1) g) en"
    have "st + 1 \<le> round_up (st + 1) g" using True by (intro round_up_bounds) simp
    with True have nx: "st < nx" "nx \<le> en" by (simp_all add: nx_def)
    from "1.prems" True have "(a, b) = (st, nx) \<or> (a, b) \<in> set (spec_slices g en nx)"
      by (subst (asm) spec_slices.simps) (simp add: nx_def)
    then show ?thesis
    proof
      assume "(a, b) = (st, nx)"
      with nx show ?thesis by simp
    next
      assume "(a, b) \<in> set (spec_slices g en nx)"
      from "1.IH" [OF True this [unfolded nx_def]]
      have "nx \<le> a \<and> a < b \<and> b \<le> en" by (simp only: nx_def)
      with nx show ?thesis by linarith
    qed
  qed
qed

lemma populate_refines:
  assumes g: "granularity vrdl = 2 ^ j" and j: "j < 64"
    and room: "unat (offset_within_region s) + unat (section_size s) + 2 ^ j \<le> 2 ^ 64"
  shows "vfio_ram_discard_notify_populate e c vrdl s tr
           = Some (Inr (populate_spec e c vrdl s tr))"
proof -
  let ?owr = "offset_within_region s"
  let ?en = "unat ?owr + unat (section_size s)"
  have "(0 :: nat) < 2 ^ j" by simp
  with room have en: "?en < 2 ^ 64" by linarith
  then have fits: "unat (section_size s) < 2 ^ 64" by simp
  have gr: "unat (granularity vrdl) = 2 ^ j" using g j by (simp add: unat_pow2)
  have e1: "?owr + word_of_nat (unat (section_size s)) = word_of_nat ?en" by simp
  have e2: "?owr = word_of_nat (unat ?owr)" by simp
  have "populate_loop e c vrdl s (word_of_nat ?en) (word_of_nat (unat ?owr)) tr =
          Some (Inr (with_rollback e c s
                       (map_until_failure e tr
                          (map (slice_call c s) (spec_slices (2 ^ j) ?en (unat ?owr))))))"
    using room by (intro populate_loop_slices [OF j g fits]) simp_all
  then have "populate_loop e c vrdl s (?owr + word_of_nat (unat (section_size s))) ?owr tr =
          Some (Inr (populate_spec e c vrdl s tr))"
    by (simp only: e1 populate_spec_def populate_calls_def gr) simp
  then show ?thesis
    by (simp add: vfio_ram_discard_notify_populate_def int128_get64_fits [OF fits])
qed

lemma slice_covered:
  assumes room: "unat (offset_within_address_space s) + unat (section_size s) \<le> 2 ^ 64"
    and fits: "unat (section_size s) < 2 ^ 64"
    and sl: "unat (offset_within_region s) \<le> a" "a < b"
            "b \<le> unat (offset_within_region s) + unat (section_size s)"
  shows "covers (offset_within_address_space s) (word_of_nat (unat (section_size s)))
           (word_of_nat a - offset_within_region s + offset_within_address_space s)
           (word_of_nat (b - a))"
proof -
  let ?owr = "offset_within_region s" and ?oas = "offset_within_address_space s"
  define d where "d = a - unat ?owr"
  have d: "d + (b - a) \<le> unat (section_size s)" "d < 2 ^ 64" "b - a < 2 ^ 64"
    using sl fits by (simp_all add: d_def)
  have "word_of_nat a - ?owr = (word_of_nat a - word_of_nat (unat ?owr) :: 64 word)" by simp
  also have "\<dots> = word_of_nat d" using sl(1) by (simp add: d_def)
  finally have i: "word_of_nat a - ?owr + ?oas = ?oas + word_of_nat d" by simp
  have ud: "unat (word_of_nat d :: 64 word) = d" using d(2) by (rule unat_word_of_nat_64)
  have "unat ?oas + d < 2 ^ 64" using room d(1) sl(2) by linarith
  then have ui: "unat (?oas + word_of_nat d) = unat ?oas + d"
    by (simp add: unat_add_lem [THEN iffD1] ud)
  have ub: "unat (word_of_nat (b - a) :: 64 word) = b - a"
    using d(3) by (rule unat_word_of_nat_64)
  have us: "unat (word_of_nat (unat (section_size s)) :: 64 word) = unat (section_size s)"
    using fits by (rule unat_word_of_nat_64)
  show ?thesis
    unfolding covers_def i ui ub us using d(1) by simp
qed

lemma rollback_clears_slices:
  assumes room: "unat (offset_within_address_space s) + unat (section_size s) \<le> 2 ^ 64"
    and fits: "unat (section_size s) < 2 ^ 64"
    and ev: "ev \<in> set (populate_calls c vrdl s)"
  shows "set (mapping_of ev)
           \<inter> set (backend_apply (discard_call c s) m) = {}"
proof -
  from ev obtain a b
    where ab: "(a, b) \<in> set (spec_slices (unat (granularity vrdl))
                               (unat (offset_within_region s) + unat (section_size s))
                               (unat (offset_within_region s)))"
      and e: "ev = slice_call c s (a, b)"
    unfolding populate_calls_def by auto
  from spec_slices_bounds [OF ab]
  have "covers (offset_within_address_space s) (word_of_nat (unat (section_size s)))
           (word_of_nat a - offset_within_region s + offset_within_address_space s)
           (word_of_nat (b - a))"
    by (intro slice_covered [OF room fits]) simp_all
  then show ?thesis
    by (simp add: e slice_call_def discard_call_def)
qed

text \<open>
  C5. A populate notification returns, and does what the specification says:
  it maps the section slice by slice from \<open>offset_within_region\<close>, each slice ending at
  \<open>min (round_up (start + 1) granularity) end\<close>; when the map of a slice fails it calls the
  discard, one unmap of the whole section, and returns the error of the map. If that
  unmap succeeds, no range mapped by a slice of this notification is left in the table of
  the backend. The granularity is a power of two and neither the offsets of the section
  nor the round-up wrap around \<open>2 ^ 64\<close>.
\<close>

theorem populate_maps_slices_and_rolls_back:
  assumes g: "granularity vrdl = 2 ^ j" and j: "j < 64"
    and room: "unat (offset_within_region s) + unat (section_size s) + 2 ^ j \<le> 2 ^ 64"
    and space: "unat (offset_within_address_space s) + unat (section_size s) \<le> 2 ^ 64"
  shows "vfio_ram_discard_notify_populate e c vrdl s tr
           = Some (Inr (populate_spec e c vrdl s tr)) \<and>
         (fst (populate_spec e c vrdl s tr) \<noteq> 0 \<and> rollback_ok e c vrdl s tr \<longrightarrow>
            (\<forall>ev \<in> set (populate_calls c vrdl s).
               set (mapping_of ev)
                 \<inter> set (backend_table e (snd (populate_spec e c vrdl s tr))) = {}))"
proof (intro conjI impI ballI)
  show "vfio_ram_discard_notify_populate e c vrdl s tr
          = Some (Inr (populate_spec e c vrdl s tr))"
    by (rule populate_refines [OF g j room])
next
  fix ev
  assume failed: "fst (populate_spec e c vrdl s tr) \<noteq> 0 \<and> rollback_ok e c vrdl s tr"
    and ev: "ev \<in> set (populate_calls c vrdl s)"
  have "(0 :: nat) < 2 ^ j" by simp
  with room have fits: "unat (section_size s) < 2 ^ 64" by linarith
  obtain r tr1 where m: "map_until_failure e tr (populate_calls c vrdl s) = (r, tr1)"
    by (cases "map_until_failure e tr (populate_calls c vrdl s)")
  from failed have r: "r \<noteq> 0" and ok: "status e tr1 (discard_call c s) = 0"
    by (auto simp add: populate_spec_def with_rollback_def rollback_ok_def m
          split: if_splits)
  have "snd (populate_spec e c vrdl s tr) = tr1 @ [discard_call c s]"
    by (simp add: populate_spec_def with_rollback_def m r ok)
  then have "backend_table e (snd (populate_spec e c vrdl s tr))
               = backend_apply (discard_call c s) (backend_table e tr1)"
    by (simp add: backend_table_snoc ok)
  then show "set (mapping_of ev)
               \<inter> set (backend_table e (snd (populate_spec e c vrdl s tr))) = {}"
    by (simp only: rollback_clears_slices [OF space fits ev])
qed

lemmas populate_example_defs =
  discard_section_def example_vrdl_def example_container_def example_env_def
  example_ram_def

lemma example_granularity: "granularity example_vrdl = 2 ^ 21"
  by (simp add: example_vrdl_def)

lemma example_populate_calls:
  "populate_calls example_container example_vrdl discard_section =
     [Dma_map 0 0x100000000 0x200000 0x7f0000000000 False,
      Dma_map 0 0x100200000 0x200000 0x7f0000200000 False]"
  by (simp add: populate_calls_def populate_example_defs spec_slices.simps round_up_def
        slice_call_def)

text \<open>
  The unmap of the rollback can fail, which the discard only reports: the first slice,
  mapped before the second map failed, is still in the table of the backend when the
  error is returned.
\<close>

theorem populate_rollback_failure_counterexample:
  "vfio_ram_discard_notify_populate rollback_fails_env example_container example_vrdl
     discard_section [] =
     Some (Inr (- 12,
       [Dma_map 0 0x100000000 0x200000 0x7f0000000000 False,
        Dma_map 0 0x100200000 0x200000 0x7f0000200000 False,
        Dma_unmap 0 0x100000000 0x400000 None,
        Error_report ''vfio_ram_discard_notify_discard: vfio_dma_unmap() failed''])) \<and>
   backend_table rollback_fails_env
       [Dma_map 0 0x100000000 0x200000 0x7f0000000000 False,
        Dma_map 0 0x100200000 0x200000 0x7f0000200000 False,
        Dma_unmap 0 0x100000000 0x400000 None,
        Error_report ''vfio_ram_discard_notify_discard: vfio_dma_unmap() failed'']
     = [(0, 0x100000000, 0x200000)]"
proof -
  have "vfio_ram_discard_notify_populate rollback_fails_env example_container example_vrdl
          discard_section []
        = Some (Inr (populate_spec rollback_fails_env example_container example_vrdl
                       discard_section []))"
    by (rule populate_refines [OF example_granularity])
       (simp_all add: discard_section_def)
  then show ?thesis
    unfolding populate_spec_def example_populate_calls
    by (simp add: with_rollback_def rollback_fails_env_def discard_call_def
          backend_table_def populate_example_defs)
qed

text \<open>The second map fails and the unmap of the rollback succeeds.\<close>

theorem populate_maps_slices_and_rolls_back_witness:
  "vfio_ram_discard_notify_populate second_map_fails_env example_container example_vrdl
     discard_section [] =
     Some (Inr (- 12,
       [Dma_map 0 0x100000000 0x200000 0x7f0000000000 False,
        Dma_map 0 0x100200000 0x200000 0x7f0000200000 False,
        Dma_unmap 0 0x100000000 0x400000 None])) \<and>
   (0, 0x100000000, 0x200000) \<notin> set (backend_table second_map_fails_env
       [Dma_map 0 0x100000000 0x200000 0x7f0000000000 False,
        Dma_map 0 0x100200000 0x200000 0x7f0000200000 False,
        Dma_unmap 0 0x100000000 0x400000 None])"
proof -
  have s: "populate_spec second_map_fails_env example_container example_vrdl
             discard_section [] =
           (- 12,
            [Dma_map 0 0x100000000 0x200000 0x7f0000000000 False,
             Dma_map 0 0x100200000 0x200000 0x7f0000200000 False,
             Dma_unmap 0 0x100000000 0x400000 None])"
    unfolding populate_spec_def example_populate_calls
    by (simp add: with_rollback_def second_map_fails_env_def discard_call_def
          populate_example_defs)
  have ok: "rollback_ok second_map_fails_env example_container example_vrdl
              discard_section []"
    unfolding rollback_ok_def example_populate_calls
    by (simp add: second_map_fails_env_def discard_call_def populate_example_defs)
  have ev: "Dma_map 0 0x100000000 0x200000 0x7f0000000000 False
          \<in> set (populate_calls example_container example_vrdl discard_section)"
    by (simp add: example_populate_calls)
  have room: "unat (offset_within_region discard_section)
                + unat (section_size discard_section) + 2 ^ 21 \<le> (2 :: nat) ^ 64"
    and space: "unat (offset_within_address_space discard_section)
                + unat (section_size discard_section) \<le> (2 :: nat) ^ 64"
    by (simp_all add: discard_section_def)
  have j: "(21 :: nat) < 64" by simp
  note inst = populate_maps_slices_and_rolls_back
               [where e = second_map_fails_env and c = example_container and tr = "[]",
                OF example_granularity j room space]
  from inst have "vfio_ram_discard_notify_populate second_map_fails_env example_container
                   example_vrdl discard_section []
                 = Some (Inr (populate_spec second_map_fails_env example_container
                                example_vrdl discard_section []))"
    by (rule conjunct1)
  moreover have "(0, 0x100000000, 0x200000)
                   \<notin> set (backend_table second_map_fails_env
                            (snd (populate_spec second_map_fails_env example_container
                                    example_vrdl discard_section [])))"
  proof -
    have failed: "fst (populate_spec second_map_fails_env example_container example_vrdl
                         discard_section []) \<noteq> 0"
      by (simp add: s)
    from inst
    have "fst (populate_spec second_map_fails_env example_container example_vrdl
                 discard_section []) \<noteq> 0
            \<and> rollback_ok second_map_fails_env example_container example_vrdl
                  discard_section [] \<longrightarrow>
          (\<forall>ev \<in> set (populate_calls example_container example_vrdl discard_section).
             set (mapping_of ev)
               \<inter> set (backend_table second_map_fails_env
                          (snd (populate_spec second_map_fails_env example_container
                                  example_vrdl discard_section []))) = {})"
      by (rule conjunct2)
    with failed ok
    have "\<forall>ev \<in> set (populate_calls example_container example_vrdl discard_section).
             set (mapping_of ev)
               \<inter> set (backend_table second_map_fails_env
                          (snd (populate_spec second_map_fails_env example_container
                                  example_vrdl discard_section []))) = {}"
      by blast
    from bspec [OF this ev] show ?thesis by simp
  qed
  ultimately show ?thesis
    by (simp only: s snd_conv) simp
qed

subsection \<open>The pre-registration listener\<close>

lemma target_page_range:
  assumes tp: "TARGET_PAGE_SIZE e = 2 ^ k" "k < 64"
    and room: "unat (offset_within_address_space s) + 2 ^ k \<le> 2 ^ 64"
    and fit: "unat (offset_within_address_space s) + unat (section_size s) \<le> 2 ^ 64"
  shows "unat (TARGET_PAGE_ALIGN e (offset_within_address_space s)) = target_start e s"
    and "unat (int128_and
                 (int128_add (int128_make64 (offset_within_address_space s))
                    (section_size s))
                 (int128_exts64 (TARGET_PAGE_MASK e))) = target_end e s"
    and "target_end e s \<le> 2 ^ 64"
proof -
  let ?oas = "offset_within_address_space s"
  have p: "unat (TARGET_PAGE_SIZE e) = 2 ^ k"
    using tp by (simp add: unat_pow2)
  have p2: "unat (2 ^ k :: 64 word) = 2 ^ k" using tp(2) by (simp add: unat_pow2)
  have "unat ((?oas + 2 ^ k - 1) AND - (2 ^ k)) = round_up (unat ?oas) (2 ^ k)"
    using tp(2) room by (intro unat_ROUND_UP) simp_all
  moreover have "?oas + (2 ^ k - 1) = ?oas + 2 ^ k - 1" by simp
  ultimately show "unat (TARGET_PAGE_ALIGN e ?oas) = target_start e s"
    by (simp only: TARGET_PAGE_ALIGN_def TARGET_PAGE_MASK_def tp(1) target_start_def p2)
  have "unat (ucast ?oas + section_size s) = unat ?oas + unat (section_size s)"
    using fit by (intro unat_add_128 [THEN trans]) (simp_all add: unat_ucast_64_128)
  then show "unat (int128_and (int128_add (int128_make64 ?oas) (section_size s))
                     (int128_exts64 (TARGET_PAGE_MASK e))) = target_end e s"
    by (simp add: int128_and_def int128_add_def int128_make64_def int128_exts64_def
          TARGET_PAGE_MASK_def tp(1) scast_neg_pow2 [OF tp(2)] unat_and_neg_pow2
          round_down_def target_end_def p2)
  show "target_end e s \<le> 2 ^ 64"
    using fit round_down_le [of "unat ?oas + unat (section_size s)" "2 ^ k"]
    by (simp add: target_end_def p)
qed

lemma map_ram_section_plain:
  assumes tp: "TARGET_PAGE_SIZE e = 2 ^ k" "k < 64"
    and room: "unat (offset_within_address_space s) + 2 ^ k \<le> 2 ^ 64"
    and fit: "unat (offset_within_address_space s) + unat (section_size s) \<le> 2 ^ 64"
    and ram: "memory_region_is_ram (mr s)"
    and att: "map_attempted e c s"
  shows "vfio_dma_map_ram_section e c None s tr =
           Inr (if status e tr (prereg_map_call e c s) = 0 then None
                else Some (status e tr (prereg_map_call e c s),
                           ''vfio_container_dma_map failed''),
                c, None, tr @ [prereg_map_call e c s])"
proof -
  let ?a = "target_start e s" and ?b = "target_end e s"
  let ?iova = "TARGET_PAGE_ALIGN e (offset_within_address_space s)"
  let ?L = "int128_and
              (int128_add (int128_make64 (offset_within_address_space s)) (section_size s))
              (int128_exts64 (TARGET_PAGE_MASK e))"
  note r = target_page_range [OF tp room fit]
  have ua: "unat ?iova = ?a" and uL: "unat ?L = ?b" and b64: "?b \<le> 2 ^ 64" by (rule r)+
  from att have lt: "?a < ?b" and span: "?b - ?a < 2 ^ 64"
    and plain: "\<not> memory_region_has_ram_discard_manager (mr s)"
               "\<not> memory_region_is_ram_device (mr s)"
    by (simp_all add: map_attempted_def)
  from att obtain w where
    w: "hostwin_from_range c (word_of_nat ?a) (word_of_nat (?b - 1)) = Some w"
    by (auto simp: map_attempted_def)
  have iova: "?iova = word_of_nat ?a" using ua by (rule word_of_nat_unat_eq)
  have um: "unat (int128_make64 ?iova) = ?a"
    by (simp add: int128_make64_def unat_ucast_64_128 ua)
  have "unat (int128_sub ?L int128_one) = ?b - 1"
    using lt by (simp add: int128_sub_def int128_one_def unat_sub_128 uL)
  moreover have "?b - 1 < 2 ^ 64" using b64 lt by simp
  ultimately have g: "int128_get64 (int128_sub ?L int128_one) = Inr (word_of_nat (?b - 1))"
    by (simp add: int128_get64_fits)
  have "unat (int128_sub ?L (int128_make64 ?iova)) = ?b - ?a"
    using lt by (simp add: int128_sub_def unat_sub_128 uL um)
  with span have sz: "int128_get64 (int128_sub ?L (int128_make64 ?iova))
                        = Inr (word_of_nat (?b - ?a))"
    by (simp add: int128_get64_fits)
  have d: "vfio_dma_map_ram_section_dma e c None s (word_of_nat ?a)
             (int128_sub ?L (int128_make64 ?iova))
             (memory_region_get_ram_ptr (mr s) + offset_within_region s
                + (word_of_nat ?a - offset_within_address_space s)) tr =
           Inr (if status e tr (prereg_map_call e c s) = 0 then None
                else Some (status e tr (prereg_map_call e c s),
                           ''vfio_container_dma_map failed''),
                None, tr @ [prereg_map_call e c s])"
    using plain(2)
    by (simp add: vfio_dma_map_ram_section_dma_def sz copy_dma_source_def dma_map_call
          prereg_map_call_def)
  have w': "hostwin_from_range c ?iova (word_of_nat (?b - 1)) = Some w"
    by (simp only: iova w)
  have d': "vfio_dma_map_ram_section_dma e c None s ?iova
             (int128_sub ?L (int128_make64 ?iova))
             (memory_region_get_ram_ptr (mr s) + offset_within_region s
                + (?iova - offset_within_address_space s)) tr =
           Inr (if status e tr (prereg_map_call e c s) = 0 then None
                else Some (status e tr (prereg_map_call e c s),
                           ''vfio_container_dma_map failed''),
                None, tr @ [prereg_map_call e c s])"
    using d by (simp only: iova)
  show ?thesis
    unfolding vfio_dma_map_ram_section_def Let_def
    by (simp only: ram plain g w' d' simp_thms if_True if_False sum.case option.case
          bool.case prod.case)
qed

text \<open>
  C10. The pre-registration listener looks at nothing but whether the region is RAM: for
  a section of another region its region_add and region_del do nothing, and for every RAM
  section, whatever its protected flag and bit 63 of its address, its region_add is
  \<^verbatim>\<open>vfio_dma_map_ram_section\<close> with no source pointer (an error is only reported) and its
  region_del is \<^verbatim>\<open>vfio_dma_unmap_ram_section\<close>. So a RAM section whose map is attempted
  gets its backend map call from region_add, and one whose unmap is attempted gets its
  unmap calls from region_del, also when the main listener would skip the section.
\<close>

theorem prereg_listener_filters_on_ram_only:
  "(\<not> memory_region_is_ram (mr s) \<longrightarrow>
      vfio_prereg_listener_region_add e c s tr = Inr (c, tr) \<and>
      vfio_prereg_listener_region_del e c s tr = Inr (c, tr)) \<and>
   (memory_region_is_ram (mr s) \<longrightarrow>
      vfio_prereg_listener_region_add e c s tr =
        (case vfio_dma_map_ram_section e c None s tr of
           Inl f \<Rightarrow> Inl f
         | Inr (err, c1, src1, tr1) \<Rightarrow>
             Inr (c1, case err of None \<Rightarrow> tr1
                      | Some (r, msg) \<Rightarrow> tr1 @ [Error_report msg])) \<and>
      vfio_prereg_listener_region_del e c s tr = vfio_dma_unmap_ram_section e c s tr \<and>
      (TARGET_PAGE_SIZE e = 2 ^ k \<and> k < 64 \<and>
       unat (offset_within_address_space s) + 2 ^ k \<le> 2 ^ 64 \<and>
       unat (offset_within_address_space s) + unat (section_size s) \<le> 2 ^ 64 \<and>
       map_attempted e c s \<longrightarrow>
         vfio_prereg_listener_region_add e c s tr =
           Inr (c, tr @ prereg_map_call e c s #
                     (if status e tr (prereg_map_call e c s) = 0 then []
                      else [Error_report ''vfio_container_dma_map failed'']))) \<and>
      (qemu_real_host_page_size e = 2 ^ j \<and> j < 64 \<and>
       unat (offset_within_address_space s) + 2 ^ j \<le> 2 ^ 64 \<and>
       unat (offset_within_address_space s) + unat (section_size s) \<le> 2 ^ 64 \<and>
       unmap_attempted e c s \<longrightarrow>
         vfio_prereg_listener_region_del e c s tr =
           Inr (c, direct_unmaps e c (aligned_start e s) (aligned_end e s) tr)))"
proof (cases "memory_region_is_ram (mr s)")
  case False
  then show ?thesis
    by (simp add: vfio_prereg_listener_region_add_def vfio_prereg_listener_region_del_def)
next
  case True
  have add: "vfio_prereg_listener_region_add e c s tr =
        (case vfio_dma_map_ram_section e c None s tr of
           Inl f \<Rightarrow> Inl f
         | Inr (err, c1, src1, tr1) \<Rightarrow>
             Inr (c1, case err of None \<Rightarrow> tr1
                      | Some (r, msg) \<Rightarrow> tr1 @ [Error_report msg]))"
    using True by (simp add: vfio_prereg_listener_region_add_def)
  have del: "vfio_prereg_listener_region_del e c s tr = vfio_dma_unmap_ram_section e c s tr"
    using True by (simp add: vfio_prereg_listener_region_del_def)
  have mapped: "vfio_prereg_listener_region_add e c s tr =
           Inr (c, tr @ prereg_map_call e c s #
                     (if status e tr (prereg_map_call e c s) = 0 then []
                      else [Error_report ''vfio_container_dma_map failed'']))"
    if "TARGET_PAGE_SIZE e = 2 ^ k \<and> k < 64 \<and>
        unat (offset_within_address_space s) + 2 ^ k \<le> 2 ^ 64 \<and>
        unat (offset_within_address_space s) + unat (section_size s) \<le> 2 ^ 64 \<and>
        map_attempted e c s"
  proof -
    from that have h: "TARGET_PAGE_SIZE e = 2 ^ k" "k < 64"
        "unat (offset_within_address_space s) + 2 ^ k \<le> 2 ^ 64"
        "unat (offset_within_address_space s) + unat (section_size s) \<le> 2 ^ 64"
        "map_attempted e c s"
      by simp_all
    show ?thesis
      by (simp add: add map_ram_section_plain [OF h(1-4) True h(5)])
  qed
  have unmapped: "vfio_prereg_listener_region_del e c s tr =
           Inr (c, direct_unmaps e c (aligned_start e s) (aligned_end e s) tr)"
    if "qemu_real_host_page_size e = 2 ^ j \<and> j < 64 \<and>
        unat (offset_within_address_space s) + 2 ^ j \<le> 2 ^ 64 \<and>
        unat (offset_within_address_space s) + unat (section_size s) \<le> 2 ^ 64 \<and>
        unmap_attempted e c s"
  proof -
    from that have h: "qemu_real_host_page_size e = 2 ^ j" "j < 64"
        "unat (offset_within_address_space s) + 2 ^ j \<le> 2 ^ 64"
        "unat (offset_within_address_space s) + unat (section_size s) \<le> 2 ^ 64"
        "unmap_attempted e c s"
      by simp_all
    show ?thesis
      by (simp only: del unmap_ram_section_direct [OF h refl])
  qed
  show ?thesis
  proof (intro conjI impI)
    assume "\<not> memory_region_is_ram (mr s)"
    with True show "vfio_prereg_listener_region_add e c s tr = Inr (c, tr)" by simp
  next
    assume "\<not> memory_region_is_ram (mr s)"
    with True show "vfio_prereg_listener_region_del e c s tr = Inr (c, tr)" by simp
  next
    show "vfio_prereg_listener_region_add e c s tr =
        (case vfio_dma_map_ram_section e c None s tr of
           Inl f \<Rightarrow> Inl f
         | Inr (err, c1, src1, tr1) \<Rightarrow>
             Inr (c1, case err of None \<Rightarrow> tr1
                      | Some (r, msg) \<Rightarrow> tr1 @ [Error_report msg]))"
      by (rule add)
  next
    show "vfio_prereg_listener_region_del e c s tr = vfio_dma_unmap_ram_section e c s tr"
      by (rule del)
  next
    assume "TARGET_PAGE_SIZE e = 2 ^ k \<and> k < 64 \<and>
        unat (offset_within_address_space s) + 2 ^ k \<le> 2 ^ 64 \<and>
        unat (offset_within_address_space s) + unat (section_size s) \<le> 2 ^ 64 \<and>
        map_attempted e c s"
    then show "vfio_prereg_listener_region_add e c s tr =
           Inr (c, tr @ prereg_map_call e c s #
                     (if status e tr (prereg_map_call e c s) = 0 then []
                      else [Error_report ''vfio_container_dma_map failed'']))"
      by (rule mapped)
  next
    assume "qemu_real_host_page_size e = 2 ^ j \<and> j < 64 \<and>
        unat (offset_within_address_space s) + 2 ^ j \<le> 2 ^ 64 \<and>
        unat (offset_within_address_space s) + unat (section_size s) \<le> 2 ^ 64 \<and>
        unmap_attempted e c s"
    then show "vfio_prereg_listener_region_del e c s tr =
           Inr (c, direct_unmaps e c (aligned_start e s) (aligned_end e s) tr)"
      by (rule unmapped)
  qed
qed

text \<open>
  A protected RAM section at \<open>2 ^ 63\<close>, which the main listener skips and the
  pre-registration listener maps and unmaps.
\<close>

theorem prereg_listener_filters_on_ram_only_witness:
  "vfio_listener_skipped_section protected_high_section \<and>
   vfio_prereg_listener_region_add example_env
       (example_container\<lparr>hostwin_list := [full_window]\<rparr>) protected_high_section []
     = Inr (example_container\<lparr>hostwin_list := [full_window]\<rparr>,
            [Dma_map 0 0x8000000000000000 0x2000 0x7f0000000000 False]) \<and>
   vfio_prereg_listener_region_del example_env
       (example_container\<lparr>hostwin_list := [full_window]\<rparr>) protected_high_section []
     = Inr (example_container\<lparr>hostwin_list := [full_window]\<rparr>,
            [Dma_unmap 0 0x8000000000000000 0x2000 None])"
proof -
  let ?c = "example_container\<lparr>hostwin_list := [full_window]\<rparr>"
  have ram: "memory_region_is_ram (mr protected_high_section)"
    by (simp add: protected_high_section_def example_ram_def)
  have sk: "vfio_listener_skipped_section protected_high_section"
    by (simp add: vfio_listener_skipped_section_def protected_high_section_def)
  have pages: "TARGET_PAGE_SIZE example_env = 2 ^ 12"
      "qemu_real_host_page_size example_env = 2 ^ 12" "(12 :: nat) < 64"
    by (simp_all add: example_env_def)
  have room: "unat (offset_within_address_space protected_high_section) + 2 ^ 12
                \<le> (2 :: nat) ^ 64"
    and fit: "unat (offset_within_address_space protected_high_section)
                + unat (section_size protected_high_section) \<le> (2 :: nat) ^ 64"
    by (simp_all add: protected_high_section_def)
  have ts: "target_start example_env protected_high_section = 0x8000000000000000"
      "target_end example_env protected_high_section = 0x8000000000002000"
      "aligned_start example_env protected_high_section = 0x8000000000000000"
      "aligned_end example_env protected_high_section = 0x8000000000002000"
    by (simp_all add: target_start_def target_end_def aligned_start_def aligned_end_def
          round_up_def round_down_def protected_high_section_def example_env_def)
  have ma: "map_attempted example_env ?c protected_high_section"
    unfolding map_attempted_def ts
    by (simp add: protected_high_section_def example_ram_def hostwin_from_range_def
          full_window_def)
  have ua: "unmap_attempted example_env ?c protected_high_section"
    unfolding unmap_attempted_def ts
    by (simp add: protected_high_section_def example_ram_def)
  have call: "prereg_map_call example_env ?c protected_high_section
                = Dma_map 0 0x8000000000000000 0x2000 0x7f0000000000 False"
    unfolding prereg_map_call_def ts
    by (simp add: protected_high_section_def example_ram_def example_container_def)
  have st: "status example_env [] (Dma_map 0 0x8000000000000000 0x2000 0x7f0000000000 False)
              = 0"
    by (simp add: example_env_def)
  have un: "direct_unmaps example_env ?c 0x8000000000000000 0x8000000000002000 []
              = [Dma_unmap 0 0x8000000000000000 0x2000 None]"
    by (simp add: direct_unmaps_def unmap_and_report_trace example_env_def
          example_container_def)
  note inst = prereg_listener_filters_on_ram_only
                [of protected_high_section example_env ?c "[]" 12 12]
  from inst ram pages room fit ma
  have "vfio_prereg_listener_region_add example_env ?c protected_high_section [] =
          Inr (?c, [] @ prereg_map_call example_env ?c protected_high_section #
                     (if status example_env []
                           (prereg_map_call example_env ?c protected_high_section) = 0
                      then []
                      else [Error_report ''vfio_container_dma_map failed'']))"
    by blast
  then have a: "vfio_prereg_listener_region_add example_env ?c protected_high_section [] =
                  Inr (?c, [Dma_map 0 0x8000000000000000 0x2000 0x7f0000000000 False])"
    by (simp only: call st) simp
  from inst ram pages room fit ua
  have "vfio_prereg_listener_region_del example_env ?c protected_high_section [] =
          Inr (?c, direct_unmaps example_env ?c
                     (aligned_start example_env protected_high_section)
                     (aligned_end example_env protected_high_section) [])"
    by blast
  then have d: "vfio_prereg_listener_region_del example_env ?c protected_high_section [] =
                  Inr (?c, [Dma_unmap 0 0x8000000000000000 0x2000 None])"
    by (simp only: ts un)
  from sk a d show ?thesis by (intro conjI)
qed

subsection \<open>Skipped sections\<close>

lemma skip_trace_argument:
  "int128_get64 (int128_sub sz int128_one) =
     (if 0 < unat sz \<and> unat sz \<le> 2 ^ 64 then Inr (word_of_nat (unat sz - 1))
      else Inl (Assert_failed ''int128_get64: r == a''))"
proof (cases "0 < unat sz")
  case True
  then have u: "unat (int128_sub sz int128_one) = unat sz - 1"
    by (simp add: int128_sub_def int128_one_def unat_sub_128)
  show ?thesis
  proof (cases "unat sz \<le> 2 ^ 64")
    case le: True
    with True have "unat (int128_sub sz int128_one) < 2 ^ 64" by (simp add: u)
    from int128_get64_fits [OF this] True le show ?thesis by (simp add: u)
  next
    case False
    then have "2 ^ 64 \<le> unat (int128_sub sz int128_one)" by (simp add: u)
    from int128_not_fits [OF this] False show ?thesis by (simp add: int128_get64_def)
  qed
next
  case False
  then have z: "sz = 0" by (simp add: unat_eq_0)
  have "unat (- 1 :: 128 word) = 2 ^ 128 - 1"
    by (simp add: unsigned_minus_1_eq_mask mask_eq_exp_minus_1)
  then have "2 ^ 64 \<le> unat (int128_sub sz int128_one)"
    by (simp add: int128_sub_def int128_one_def z)
  from int128_not_fits [OF this] False show ?thesis by (simp add: int128_get64_def)
qed

lemma region_add_skipped:
  "vfio_listener_skipped_section s \<Longrightarrow>
   vfio_container_region_add e c src s tr =
     (if 0 < unat (section_size s) \<and> unat (section_size s) \<le> 2 ^ 64
      then Inr (c, src, tr) else Inl (Assert_failed ''int128_get64: r == a''))"
  by (simp add: vfio_container_region_add_def vfio_container_region_add_body_def
        skip_trace_argument)

lemma region_del_skipped:
  "vfio_listener_skipped_section s \<Longrightarrow>
   vfio_container_region_del e c s tr =
     (if 0 < unat (section_size s) \<and> unat (section_size s) \<le> 2 ^ 64
      then Inr (c, tr) else Inl (Assert_failed ''int128_get64: r == a''))"
  by (simp add: vfio_container_region_del_def skip_trace_argument)

lemma region_add_containers_skipped:
  "vfio_listener_skipped_section s \<Longrightarrow>
   region_add_containers e src s tr cs =
     (if (0 < unat (section_size s) \<and> unat (section_size s) \<le> 2 ^ 64) \<or> cs = []
      then Inr (cs, src, tr) else Inl (Assert_failed ''int128_get64: r == a''))"
  by (induction cs) (simp_all add: region_add_skipped)

lemma region_del_containers_skipped:
  "vfio_listener_skipped_section s \<Longrightarrow>
   region_del_containers e s tr cs =
     (if (0 < unat (section_size s) \<and> unat (section_size s) \<le> 2 ^ 64) \<or> cs = []
      then Inr (cs, tr) else Inl (Assert_failed ''int128_get64: r == a''))"
  by (induction cs) (simp_all add: region_del_skipped)

lemma log_sync_containers_skipped:
  "vfio_listener_skipped_section s \<Longrightarrow> log_sync_containers e s tr cs = Inr tr"
  by (induction cs) (simp_all add: vfio_container_log_sync_def)

text \<open>
  C7. For a section whose region is neither RAM nor an IOMMU region, or whose region is
  protected, or whose \<open>offset_within_address_space\<close> has bit 63 set, the main listener
  makes no map, unmap, copy or dirty-bitmap call, and no other call. Its log_sync returns
  with the trace as it was. Its region_add and region_del return with every container and
  the trace as they were when the size of the section is from 1 to \<open>2 ^ 64\<close>; for a size
  of 0 or above \<open>2 ^ 64\<close> the skip branch of the first container stops on the assertion
  of \<^verbatim>\<open>int128_get64\<close>, in an argument of its trace point, before anything is called.
\<close>

theorem skipped_section_no_backend_call:
  assumes "(\<not> memory_region_is_ram (mr s) \<and> \<not> memory_region_is_iommu (mr s)) \<or>
           memory_region_is_protected (mr s) \<or> bit (offset_within_address_space s) 63"
  shows "vfio_listener_region_add e space s tr =
           (if (0 < unat (section_size s) \<and> unat (section_size s) \<le> 2 ^ 64)
               \<or> containers space = []
            then Inr (space, tr) else Inl (Assert_failed ''int128_get64: r == a'')) \<and>
         vfio_listener_region_del e space s tr =
           (if (0 < unat (section_size s) \<and> unat (section_size s) \<le> 2 ^ 64)
               \<or> containers space = []
            then Inr (space, tr) else Inl (Assert_failed ''int128_get64: r == a'')) \<and>
         vfio_listener_log_sync e space s tr = Inr tr"
proof -
  from assms have sk: "vfio_listener_skipped_section s"
    by (simp only: skipped_section_iff)
  show ?thesis
    by (simp add: vfio_listener_region_add_def vfio_listener_region_del_def
          vfio_listener_log_sync_def region_add_containers_skipped [OF sk]
          region_del_containers_skipped [OF sk] log_sync_containers_skipped [OF sk])
qed

theorem skipped_section_no_backend_call_witness:
  "bit (offset_within_address_space bar_sizing_section) 63 \<and>
   vfio_listener_region_add example_env example_space bar_sizing_section []
     = Inr (example_space, []) \<and>
   vfio_listener_region_del example_env example_space bar_sizing_section []
     = Inr (example_space, []) \<and>
   vfio_listener_log_sync example_env example_space bar_sizing_section [] = Inr []"
proof -
  have b: "bit (offset_within_address_space bar_sizing_section) 63"
    by (simp add: bar_sizing_section_def bit_iff_odd)
  then have "(\<not> memory_region_is_ram (mr bar_sizing_section) \<and>
              \<not> memory_region_is_iommu (mr bar_sizing_section)) \<or>
             memory_region_is_protected (mr bar_sizing_section) \<or>
             bit (offset_within_address_space bar_sizing_section) 63"
    by blast
  note inst = skipped_section_no_backend_call [OF this, of example_env example_space "[]"]
  have sz: "0 < unat (section_size bar_sizing_section) \<and>
            unat (section_size bar_sizing_section) \<le> 2 ^ 64"
    by (simp add: bar_sizing_section_def)
  from inst sz b show ?thesis by simp
qed

subsection \<open>The copy and its assertion\<close>





end
